(* ===== verification/Prelude.thy ===== *)
theory Prelude
  imports Main "HOL-Library.List_Lexorder" "HOL-Library.Char_ord" "HOL-Library.Multiset"
begin

text \<open>
  Shared vocabulary of the development: identifiers, HTTP outcomes, the response messages of
  the backend, and the JavaScript idioms the controllers are written with.
  \<^item> \<open>js_index\<close>: an array read \<open>a[i]\<close>, \<open>None\<close> where JavaScript yields \<open>undefined\<close>;
  \<^item> \<open>for_each_assign\<close>: a \<open>forEach\<close> loop whose body assigns an outer variable, so that
    the variable ends up holding the value computed for the last element (outer \<open>None\<close>: the
    body threw a \<open>TypeError\<close>; inner \<open>None\<close>: the variable is still \<open>undefined\<close>);
  \<^item> \<open>compare_by\<close> and \<open>js_sort\<close>: the controllers' \<open>compare(a, b)\<close> functions and
    \<open>Array.prototype.sort\<close>, which ECMAScript 2019 requires to be stable; it is modelled
    as a stable insertion sort driven by the comparator.
  Strings are compared by \<open>List_Lexorder\<close> over \<open>Char_ord\<close>: lexicographic by code,
  as JavaScript's \<open><\<close> on strings of ASCII characters.
\<close>

named_theorems js_simps "evaluation rules of the JavaScript helpers"

type_synonym ident = string

subsection \<open>HTTP outcomes and formats\<close>

text \<open>
  Every handler ends in one of these outcomes; \<open>No_response\<close> is a request that is never
  answered because an exception was thrown inside a promise callback whose rejection no one
  handles.
\<close>

datatype 'a http =
    Http_200 'a
  | Http_402 string
  | Http_404 string
  | Http_422 string
  | Http_500
  | No_response

fun http_status :: "'a http \<Rightarrow> nat option" where
  "http_status (Http_200 _) = Some 200"
| "http_status (Http_402 _) = Some 402"
| "http_status (Http_404 _) = Some 404"
| "http_status (Http_422 _) = Some 422"
| "http_status Http_500 = Some 500"
| "http_status No_response = None"

datatype ('j, 'c) payload = Json 'j | Csv "'c list"

datatype format = Format_json | Format_csv

definition parse_format :: "string option \<Rightarrow> format" where
  "parse_format f = (if f = Some ''csv'' then Format_csv else Format_json)"

abbreviation msg_check_fields :: string where
  "msg_check_fields \<equiv> ''Please check again your answer fields.''"

abbreviation msg_required_first :: string where
  "msg_required_first \<equiv> ''Please answer required questions first.''"

abbreviation msg_cannot_answer :: string where
  "msg_cannot_answer \<equiv> ''Cannot answer that question.''"

abbreviation msg_no_questionnaire :: string where
  "msg_no_questionnaire \<equiv> ''No questionnaire found.''"

abbreviation msg_no_question :: string where
  "msg_no_question \<equiv> ''No question found.''"

abbreviation msg_no_answers :: string where
  "msg_no_answers \<equiv> ''No answers found.''"

abbreviation msg_endpoint_not_found :: string where
  "msg_endpoint_not_found \<equiv> ''Endpoint not found.''"

abbreviation msg_no_file :: string where
  "msg_no_file \<equiv> ''No file provided.''"

subsection \<open>Array reads and forEach assignments\<close>

definition js_index :: "'a list \<Rightarrow> nat \<Rightarrow> 'a option" where
  "js_index xs i = (if i < length xs then Some (xs ! i) else None)"

fun for_each_assign :: "('a \<Rightarrow> 'b option) \<Rightarrow> 'a list \<Rightarrow> 'b option \<Rightarrow> 'b option option" where
  "for_each_assign f [] v = Some v"
| "for_each_assign f (x # xs) v =
     (case f x of None \<Rightarrow> None | Some y \<Rightarrow> for_each_assign f xs (Some y))"

subsection \<open>Comparators and the stable sort\<close>

text \<open>
  \<open>js_lt\<close> is JavaScript's \<open><\<close> on two property reads that are either strings or
  \<open>undefined\<close>; any comparison with \<open>undefined\<close> is false.
\<close>

fun js_lt :: "string option \<Rightarrow> string option \<Rightarrow> bool" where
  "js_lt (Some a) (Some b) = (a < b)"
| "js_lt _ _ = False"

definition compare_by :: "('a \<Rightarrow> string option) \<Rightarrow> 'a \<Rightarrow> 'a \<Rightarrow> int" where
  "compare_by key a b =
     (if js_lt (key a) (key b) then -1 else if js_lt (key b) (key a) then 1 else 0)"

fun js_insert :: "('a \<Rightarrow> 'a \<Rightarrow> int) \<Rightarrow> 'a \<Rightarrow> 'a list \<Rightarrow> 'a list" where
  "js_insert cmp x [] = [x]"
| "js_insert cmp x (y # ys) = (if cmp x y \<le> 0 then x # y # ys else y # js_insert cmp x ys)"

definition js_sort :: "('a \<Rightarrow> 'a \<Rightarrow> int) \<Rightarrow> 'a list \<Rightarrow> 'a list" where
  "js_sort cmp xs = foldr (js_insert cmp) xs []"

subsection \<open>Lemmas on the helpers\<close>

lemma js_index_Some [js_simps]: "i < length xs \<Longrightarrow> js_index xs i = Some (xs ! i)"
  by (simp add: js_index_def)

lemma js_index_None [js_simps]: "length xs \<le> i \<Longrightarrow> js_index xs i = None"
  by (simp add: js_index_def)

lemma js_index_Cons_0 [simp, js_simps]: "js_index (x # xs) 0 = Some x"
  by (simp add: js_index_def)

lemma js_index_Nil [simp, js_simps]: "js_index [] i = None"
  by (simp add: js_index_def)

lemma for_each_assign_single [simp, js_simps]:
  "for_each_assign f [x] v = (case f x of None \<Rightarrow> None | Some y \<Rightarrow> Some (Some y))"
  by (cases "f x") simp_all

text \<open>A body that never throws leaves the value computed for the last element.\<close>

lemma for_each_assign_total:
  "for_each_assign (\<lambda>x. Some (g x)) xs v = Some (if xs = [] then v else Some (g (last xs)))"
  by (induction xs arbitrary: v) auto

lemma for_each_assign_Some_last:
  assumes "\<forall>x\<in>set xs. f x \<noteq> None" and "xs \<noteq> []"
  shows "for_each_assign f xs v = Some (f (last xs))"
  using assms
proof (induction xs arbitrary: v)
  case Nil
  then show ?case by simp
next
  case (Cons x xs)
  then obtain y where "f x = Some y" by auto
  with Cons show ?case by (cases xs) auto
qed

lemma compare_by_Some_le:
  "compare_by (\<lambda>x. Some (k x)) a b \<le> 0 \<longleftrightarrow> k a \<le> k b"
  by (auto simp: compare_by_def)

lemma js_insert_key: "js_insert (compare_by (\<lambda>x. Some (k x))) x ys = insort_key k x ys"
  by (induction ys) (auto simp: compare_by_Some_le)

text \<open>With a consistent key comparator, the model of the sort is the library's stable sort.\<close>

lemma js_sort_key [js_simps]: "js_sort (compare_by (\<lambda>x. Some (k x))) xs = sort_key k xs"
  by (induction xs) (simp_all add: js_sort_def sort_key_def js_insert_key)

text \<open>A comparator that reads a property the elements do not have returns 0 on every pair.\<close>

lemma compare_by_undefined: "compare_by (\<lambda>_. None) a b = 0"
  by (simp add: compare_by_def)

lemma js_insert_zero: "js_insert (\<lambda>_ _. 0) x ys = x # ys"
  by (cases ys) simp_all

lemma js_sort_undefined_key [js_simps]: "js_sort (compare_by (\<lambda>_. None)) xs = xs"
  by (induction xs) (simp_all add: js_sort_def compare_by_undefined js_insert_zero)

subsection \<open>Case-insensitive matching\<close>

text \<open>
  The lower-casing of ASCII letters, as JavaScript's case-insensitive regular expressions fold
  the letters of a path; other characters are left as they are (no other character folds to
  an ASCII letter in non-Unicode mode).
\<close>

definition ascii_lower :: "char \<Rightarrow> char" where
  "ascii_lower c = (if CHR ''A'' \<le> c \<and> c \<le> CHR ''Z'' then char_of (of_char c + (32::nat)) else c)"

lemmas ascii_lower_eval = ascii_lower_def char_of_def bit_0

subsection \<open>List lemmas shared by the components\<close>

text \<open>A query whose condition implies a coarser one can be run on the coarser result.\<close>

lemma filter_narrow:
  assumes "\<And>x. P x \<Longrightarrow> Q x"
  shows "filter P xs = filter P (filter Q xs)"
  using assms by (induction xs) auto

text \<open>A query that implies the condition of a deletion finds nothing after it.\<close>

lemma filter_deleted: "(\<And>x. P x \<Longrightarrow> Q x) \<Longrightarrow> filter P (filter (\<lambda>x. \<not> Q x) xs) = []"
  by (induction xs) auto

lemma length_le_1_same:
  "length xs \<le> 1 \<Longrightarrow> x \<in> set xs \<Longrightarrow> y \<in> set xs \<Longrightarrow> x = y"
  by (cases xs) auto

lemma sum_list_map_update:
  fixes f :: "'a \<Rightarrow> nat"
  assumes "i < length xs"
  shows "sum_list (map f (xs[i := x])) + f (xs ! i) = sum_list (map f xs) + f x"
  using assms
proof (induction xs arbitrary: i)
  case (Cons y ys)
  show ?case
  proof (cases i)
    case 0
    then show ?thesis by (simp add: add_ac)
  next
    case (Suc j)
    with Cons.prems Cons.IH[of j] show ?thesis by (simp add: add.assoc)
  qed
qed simp

lemma sorted_js_sort_key: "sorted (map k (js_sort (compare_by (\<lambda>x. Some (k x))) xs))"
  by (simp add: js_sort_key)

lemma mset_js_sort_key: "mset (js_sort (compare_by (\<lambda>x. Some (k x))) xs) = mset xs"
  by (simp add: js_sort_key)

end
