(* ===== verification/Store.thy ===== *)
theory Store
  imports Prelude
begin

text \<open>
  The persistent data of the backend, as the Mongoose schemas of
  \<open>src/api-backend/models/questionnaire.js\<close> and \<open>src/api-backend/models/answer.js\<close>
  declare it, and the store holding the two collections. Each schema becomes a record with the
  schema's field names (\<open>type\<close> is \<open>qtype\<close>, \<open>keywords\<close> is \<open>keyword_list\<close>, \<open>options\<close> elements are \<open>opt\<close>); the
  questions of a questionnaire extend \<open>question_head\<close>, the part of a question that the
  questionnaire endpoint projects (it drops \<open>options\<close>).

  The collections are lists in insertion order, which is the order in which MongoDB returns
  unsorted query results here. The Mongoose calls the controllers make are abbreviations over
  these lists: \<open>find\<close> is \<open>filter\<close>, \<open>save\<close> and \<open>insertMany\<close> append,
  \<open>deleteMany\<close> keeps the documents the filter rejects. A \<open>required: true\<close> string field
  rejects the empty string, which is what \<open>*_schema_ok\<close> check before a write.
\<close>

record opt =
  optID :: ident
  opttxt :: string
  nextqID :: ident

record question_head =
  qID :: ident
  qtext :: string
  required :: string
  qtype :: string

record question = question_head +
  options :: "opt list"

record questionnaire =
  questionnaireID :: ident
  questionnaireTitle :: string
  keyword_list :: "string list"
  questions :: "question list"

record answer =
  questionnaireIDRef :: ident
  qIDRef :: ident
  ans :: ident
  session :: ident

record store =
  questionnaires :: "questionnaire list"
  answers :: "answer list"

definition empty_store :: store where
  "empty_store = \<lparr>questionnaires = [], answers = []\<rparr>"

subsection \<open>Sample documents\<close>

text \<open>
  The questionnaire of the specification's scenarios: \<open>Q01\<close> is required and branches to
  \<open>Q02\<close> or \<open>Q03\<close>; \<open>Q02\<close> leads to \<open>Q03\<close>, so \<open>Q03\<close> has two predecessors.
\<close>

definition sample_q01 :: question where
  "sample_q01 =
     \<lparr>qID = ''Q01'', qtext = ''Do you use the service?'', required = ''TRUE'', qtype = ''question'',
      options = [\<lparr>optID = ''Q01A1'', opttxt = ''Yes'', nextqID = ''Q02''\<rparr>,
                 \<lparr>optID = ''Q01A2'', opttxt = ''No'', nextqID = ''Q03''\<rparr>]\<rparr>"

definition sample_q02 :: question where
  "sample_q02 =
     \<lparr>qID = ''Q02'', qtext = ''How often?'', required = ''FALSE'', qtype = ''question'',
      options = [\<lparr>optID = ''Q02A1'', opttxt = ''Daily'', nextqID = ''Q03''\<rparr>]\<rparr>"

definition sample_q03 :: question where
  "sample_q03 =
     \<lparr>qID = ''Q03'', qtext = ''Any comment?'', required = ''FALSE'', qtype = ''question'',
      options = [\<lparr>optID = ''Q03A1'', opttxt = ''None'', nextqID = ''-''\<rparr>]\<rparr>"

definition sample_questionnaire :: questionnaire where
  "sample_questionnaire =
     \<lparr>questionnaireID = ''QQ000'', questionnaireTitle = ''Service survey'',
      keyword_list = [''service''], questions = [sample_q01, sample_q02, sample_q03]\<rparr>"

text \<open>A second questionnaire whose first question is optional.\<close>

definition sample_optional :: questionnaire where
  "sample_optional =
     \<lparr>questionnaireID = ''QQ001'', questionnaireTitle = ''Optional start'',
      keyword_list = [''service''],
      questions = [sample_q01\<lparr>required := ''FALSE''\<rparr>, sample_q02, sample_q03]\<rparr>"

definition sample_store :: store where
  "sample_store = \<lparr>questionnaires = [sample_questionnaire, sample_optional], answers = []\<rparr>"

subsection \<open>Schema validation\<close>

definition opt_schema_ok :: "opt \<Rightarrow> bool" where
  "opt_schema_ok x \<longleftrightarrow> optID x \<noteq> [] \<and> opttxt x \<noteq> [] \<and> nextqID x \<noteq> []"

definition question_schema_ok :: "question \<Rightarrow> bool" where
  "question_schema_ok q \<longleftrightarrow>
     qID q \<noteq> [] \<and> qtext q \<noteq> [] \<and> required q \<noteq> [] \<and> qtype q \<noteq> [] \<and>
     list_all opt_schema_ok (options q)"

definition questionnaire_schema_ok :: "questionnaire \<Rightarrow> bool" where
  "questionnaire_schema_ok qn \<longleftrightarrow>
     questionnaireID qn \<noteq> [] \<and> questionnaireTitle qn \<noteq> [] \<and>
     list_all (\<lambda>k. k \<noteq> []) (keyword_list qn) \<and> list_all question_schema_ok (questions qn)"

definition answer_schema_ok :: "answer \<Rightarrow> bool" where
  "answer_schema_ok a \<longleftrightarrow>
     questionnaireIDRef a \<noteq> [] \<and> qIDRef a \<noteq> [] \<and> ans a \<noteq> [] \<and> session a \<noteq> []"

subsection \<open>The Mongoose calls\<close>

abbreviation find_questionnaires :: "store \<Rightarrow> (questionnaire \<Rightarrow> bool) \<Rightarrow> questionnaire list" where
  "find_questionnaires d P \<equiv> filter P (questionnaires d)"

abbreviation find_answers :: "store \<Rightarrow> (answer \<Rightarrow> bool) \<Rightarrow> answer list" where
  "find_answers d P \<equiv> filter P (answers d)"

abbreviation insert_answer :: "store \<Rightarrow> answer \<Rightarrow> store" where
  "insert_answer d a \<equiv> d\<lparr>answers := answers d @ [a]\<rparr>"

abbreviation insert_questionnaires :: "store \<Rightarrow> questionnaire list \<Rightarrow> store" where
  "insert_questionnaires d qs \<equiv> d\<lparr>questionnaires := questionnaires d @ qs\<rparr>"

abbreviation delete_answers :: "store \<Rightarrow> (answer \<Rightarrow> bool) \<Rightarrow> store" where
  "delete_answers d P \<equiv> d\<lparr>answers := filter (\<lambda>a. \<not> P a) (answers d)\<rparr>"

abbreviation delete_questionnaires :: "store \<Rightarrow> (questionnaire \<Rightarrow> bool) \<Rightarrow> store" where
  "delete_questionnaires d P \<equiv> d\<lparr>questionnaires := filter (\<lambda>q. \<not> P q) (questionnaires d)\<rparr>"

lemmas sample_defs = sample_q01_def sample_q02_def sample_q03_def sample_questionnaire_def
  sample_optional_def sample_store_def

end
