(* ===== verification/AnswerFlow.thy ===== *)
theory AnswerFlow
  imports Store
begin

text \<open>
  The answer-submission handler \<open>exports.postAnswer\<close> of
  \<open>src/api-backend/controllers/operational.js\<close> (lines 282--461), the core of the backend.
  The handler is a chain of store queries; each query is a \<open>filter\<close> over the store and
  each \<open>forEach\<close> that assigns an outer variable is \<open>for_each_assign\<close>, so that the
  model also covers stores holding several documents with the same questionnaire id.
  \<^item> \<open>answer_fields_match\<close>: the existence query (lines 288--301);
  \<^item> \<open>first_answer_check\<close> and \<open>first_answer_loop\<close>: the branch for a session's first
    answer (lines 314--380), with the \<open>for\<close> loop over question indices as a function
    terminating by the measure \<open>n - i\<close>;
  \<^item> \<open>later_answer_check\<close>: the branch for a session with earlier answers (lines 388--433);
  \<^item> \<open>save_answer\<close>: \<open>new Answer(...).save()\<close> with Mongoose validation;
  \<^item> \<open>post_answer\<close>: the whole handler, returning the response and the new store.
  A \<open>TypeError\<close> inside these callbacks rejects a promise nobody handles, so the
  request is never answered: the verdict \<open>Type_error\<close> and the response
  \<open>No_response\<close>.
\<close>

datatype verdict = Pass | Required_first | Cannot_answer | Type_error

subsection \<open>The queries\<close>

definition answer_fields_match :: "ident \<Rightarrow> ident \<Rightarrow> ident \<Rightarrow> questionnaire \<Rightarrow> bool" where
  "answer_fields_match qnid qid oid qn \<longleftrightarrow>
     questionnaireID qn = qnid \<and>
     list_ex (\<lambda>q. qID q = qid \<and> list_ex (\<lambda>x. optID x = oid) (options q)) (questions qn)"

definition session_filter :: "ident \<Rightarrow> ident \<Rightarrow> answer \<Rightarrow> bool" where
  "session_filter qnid s a \<longleftrightarrow> questionnaireIDRef a = qnid \<and> session a = s"

definition points_to :: "ident \<Rightarrow> question \<Rightarrow> bool" where
  "points_to qid q \<longleftrightarrow> list_ex (\<lambda>x. nextqID x = qid) (options q)"

definition new_answer :: "ident \<Rightarrow> ident \<Rightarrow> ident \<Rightarrow> ident \<Rightarrow> answer" where
  "new_answer qnid qid s oid =
     \<lparr>questionnaireIDRef = qnid, qIDRef = qid, ans = oid, session = s\<rparr>"

definition save_answer :: "store \<Rightarrow> answer \<Rightarrow> answer http \<times> store" where
  "save_answer d a =
     (if answer_schema_ok a then (Http_200 a, insert_answer d a) else (Http_500, d))"

subsection \<open>First answer of a session\<close>

text \<open>
  One iteration of the loop at index \<open>i\<close> reads \<open>re.questions[i].qID\<close> and
  \<open>re.questions[j].required\<close> with \<open>j = i - 1\<close> in every matching document.
\<close>

definition loop_fields :: "nat \<Rightarrow> questionnaire \<Rightarrow> (ident \<times> string) option" where
  "loop_fields i re =
     (case js_index (questions re) i of
        None \<Rightarrow> None
      | Some q \<Rightarrow> map_option (\<lambda>p. (qID q, required p)) (js_index (questions re) (i - 1)))"

function first_answer_loop ::
  "questionnaire list \<Rightarrow> ident \<Rightarrow> nat \<Rightarrow> nat \<Rightarrow> (ident \<times> string) option \<Rightarrow> verdict" where
  "first_answer_loop result qid n i cur =
     (if i < n then
        (case for_each_assign (loop_fields i) result cur of
           None \<Rightarrow> Type_error
         | Some v \<Rightarrow>
             (if map_option fst v \<noteq> Some qid then
                (if map_option snd v = Some ''TRUE'' then Required_first
                 else first_answer_loop result qid n (Suc i) v)
              else if map_option snd v = Some ''TRUE'' then Required_first
              else Pass))
      else Pass)"
  by pat_completeness auto
termination
  by (relation "measure (\<lambda>(result, qid, n, i, cur). n - i)") auto

definition first_fields :: "questionnaire \<Rightarrow> (ident \<times> string \<times> nat) option" where
  "first_fields re =
     map_option (\<lambda>q. (qID q, required q, length (questions re))) (js_index (questions re) 0)"

definition first_answer_check :: "questionnaire list \<Rightarrow> ident \<Rightarrow> verdict" where
  "first_answer_check result qid =
     (case for_each_assign first_fields result None of
        None \<Rightarrow> Type_error
      | Some v \<Rightarrow>
          (if map_option fst v = Some qid then Pass
           else first_answer_loop result qid
                  (case v of None \<Rightarrow> 0 | Some (_, _, n) \<Rightarrow> n) 1
                  (map_option (\<lambda>(f, r, _). (f, r)) v)))"

subsection \<open>Later answers of a session\<close>

text \<open>
  The predecessor query projects \<open>questions.$\<close>: the first question of each matching
  document that has an option leading to \<open>qid\<close>. When no document matches,
  \<open>previousQuestion\<close> stays \<open>undefined\<close> (\<open>None\<close>); the answer query on an undefined
  \<open>qIDRef\<close> matches no answer, because \<open>qIDRef\<close> is a required field.
\<close>

definition projected_predecessor :: "ident \<Rightarrow> questionnaire \<Rightarrow> ident option" where
  "projected_predecessor qid r = map_option qID (find (points_to qid) (questions r))"

definition predecessor_match :: "ident \<Rightarrow> ident \<Rightarrow> questionnaire \<Rightarrow> bool" where
  "predecessor_match qnid qid qn \<longleftrightarrow>
     questionnaireID qn = qnid \<and> list_ex (points_to qid) (questions qn)"

definition previous_answer_filter :: "ident \<Rightarrow> ident option \<Rightarrow> ident \<Rightarrow> answer \<Rightarrow> bool" where
  "previous_answer_filter qnid prev s a \<longleftrightarrow>
     questionnaireIDRef a = qnid \<and> Some (qIDRef a) = prev \<and> session a = s"

definition telos_match :: "ident \<Rightarrow> ident option \<Rightarrow> ident \<Rightarrow> ident \<Rightarrow> questionnaire \<Rightarrow> bool" where
  "telos_match qnid prev atp qid qn \<longleftrightarrow>
     questionnaireID qn = qnid \<and>
     list_ex (\<lambda>q. Some (qID q) = prev) (questions qn) \<and>
     list_ex (\<lambda>q. list_ex (\<lambda>x. optID x = atp \<and> nextqID x = qid) (options q)) (questions qn)"

definition later_answer_check :: "store \<Rightarrow> ident \<Rightarrow> ident \<Rightarrow> ident \<Rightarrow> verdict" where
  "later_answer_check d qnid qid s =
     (case for_each_assign (projected_predecessor qid)
             (find_questionnaires d (predecessor_match qnid qid)) None of
        None \<Rightarrow> Type_error
      | Some prev \<Rightarrow>
          (let ap = find_answers d (previous_answer_filter qnid prev s) in
           if ap = [] then Cannot_answer
           else
             (let atp = ans (last ap) in
              if find_questionnaires d (telos_match qnid prev atp qid) = [] then Cannot_answer
              else Pass)))"

subsection \<open>The handler\<close>

definition post_answer :: "store \<Rightarrow> ident \<Rightarrow> ident \<Rightarrow> ident \<Rightarrow> ident \<Rightarrow> answer http \<times> store" where
  "post_answer d qnid qid s oid =
     (let result = find_questionnaires d (answer_fields_match qnid qid oid) in
      if result = [] then (Http_402 msg_check_fields, d)
      else
        (let apotel = find_answers d (session_filter qnid s);
             v = (if apotel = [] then first_answer_check result qid
                  else later_answer_check d qnid qid s)
         in case v of
              Pass \<Rightarrow> save_answer d (new_answer qnid qid s oid)
            | Required_first \<Rightarrow> (Http_402 msg_required_first, d)
            | Cannot_answer \<Rightarrow> (Http_402 msg_cannot_answer, d)
            | Type_error \<Rightarrow> (No_response, d)))"


subsection \<open>The store invariant\<close>

text \<open>
  Every stored answer passed the schema and names a question of a stored questionnaire
  together with one of that question's options.
\<close>

definition answer_refers :: "store \<Rightarrow> answer \<Rightarrow> bool" where
  "answer_refers d a \<longleftrightarrow>
     list_ex (answer_fields_match (questionnaireIDRef a) (qIDRef a) (ans a)) (questionnaires d)"

definition answers_valid :: "store \<Rightarrow> bool" where
  "answers_valid d \<longleftrightarrow> list_all (\<lambda>a. answer_schema_ok a \<and> answer_refers d a) (answers d)"

subsection \<open>The validator's contract\<close>

text \<open>
  The contract \<open>validateAndRecord\<close> of the specification (section 4.1), over one questionnaire
  and the session's earlier answers \<open>sa\<close> to it, in store order:
  \<^enum> the question must exist with the chosen option;
  \<^enum> on the session's first answer, no question before the first occurrence of \<open>qid\<close> in
    the question order may be required (the literal string \<open>TRUE\<close>);
  \<^enum> on a later answer, some question \<open>p\<close> must have been answered by the session, and the
    option of \<open>p\<close> chosen last must lead to \<open>qid\<close>.
  \<open>enact\<close> carries a decision out: an accepted answer is saved, a rejection is a 402.
\<close>

datatype decision = Accept | Reject string

definition not_required :: "question \<Rightarrow> bool" where
  "not_required q \<longleftrightarrow> required q \<noteq> ''TRUE''"

definition last_answer_to :: "answer list \<Rightarrow> ident \<Rightarrow> ident option" where
  "last_answer_to sa p =
     (case filter (\<lambda>a. qIDRef a = p) sa of [] \<Rightarrow> None | xs \<Rightarrow> Some (ans (last xs)))"

definition leads_via :: "answer list \<Rightarrow> ident \<Rightarrow> question \<Rightarrow> bool" where
  "leads_via sa qid p \<longleftrightarrow>
     (case last_answer_to sa (qID p) of
        None \<Rightarrow> False
      | Some c \<Rightarrow> list_ex (\<lambda>x. optID x = c \<and> nextqID x = qid) (options p))"

definition spec_decision :: "questionnaire \<Rightarrow> answer list \<Rightarrow> ident \<Rightarrow> ident \<Rightarrow> decision" where
  "spec_decision qn sa qid oid =
     (if \<not> list_ex (\<lambda>q. qID q = qid \<and> list_ex (\<lambda>x. optID x = oid) (options q)) (questions qn)
      then Reject msg_check_fields
      else if sa = [] then
        (if list_all not_required (takeWhile (\<lambda>q. qID q \<noteq> qid) (questions qn)) then Accept
         else Reject msg_required_first)
      else if list_ex (leads_via sa qid) (questions qn) then Accept
      else Reject msg_cannot_answer)"

definition enact :: "store \<Rightarrow> answer \<Rightarrow> decision \<Rightarrow> answer http \<times> store" where
  "enact d a dec = (case dec of Accept \<Rightarrow> save_answer d a | Reject m \<Rightarrow> (Http_402 m, d))"

subsection \<open>Sample stores along the question graph of the sample questionnaire\<close>

definition after_q01 :: store where
  "after_q01 = sample_store\<lparr>answers := [new_answer ''QQ000'' ''Q01'' ''AAAA'' ''Q01A1'']\<rparr>"

definition after_q02 :: store where
  "after_q02 = sample_store\<lparr>answers :=
     [new_answer ''QQ000'' ''Q01'' ''AAAA'' ''Q01A1'', new_answer ''QQ000'' ''Q02'' ''AAAA'' ''Q02A1'']\<rparr>"

definition duplicate_id_store :: store where
  "duplicate_id_store =
     \<lparr>questionnaires = [sample_questionnaire\<lparr>questions := [sample_q03]\<rparr>, sample_questionnaire],
      answers = []\<rparr>"


definition shared_ids_questionnaire :: questionnaire where
  "shared_ids_questionnaire =
     \<lparr>questionnaireID = ''QQ002'', questionnaireTitle = ''Per-question option ids'',
      keyword_list = [''service''],
      questions =
        [sample_q01\<lparr>options := [\<lparr>optID = ''A1'', opttxt = ''Yes'', nextqID = ''Q02''\<rparr>,
                                \<lparr>optID = ''A2'', opttxt = ''No'', nextqID = ''Q03''\<rparr>]\<rparr>,
         sample_q02\<lparr>options := [\<lparr>optID = ''A1'', opttxt = ''Daily'', nextqID = ''Q03''\<rparr>]\<rparr>,
         sample_q03\<lparr>options := [\<lparr>optID = ''A1'', opttxt = ''None'', nextqID = ''-''\<rparr>]\<rparr>]\<rparr>"

definition shared_ids_store :: store where
  "shared_ids_store =
     \<lparr>questionnaires = [shared_ids_questionnaire],
      answers = [new_answer ''QQ002'' ''Q01'' ''AAAA'' ''A1'']\<rparr>"

subsection \<open>Lemmas on the queries\<close>

declare first_answer_loop.simps [simp del]

lemma single_doc_id:
  "find_questionnaires d (\<lambda>qn. questionnaireID qn = qnid) = [qn] \<Longrightarrow> questionnaireID qn = qnid"
  by (metis (mono_tags, lifting) filter_eq_Cons_iff)

text \<open>With one document per questionnaire id, every query of the handler that fixes the id
  returns that document or nothing.\<close>

lemma find_single_doc:
  assumes "find_questionnaires d (\<lambda>qn. questionnaireID qn = qnid) = [qn]"
    and "\<And>r. P r \<Longrightarrow> questionnaireID r = qnid"
  shows "find_questionnaires d P = (if P qn then [qn] else [])"
proof -
  have "find_questionnaires d P =
        filter P (find_questionnaires d (\<lambda>qn. questionnaireID qn = qnid))"
    by (rule filter_narrow) (rule assms(2))
  also have "\<dots> = filter P [qn]" by (simp only: assms(1))
  finally show ?thesis by simp
qed

lemma leads_via_points_to: "leads_via sa qid p \<Longrightarrow> points_to qid p"
  by (auto simp: leads_via_def points_to_def list_ex_iff split: option.splits)

subsection \<open>The first-answer loop against its reference\<close>

lemma loop_fields_at:
  "0 < i \<Longrightarrow> i < length (questions re) \<Longrightarrow>
   loop_fields i re = Some (qID (questions re ! i), required (questions re ! (i - 1)))"
  by (simp add: loop_fields_def js_index_def)

text \<open>
  On one document, the loop from index \<open>i\<close> checks the \<open>required\<close> field of every
  question from index \<open>i - 1\<close> up to the one before \<open>qid\<close>: computation induction on
  the loop, one unfolding per iteration.
\<close>

lemma first_answer_loop_single:
  assumes "0 < i" "i \<le> length (questions re)"
    and "qid \<notin> qID ` set (take i (questions re))" "qid \<in> qID ` set (questions re)"
  shows "first_answer_loop [re] qid (length (questions re)) i cur =
           (if list_all not_required (takeWhile (\<lambda>q. qID q \<noteq> qid) (drop (i - 1) (questions re)))
            then Pass else Required_first)"
  using assms
proof (induction "[re]" qid "length (questions re)" i cur rule: first_answer_loop.induct)
  case (1 qid i cur)
  let ?qs = "questions re"
  note unfold = first_answer_loop.simps [of "[re]" qid "length ?qs" i cur]
  have lt: "i < length ?qs"
  proof (rule ccontr)
    assume "\<not> i < length ?qs"
    with "1.prems"(3,4) show False by simp
  qed
  have prev: "qID (?qs ! (i - 1)) \<noteq> qid"
    using "1.prems"(1,3) lt
    by (metis diff_less image_eqI in_set_conv_nth length_take less_numeral_extra(1) min.absorb4 nth_take)
  have drop_eq: "drop (i - 1) ?qs = ?qs ! (i - 1) # drop i ?qs"
    using "1.prems"(1) lt by (metis Cons_nth_drop_Suc Suc_diff_1 less_imp_diff_less)
  show ?case
  proof (cases "qID (?qs ! i) = qid")
    case True
    have "drop i ?qs = ?qs ! i # drop (Suc i) ?qs" using lt by (rule Cons_nth_drop_Suc [symmetric])
    with True lt prev drop_eq "1.prems"(1) show ?thesis
      by (simp add: unfold loop_fields_at not_required_def)
  next
    case False
    have take_suc: "qid \<notin> qID ` set (take (Suc i) ?qs)"
      using "1.prems"(3) False lt by (simp add: take_Suc_conv_app_nth)
    show ?thesis
    proof (cases "required (?qs ! (i - 1)) = ''TRUE''")
      case True
      with False lt prev drop_eq "1.prems"(1) show ?thesis
        by (simp add: unfold loop_fields_at not_required_def)
    next
      case notreq: False
      have IH: "first_answer_loop [re] qid (length ?qs) (Suc i)
                  (Some (qID (?qs ! i), required (?qs ! (i - 1)))) =
           (if list_all not_required (takeWhile (\<lambda>q. qID q \<noteq> qid) (drop i ?qs))
            then Pass else Required_first)"
        using "1.hyps"[of "Some (qID (?qs ! i), required (?qs ! (i - 1)))"]
          lt False notreq take_suc "1.prems"(1,4) loop_fields_at[of i re]
        by simp
      from lt False notreq prev drop_eq "1.prems"(1) IH show ?thesis
        by (simp add: unfold loop_fields_at not_required_def)
    qed
  qed
qed

lemma first_answer_check_single:
  assumes "qid \<in> qID ` set (questions re)"
  shows "first_answer_check [re] qid =
           (if list_all not_required (takeWhile (\<lambda>q. qID q \<noteq> qid) (questions re))
            then Pass else Required_first)"
proof (cases "questions re")
  case Nil
  with assms show ?thesis by simp
next
  case (Cons q0 rest)
  show ?thesis
  proof (cases "qID q0 = qid")
    case True
    with Cons show ?thesis by (simp add: first_answer_check_def first_fields_def)
  next
    case False
    have "first_answer_loop [re] qid (length (questions re)) 1 (Some (qID q0, required q0)) =
          (if list_all not_required (takeWhile (\<lambda>q. qID q \<noteq> qid) (drop 0 (questions re)))
           then Pass else Required_first)"
      using first_answer_loop_single[of 1 re qid] assms Cons False by simp
    with Cons False show ?thesis by (simp add: first_answer_check_def first_fields_def)
  qed
qed

subsection \<open>The later-answer branch against the contract\<close>

text \<open>
  With one document and at most one question leading to \<open>qid\<close>, the three queries of the
  branch decide exactly the contract's reachability condition. Every option that leads to
  \<open>qid\<close> lies in that one predecessor, so the final query, which does not tie the option
  to the predecessor, cannot find a different one.
\<close>

lemma later_answer_check_single:
  assumes single: "find_questionnaires d (\<lambda>qn. questionnaireID qn = qnid) = [qn]"
    and pred: "length (filter (points_to qid) (questions qn)) \<le> 1"
  shows "later_answer_check d qnid qid s =
           (if list_ex (leads_via (find_answers d (session_filter qnid s)) qid) (questions qn)
            then Pass else Cannot_answer)"
proof (cases "find (points_to qid) (questions qn)")
  case None
  then have "\<not> list_ex (points_to qid) (questions qn)"
    by (simp add: find_None_iff list_ex_iff)
  moreover from this have "find_questionnaires d (predecessor_match qnid qid) = []"
    using find_single_doc[OF single, of "predecessor_match qnid qid"]
    by (simp add: predecessor_match_def)
  ultimately show ?thesis
    by (auto simp: later_answer_check_def previous_answer_filter_def list_ex_iff
             dest: leads_via_points_to)
next
  case (Some P)
  let ?sa = "find_answers d (session_filter qnid s)"
  let ?ap = "find_answers d (previous_answer_filter qnid (Some (qID P)) s)"
  have P: "P \<in> set (questions qn)" "points_to qid P"
    using Some by (auto simp: find_Some_iff)
  have only_P: "p = P" if "p \<in> set (questions qn)" "points_to qid p" for p
    using length_le_1_same[OF pred] that P by simp
  have docs: "find_questionnaires d (predecessor_match qnid qid) = [qn]"
    using find_single_doc[OF single, of "predecessor_match qnid qid"] P single_doc_id[OF single]
    by (auto simp: predecessor_match_def list_ex_iff)
  have prev: "for_each_assign (projected_predecessor qid) [qn] None = Some (Some (qID P))"
    using Some by (simp add: projected_predecessor_def)
  have ap: "?ap = filter (\<lambda>a. qIDRef a = qID P) ?sa"
    by (auto simp: previous_answer_filter_def session_filter_def filter_filter intro: filter_cong)
  have lat: "last_answer_to ?sa (qID P) = (if ?ap = [] then None else Some (ans (last ?ap)))"
    using ap by (simp add: last_answer_to_def split: list.split)
  have spec: "list_ex (leads_via ?sa qid) (questions qn) \<longleftrightarrow> leads_via ?sa qid P"
  proof
    assume "list_ex (leads_via ?sa qid) (questions qn)"
    then obtain p where "p \<in> set (questions qn)" "leads_via ?sa qid p"
      by (auto simp: list_ex_iff)
    with only_P leads_via_points_to show "leads_via ?sa qid P" by metis
  next
    assume "leads_via ?sa qid P"
    with P(1) show "list_ex (leads_via ?sa qid) (questions qn)" by (auto simp: list_ex_iff)
  qed
  show ?thesis
  proof (cases "?ap = []")
    case True
    then show ?thesis
      using docs prev spec ap by (simp add: later_answer_check_def leads_via_def lat)
  next
    case False
    let ?atp = "ans (last ?ap)"
    have telos: "telos_match qnid (Some (qID P)) ?atp qid qn \<longleftrightarrow>
                 list_ex (\<lambda>x. optID x = ?atp \<and> nextqID x = qid) (options P)"
    proof
      assume "telos_match qnid (Some (qID P)) ?atp qid qn"
      then obtain q x where q: "q \<in> set (questions qn)" "x \<in> set (options q)"
        "optID x = ?atp" "nextqID x = qid"
        by (auto simp: telos_match_def list_ex_iff)
      then have "points_to qid q" by (auto simp: points_to_def list_ex_iff)
      with q(1) only_P have "q = P" by blast
      with q show "list_ex (\<lambda>x. optID x = ?atp \<and> nextqID x = qid) (options P)"
        by (auto simp: list_ex_iff)
    next
      assume "list_ex (\<lambda>x. optID x = ?atp \<and> nextqID x = qid) (options P)"
      with P single_doc_id[OF single] show "telos_match qnid (Some (qID P)) ?atp qid qn"
        by (auto simp: telos_match_def list_ex_iff)
    qed
    have "find_questionnaires d (telos_match qnid (Some (qID P)) ?atp qid) =
          (if telos_match qnid (Some (qID P)) ?atp qid qn then [qn] else [])"
      by (rule find_single_doc[OF single]) (simp add: telos_match_def)
    with False docs prev spec ap telos show ?thesis
      by (simp add: later_answer_check_def leads_via_def lat Let_def)
  qed
qed

lemma answer_fields_single:
  assumes "find_questionnaires d (\<lambda>qn. questionnaireID qn = qnid) = [qn]"
  shows "find_questionnaires d (answer_fields_match qnid qid oid) =
           (if list_ex (\<lambda>q. qID q = qid \<and> list_ex (\<lambda>x. optID x = oid) (options q)) (questions qn)
            then [qn] else [])"
  using find_single_doc[OF assms, of "answer_fields_match qnid qid oid"] single_doc_id[OF assms]
  by (simp add: answer_fields_match_def)

lemma fields_qid_mem:
  "list_ex (\<lambda>q. qID q = qid \<and> list_ex (\<lambda>x. optID x = oid) (options q)) qs \<Longrightarrow> qid \<in> qID ` set qs"
  by (auto simp: list_ex_iff)

text \<open>What a request can do to the store: nothing, or append exactly the submitted answer,
  which then passed the schema and the existence query.\<close>

lemma post_answer_store_effect:
  "snd (post_answer d qnid qid s oid) = d \<or>
   (snd (post_answer d qnid qid s oid) = insert_answer d (new_answer qnid qid s oid) \<and>
    answer_schema_ok (new_answer qnid qid s oid) \<and>
    list_ex (answer_fields_match qnid qid oid) (questionnaires d))"
  by (auto simp: post_answer_def save_answer_def Let_def filter_empty_conv list_ex_iff
           split: verdict.splits)

lemma post_answer_questionnaires:
  "questionnaires (snd (post_answer d qnid qid s oid)) = questionnaires d"
  using post_answer_store_effect[of d qnid qid s oid] by auto

lemma post_answer_200:
  assumes "fst (post_answer d qnid qid s oid) = Http_200 a"
  shows "a = new_answer qnid qid s oid \<and> snd (post_answer d qnid qid s oid) = insert_answer d a"
  using assms
  by (auto simp: post_answer_def save_answer_def Let_def split: if_splits verdict.splits)

text \<open>Every request keeps the store invariant.\<close>

lemma post_answer_answers_valid:
  assumes "answers_valid d"
  shows "answers_valid (snd (post_answer d qnid qid s oid))"
  using post_answer_store_effect[of d qnid qid s oid] assms
  by (auto simp: answers_valid_def answer_refers_def new_answer_def)

text \<open>Another session's answer changes nothing the later-answer branch reads.\<close>

lemma later_answer_check_other_session:
  "session a \<noteq> s \<Longrightarrow> later_answer_check (insert_answer d a) qnid qid s = later_answer_check d qnid qid s"
  by (simp add: later_answer_check_def previous_answer_filter_def Let_def split: option.split)

subsection \<open>Properties of the handler\<close>

text \<open>
  C1 (refinement). On a store holding one document for the questionnaire id, and when at
  most one question of it leads to the submitted question, the handler implements the
  validator's contract: its response and its effect on the store are those of the contract's
  decision, for every request.
\<close>

theorem post_answer_refines_spec:
  assumes single: "find_questionnaires d (\<lambda>qn. questionnaireID qn = qnid) = [qn]"
    and pred: "length (filter (points_to qid) (questions qn)) \<le> 1"
  shows "post_answer d qnid qid s oid =
           enact d (new_answer qnid qid s oid)
             (spec_decision qn (find_answers d (session_filter qnid s)) qid oid)"
proof (cases "list_ex (\<lambda>q. qID q = qid \<and> list_ex (\<lambda>x. optID x = oid) (options q)) (questions qn)")
  case True
  note first = first_answer_check_single[OF fields_qid_mem[OF True]]
  show ?thesis
    using True answer_fields_single[OF single] first later_answer_check_single[OF single pred]
    by (simp add: post_answer_def spec_decision_def enact_def Let_def)
next
  case False
  then show ?thesis
    using answer_fields_single[OF single] by (simp add: post_answer_def spec_decision_def enact_def)
qed

theorem post_answer_refines_spec_witness:
  "find_questionnaires after_q01 (\<lambda>qn. questionnaireID qn = ''QQ000'') = [sample_questionnaire] \<and>
   length (filter (points_to ''Q02'') (questions sample_questionnaire)) \<le> 1 \<and>
   post_answer after_q01 ''QQ000'' ''Q02'' ''AAAA'' ''Q02A1'' =
     enact after_q01 (new_answer ''QQ000'' ''Q02'' ''AAAA'' ''Q02A1'')
       (spec_decision sample_questionnaire
          (find_answers after_q01 (session_filter ''QQ000'' ''AAAA'')) ''Q02'' ''Q02A1'')"
proof -
  have single: "find_questionnaires after_q01 (\<lambda>qn. questionnaireID qn = ''QQ000'') =
                [sample_questionnaire]"
    by (simp add: after_q01_def sample_defs)
  have pred: "length (filter (points_to ''Q02'') (questions sample_questionnaire)) \<le> 1"
    by (simp add: sample_defs points_to_def)
  show ?thesis using single pred post_answer_refines_spec[OF single pred] by simp
qed


text \<open>
  C2 (functional). On a session's first answer to a questionnaire stored once, a request for
  an existing question and option is saved exactly when no question before the submitted
  one, in the questionnaire's order, is required; otherwise it is refused with
  "Please answer required questions first."
\<close>

theorem post_answer_first_answer:
  assumes single: "find_questionnaires d (\<lambda>qn. questionnaireID qn = qnid) = [qn]"
    and fields: "list_ex (\<lambda>q. qID q = qid \<and> list_ex (\<lambda>x. optID x = oid) (options q)) (questions qn)"
    and fresh: "find_answers d (session_filter qnid s) = []"
  shows "post_answer d qnid qid s oid =
           (if list_all not_required (takeWhile (\<lambda>q. qID q \<noteq> qid) (questions qn))
            then save_answer d (new_answer qnid qid s oid)
            else (Http_402 msg_required_first, d))"
  using answer_fields_single[OF single] fields fresh first_answer_check_single[OF fields_qid_mem[OF fields]]
  by (simp add: post_answer_def Let_def)

theorem post_answer_first_answer_witness:
  "find_questionnaires sample_store (\<lambda>qn. questionnaireID qn = ''QQ000'') = [sample_questionnaire] \<and>
   list_ex (\<lambda>q. qID q = ''Q02'' \<and> list_ex (\<lambda>x. optID x = ''Q02A1'') (options q))
     (questions sample_questionnaire) \<and>
   find_answers sample_store (session_filter ''QQ000'' ''BBBB'') = [] \<and>
   post_answer sample_store ''QQ000'' ''Q02'' ''BBBB'' ''Q02A1'' =
     (Http_402 msg_required_first, sample_store)"
proof -
  have single: "find_questionnaires sample_store (\<lambda>qn. questionnaireID qn = ''QQ000'') =
                [sample_questionnaire]"
    by (simp add: sample_defs)
  have fields: "list_ex (\<lambda>q. qID q = ''Q02'' \<and> list_ex (\<lambda>x. optID x = ''Q02A1'') (options q))
                  (questions sample_questionnaire)"
    by (simp add: sample_defs)
  have fresh: "find_answers sample_store (session_filter ''QQ000'' ''BBBB'') = []"
    by (simp add: sample_defs)
  show ?thesis
    using single fields fresh post_answer_first_answer[OF single fields fresh]
    by (simp add: sample_defs not_required_def)
qed

text \<open>
  C3 (functional). When the session's last answer to a question \<open>P\<close> chose an option of
  \<open>P\<close> that leads to the submitted question, and \<open>P\<close> is the only question leading
  there, the submission is saved (the specification's second testable property).
\<close>

theorem post_answer_follows_choice:
  assumes single: "find_questionnaires d (\<lambda>qn. questionnaireID qn = qnid) = [qn]"
    and pred: "length (filter (points_to qid) (questions qn)) \<le> 1"
    and P: "P \<in> set (questions qn)"
    and chosen: "last_answer_to (find_answers d (session_filter qnid s)) (qID P) = Some c"
    and leads: "list_ex (\<lambda>x. optID x = c \<and> nextqID x = qid) (options P)"
    and fields: "list_ex (\<lambda>q. qID q = qid \<and> list_ex (\<lambda>x. optID x = oid) (options q)) (questions qn)"
  shows "post_answer d qnid qid s oid = save_answer d (new_answer qnid qid s oid)"
proof -
  have ne: "find_answers d (session_filter qnid s) \<noteq> []"
    using chosen by (auto simp: last_answer_to_def simp del: filter_filter)
  have "leads_via (find_answers d (session_filter qnid s)) qid P"
    using chosen leads by (simp add: leads_via_def)
  with P have "list_ex (leads_via (find_answers d (session_filter qnid s)) qid) (questions qn)"
    by (auto simp: list_ex_iff)
  then show ?thesis
    using ne answer_fields_single[OF single] fields later_answer_check_single[OF single pred]
    by (simp add: post_answer_def Let_def)
qed

theorem post_answer_follows_choice_witness:
  "find_questionnaires after_q01 (\<lambda>qn. questionnaireID qn = ''QQ000'') = [sample_questionnaire] \<and>
   length (filter (points_to ''Q02'') (questions sample_questionnaire)) \<le> 1 \<and>
   sample_q01 \<in> set (questions sample_questionnaire) \<and>
   last_answer_to (find_answers after_q01 (session_filter ''QQ000'' ''AAAA'')) (qID sample_q01) =
     Some ''Q01A1'' \<and>
   list_ex (\<lambda>x. optID x = ''Q01A1'' \<and> nextqID x = ''Q02'') (options sample_q01) \<and>
   list_ex (\<lambda>q. qID q = ''Q02'' \<and> list_ex (\<lambda>x. optID x = ''Q02A1'') (options q))
     (questions sample_questionnaire) \<and>
   post_answer after_q01 ''QQ000'' ''Q02'' ''AAAA'' ''Q02A1'' =
     save_answer after_q01 (new_answer ''QQ000'' ''Q02'' ''AAAA'' ''Q02A1'')"
proof -
  have single: "find_questionnaires after_q01 (\<lambda>qn. questionnaireID qn = ''QQ000'') =
                [sample_questionnaire]"
    by (simp add: after_q01_def sample_defs)
  have pred: "length (filter (points_to ''Q02'') (questions sample_questionnaire)) \<le> 1"
    by (simp add: sample_defs points_to_def)
  have P: "sample_q01 \<in> set (questions sample_questionnaire)"
    by (simp add: sample_questionnaire_def)
  have chosen: "last_answer_to (find_answers after_q01 (session_filter ''QQ000'' ''AAAA''))
                  (qID sample_q01) = Some ''Q01A1''"
    by (simp add: after_q01_def sample_defs last_answer_to_def session_filter_def new_answer_def)
  have leads: "list_ex (\<lambda>x. optID x = ''Q01A1'' \<and> nextqID x = ''Q02'') (options sample_q01)"
    by (simp add: sample_q01_def)
  have fields: "list_ex (\<lambda>q. qID q = ''Q02'' \<and> list_ex (\<lambda>x. optID x = ''Q02A1'') (options q))
                  (questions sample_questionnaire)"
    by (simp add: sample_defs)
  show ?thesis
    using single pred P chosen leads fields
      post_answer_follows_choice[OF single pred P chosen leads fields]
    by blast
qed

text \<open>
  C5 (safety). A request either leaves the store unchanged, answering with a 402 message, a
  500 or not at all, or answers 200 with the submitted answer and appends exactly that answer.
\<close>

theorem post_answer_outcomes:
  "post_answer d qnid qid s oid \<in>
     {(Http_200 (new_answer qnid qid s oid), insert_answer d (new_answer qnid qid s oid)),
      (Http_402 msg_check_fields, d), (Http_402 msg_required_first, d),
      (Http_402 msg_cannot_answer, d), (Http_500, d), (No_response, d)}"
  by (auto simp: post_answer_def save_answer_def Let_def split: verdict.splits)

text \<open>
  C6 (error). A request is refused with "Please check again your answer fields." exactly when
  no stored document of the questionnaire has the named question with the named option
  among that question's own options; the refusal changes nothing (C5). An option id of
  another question does not count: \<open>Q02A1\<close> is refused for \<open>Q01\<close>.
\<close>

theorem post_answer_unknown_fields:
  "fst (post_answer d qnid qid s oid) = Http_402 msg_check_fields \<longleftrightarrow>
   \<not> (\<exists>qn q x. qn \<in> set (questionnaires d) \<and> questionnaireID qn = qnid \<and>
                q \<in> set (questions qn) \<and> qID q = qid \<and> x \<in> set (options q) \<and> optID x = oid)"
  by (auto simp: post_answer_def Let_def save_answer_def filter_empty_conv answer_fields_match_def
      list_ex_iff split: verdict.splits)

theorem post_answer_unknown_fields_witness:
  "fst (post_answer sample_store ''QQ000'' ''Q01'' ''AAAA'' ''Q02A1'') = Http_402 msg_check_fields \<and>
   fst (post_answer sample_store ''QQ000'' ''Q01'' ''AAAA'' ''Q01A1'') \<noteq> Http_402 msg_check_fields"
proof -
  have n: "\<not> (\<exists>qn q x. qn \<in> set (questionnaires sample_store) \<and> questionnaireID qn = ''QQ000'' \<and>
                q \<in> set (questions qn) \<and> qID q = ''Q01'' \<and> x \<in> set (options q) \<and> optID x = ''Q02A1'')"
    by (auto simp: sample_store_def sample_questionnaire_def sample_optional_def sample_q01_def
        sample_q02_def sample_q03_def)
  have y: "\<exists>qn q x. qn \<in> set (questionnaires sample_store) \<and> questionnaireID qn = ''QQ000'' \<and>
                q \<in> set (questions qn) \<and> qID q = ''Q01'' \<and> x \<in> set (options q) \<and> optID x = ''Q01A1''"
    by (rule exI[of _ sample_questionnaire], rule exI[of _ sample_q01])
      (auto simp: sample_store_def sample_questionnaire_def sample_q01_def)
  show ?thesis
    using post_answer_unknown_fields[of sample_store "''QQ000''" "''Q01''" "''AAAA''" "''Q02A1''"]
      post_answer_unknown_fields[of sample_store "''QQ000''" "''Q01''" "''AAAA''" "''Q01A1''"] n y
    by blast
qed

subsection \<open>Behaviour outside the contract's assumptions\<close>

text \<open>
  C9 (functional). Where two questions lead to the same question, the predecessor query
  returns the first of them in document order, whatever the session answered: a session that
  went \<open>Q01 \<rightarrow> Q02 \<rightarrow> Q03\<close> in the sample questionnaire is refused \<open>Q03\<close>, which the
  contract accepts.
\<close>

theorem post_answer_diamond_refuses_path:
  "post_answer after_q02 ''QQ000'' ''Q03'' ''AAAA'' ''Q03A1'' =
     (Http_402 msg_cannot_answer, after_q02) \<and>
   spec_decision sample_questionnaire (find_answers after_q02 (session_filter ''QQ000'' ''AAAA''))
     ''Q03'' ''Q03A1'' = Accept"
  by (simp add: post_answer_def after_q02_def sample_defs answer_fields_match_def session_filter_def
      later_answer_check_def projected_predecessor_def predecessor_match_def points_to_def
      previous_answer_filter_def telos_match_def new_answer_def spec_decision_def leads_via_def
      last_answer_to_def)

text \<open>
  C10 (functional). The final query of the later-answer branch looks for the chosen option id
  in any question, not in the predecessor: with option ids reused across questions, a
  session whose answer to \<open>Q01\<close> led to \<open>Q02\<close> may answer \<open>Q03\<close> without answering
  \<open>Q02\<close>, which the contract refuses.
\<close>

theorem post_answer_shared_option_ids_skip:
  "post_answer shared_ids_store ''QQ002'' ''Q03'' ''AAAA'' ''A1'' =
     save_answer shared_ids_store (new_answer ''QQ002'' ''Q03'' ''AAAA'' ''A1'') \<and>
   spec_decision shared_ids_questionnaire
     (find_answers shared_ids_store (session_filter ''QQ002'' ''AAAA'')) ''Q03'' ''A1'' =
     Reject msg_cannot_answer"
  by (simp add: post_answer_def shared_ids_store_def shared_ids_questionnaire_def sample_defs
      answer_fields_match_def session_filter_def later_answer_check_def projected_predecessor_def
      predecessor_match_def points_to_def previous_answer_filter_def telos_match_def
      new_answer_def spec_decision_def leads_via_def last_answer_to_def)

text \<open>
  On a session's first answer, a question other than the first one is
  accepted when no question before it is required: the questionnaire \<open>QQ001\<close> starts with
  an optional question and a new session may start at \<open>Q02\<close>.
\<close>

theorem post_answer_first_answer_skips_optional:
  "post_answer sample_store ''QQ001'' ''Q02'' ''BBBB'' ''Q02A1'' =
     (Http_200 (new_answer ''QQ001'' ''Q02'' ''BBBB'' ''Q02A1''),
      insert_answer sample_store (new_answer ''QQ001'' ''Q02'' ''BBBB'' ''Q02A1''))"
  by (simp add: post_answer_def sample_defs answer_fields_match_def session_filter_def
      first_answer_check_def first_fields_def first_answer_loop.simps loop_fields_def js_index_def
      save_answer_def answer_schema_ok_def new_answer_def)

text \<open>
  A session cannot answer the first question again: no question leads to it, so
  the later-answer branch refuses the second submission.
\<close>

theorem post_answer_first_question_once:
  "post_answer after_q01 ''QQ000'' ''Q01'' ''AAAA'' ''Q01A2'' =
     (Http_402 msg_cannot_answer, after_q01)"
  by (simp add: post_answer_def after_q01_def sample_defs answer_fields_match_def session_filter_def
      later_answer_check_def predecessor_match_def points_to_def previous_answer_filter_def
      new_answer_def)

text \<open>
  Two identical submissions of a later question are both saved: the handler
  has no duplicate check, and the store then holds the same answer twice.
\<close>

lemma post_answer_not_idempotent:
  "fst (post_answer after_q01 ''QQ000'' ''Q02'' ''AAAA'' ''Q02A1'') =
     Http_200 (new_answer ''QQ000'' ''Q02'' ''AAAA'' ''Q02A1'') \<and>
   fst (post_answer (snd (post_answer after_q01 ''QQ000'' ''Q02'' ''AAAA'' ''Q02A1''))
          ''QQ000'' ''Q02'' ''AAAA'' ''Q02A1'') =
     Http_200 (new_answer ''QQ000'' ''Q02'' ''AAAA'' ''Q02A1'') \<and>
   count (mset (answers (snd (post_answer (snd (post_answer after_q01 ''QQ000'' ''Q02'' ''AAAA'' ''Q02A1''))
          ''QQ000'' ''Q02'' ''AAAA'' ''Q02A1''))))
     (new_answer ''QQ000'' ''Q02'' ''AAAA'' ''Q02A1'') = 2"
  by (simp add: post_answer_def after_q01_def sample_defs answer_fields_match_def session_filter_def
      later_answer_check_def projected_predecessor_def predecessor_match_def points_to_def
      previous_answer_filter_def telos_match_def new_answer_def save_answer_def answer_schema_ok_def)

text \<open>
  C14 (error). When two stored documents share a questionnaire id, the first-answer loop reads
  every matching document at the last document's indices; a shorter document makes the read
  throw, and the request is never answered.
\<close>

theorem post_answer_duplicate_id_hangs:
  "post_answer duplicate_id_store ''QQ000'' ''Q03'' ''AAAA'' ''Q03A1'' =
     (No_response, duplicate_id_store)"
  by (simp add: post_answer_def duplicate_id_store_def sample_defs answer_fields_match_def
      session_filter_def first_answer_check_def first_fields_def first_answer_loop.simps
      loop_fields_def js_index_def)

end
