(* ===== verification/ReadAPI.thy ===== *)
theory ReadAPI
  imports AnswerFlow
begin

text \<open>
  The read endpoints of \<open>src/api-backend/controllers/operational.js\<close>:
  \<^item> \<open>get_questionnaire\<close>: \<open>getQuestionnaire\<close> (lines 51--102), the questionnaire with
    its questions (options projected away) sorted by \<open>qID\<close>;
  \<^item> \<open>get_question\<close>: \<open>getQuestion\<close> (lines 151--233), one question with its options;
  \<^item> \<open>get_session_answers\<close>: \<open>getSessionAnswers\<close> (lines 511--568), a session's answers
    sorted by question id;
  \<^item> \<open>get_question_answers\<close>: \<open>getQuestionAnswers\<close> (lines 617--664), the answers to one
    question in the order they were given;
  \<^item> \<open>get_export_answers\<close>: \<open>getExportAnswers\<close> (lines 706--739), every answer to a
    questionnaire sorted by question id, for the front end's export.
  Each returns a \<open>payload\<close>: \<open>Json\<close> of the object the JSON branch sends, or \<open>Csv\<close> of
  the rows the CSV branch hands to \<open>res.csv\<close>. Each \<open>compare(a, b)\<close> is
  \<open>compare_by\<close> with the property it reads; in the CSV branch of \<open>getQuestion\<close> the
  options are arrays by then, so the property is \<open>undefined\<close> and the key is \<open>\<lambda>_. None\<close>.
  The read endpoints do not change the store.
\<close>

record questionnaire_view =
  qv_id :: ident
  qv_title :: string
  qv_keywords :: "string list"
  qv_questions :: "question_head list"

record 'o question_out =
  qo_questionnaireID :: ident
  qo_qID :: ident
  qo_qtext :: string
  qo_required :: string
  qo_type :: string
  qo_options :: "'o list"

record 'r session_answers_out =
  sa_questionnaireID :: ident
  sa_session :: ident
  sa_answers :: "'r list"

record 'r question_answers_out =
  qa_questionnaireID :: ident
  qa_questionID :: ident
  qa_answers :: "'r list"

subsection \<open>getQuestionnaire\<close>

definition project_questionnaire :: "questionnaire \<Rightarrow> questionnaire_view" where
  "project_questionnaire q =
     \<lparr>qv_id = questionnaireID q, qv_title = questionnaireTitle q, qv_keywords = keyword_list q,
      qv_questions = map question_head.truncate (questions q)\<rparr>"

definition sort_questions :: "questionnaire_view \<Rightarrow> questionnaire_view" where
  "sort_questions v = v\<lparr>qv_questions := js_sort (compare_by (\<lambda>h. Some (qID h))) (qv_questions v)\<rparr>"

definition get_questionnaire ::
  "store \<Rightarrow> ident \<Rightarrow> format \<Rightarrow> (questionnaire_view, questionnaire_view) payload http" where
  "get_questionnaire d qnid fmt =
     (let result = map project_questionnaire (find_questionnaires d (\<lambda>q. questionnaireID q = qnid)) in
      if result = [] then Http_402 msg_no_questionnaire
      else case fmt of
             Format_csv \<Rightarrow> Http_200 (Csv (map sort_questions result))
           | Format_json \<Rightarrow> Http_200 (Json (sort_questions (last result))))"

subsection \<open>getQuestion\<close>

text \<open>
  The aggregation keeps the documents with the questionnaire id and a question \<open>qid\<close>,
  and projects each to its questions with that id; the handler reads the first of them.
\<close>

definition question_doc_match :: "ident \<Rightarrow> ident \<Rightarrow> questionnaire \<Rightarrow> bool" where
  "question_doc_match qnid qid qn \<longleftrightarrow>
     questionnaireID qn = qnid \<and> list_ex (\<lambda>q. qID q = qid) (questions qn)"

definition first_question :: "ident \<Rightarrow> questionnaire \<Rightarrow> question option" where
  "first_question qid qn = js_index (filter (\<lambda>q. qID q = qid) (questions qn)) 0"

definition option_row :: "opt \<Rightarrow> string list" where
  "option_row x = [optID x, opttxt x, nextqID x]"

definition question_json :: "ident \<Rightarrow> question \<Rightarrow> opt question_out" where
  "question_json qnid q =
     \<lparr>qo_questionnaireID = qnid, qo_qID = qID q, qo_qtext = qtext q, qo_required = required q,
      qo_type = qtype q, qo_options = js_sort (compare_by (\<lambda>x. Some (optID x))) (options q)\<rparr>"

definition question_csv :: "ident \<Rightarrow> question \<Rightarrow> string list question_out" where
  "question_csv qnid q =
     \<lparr>qo_questionnaireID = qnid, qo_qID = qID q, qo_qtext = qtext q, qo_required = required q,
      qo_type = qtype q,
      qo_options = js_sort (compare_by (\<lambda>_. None)) (map option_row (options q))\<rparr>"

definition get_question ::
  "store \<Rightarrow> ident \<Rightarrow> ident \<Rightarrow> format \<Rightarrow> (opt question_out, string list question_out) payload http" where
  "get_question d qnid qid fmt =
     (let result = find_questionnaires d (question_doc_match qnid qid) in
      if result = [] then Http_402 msg_no_question
      else case fmt of
             Format_csv \<Rightarrow>
               (case those (map (first_question qid) result) of
                  None \<Rightarrow> Http_500
                | Some qs \<Rightarrow> Http_200 (Csv (map (question_csv qnid) qs)))
           | Format_json \<Rightarrow>
               (case for_each_assign (first_question qid) result None of
                  Some (Some q) \<Rightarrow> Http_200 (Json (question_json qnid q))
                | _ \<Rightarrow> Http_500))"

subsection \<open>Answers by session, by question, and the export\<close>

definition session_rows :: "store \<Rightarrow> ident \<Rightarrow> ident \<Rightarrow> (ident \<times> ident) list" where
  "session_rows d qnid s = map (\<lambda>a. (qIDRef a, ans a)) (find_answers d (session_filter qnid s))"

definition get_session_answers ::
  "store \<Rightarrow> ident \<Rightarrow> ident \<Rightarrow> format \<Rightarrow>
   ((ident \<times> ident) session_answers_out, string list session_answers_out) payload http" where
  "get_session_answers d qnid s fmt =
     (let rows = session_rows d qnid s in
      if rows = [] then Http_402 msg_no_answers
      else
        (let sorted = js_sort (compare_by (\<lambda>r. Some (fst r))) rows in
         case fmt of
           Format_csv \<Rightarrow>
             Http_200 (Csv [\<lparr>sa_questionnaireID = qnid, sa_session = s,
                            sa_answers = map (\<lambda>(q, a). [q, a]) sorted\<rparr>])
         | Format_json \<Rightarrow>
             Http_200 (Json \<lparr>sa_questionnaireID = qnid, sa_session = s, sa_answers = sorted\<rparr>)))"

definition question_rows :: "store \<Rightarrow> ident \<Rightarrow> ident \<Rightarrow> (ident \<times> ident) list" where
  "question_rows d qnid qid =
     map (\<lambda>a. (session a, ans a))
       (find_answers d (\<lambda>a. questionnaireIDRef a = qnid \<and> qIDRef a = qid))"

definition get_question_answers ::
  "store \<Rightarrow> ident \<Rightarrow> ident \<Rightarrow> format \<Rightarrow>
   ((ident \<times> ident) question_answers_out, string list question_answers_out) payload http" where
  "get_question_answers d qnid qid fmt =
     (let rows = question_rows d qnid qid in
      if rows = [] then Http_402 msg_no_answers
      else case fmt of
             Format_csv \<Rightarrow>
               Http_200 (Csv [\<lparr>qa_questionnaireID = qnid, qa_questionID = qid,
                              qa_answers = map (\<lambda>(x, y). [x, y]) rows\<rparr>])
           | Format_json \<Rightarrow>
               Http_200 (Json \<lparr>qa_questionnaireID = qnid, qa_questionID = qid, qa_answers = rows\<rparr>))"

definition get_export_answers :: "store \<Rightarrow> ident \<Rightarrow> (ident \<times> ident) list http" where
  "get_export_answers d qnid =
     (let rows = map (\<lambda>a. (qIDRef a, ans a)) (find_answers d (\<lambda>a. questionnaireIDRef a = qnid)) in
      if rows = [] then Http_402 msg_no_questionnaire
      else Http_200 (js_sort (compare_by (\<lambda>r. Some (fst r))) rows))"


subsection \<open>Properties\<close>

lemma qID_truncate [simp]: "qID (question_head.truncate q) = qID q"
  by (simp add: question_head.truncate_def)

text \<open>
  The stable sort, read back: the output is ordered by the key, is a permutation of the
  input, and keeps the input order among entries with the same key.
\<close>

lemma js_sort_key_props:
  "sorted (map k (js_sort (compare_by (\<lambda>x. Some (k x))) xs)) \<and>
   mset (js_sort (compare_by (\<lambda>x. Some (k x))) xs) = mset xs \<and>
   (\<forall>c. filter (\<lambda>x. k x = c) (js_sort (compare_by (\<lambda>x. Some (k x))) xs) = filter (\<lambda>x. k x = c) xs)"
  by (simp add: js_sort_key sort_key_stable)

text \<open>
  C15 (functional). For a stored questionnaire id, the JSON body of \<open>getQuestionnaire\<close>
  is the last matching document with its questions, options removed, sorted by \<open>qID\<close>: a
  permutation of the stored questions that keeps the stored order among equal ids.
\<close>

theorem get_questionnaire_json_sorted:
  assumes "find_questionnaires d (\<lambda>q. questionnaireID q = qnid) \<noteq> []"
  shows "\<exists>v. get_questionnaire d qnid Format_json = Http_200 (Json v) \<and> qv_id v = qnid \<and>
           sorted (map qID (qv_questions v)) \<and>
           mset (qv_questions v) =
             mset (map question_head.truncate
                     (questions (last (find_questionnaires d (\<lambda>q. questionnaireID q = qnid))))) \<and>
           (\<forall>c. filter (\<lambda>h. qID h = c) (qv_questions v) =
                filter (\<lambda>h. qID h = c) (map question_head.truncate
                  (questions (last (find_questionnaires d (\<lambda>q. questionnaireID q = qnid))))))"
proof -
  let ?qn = "last (find_questionnaires d (\<lambda>q. questionnaireID q = qnid))"
  have id: "questionnaireID ?qn = qnid"
    using assms last_in_set[OF assms] by simp
  have "get_questionnaire d qnid Format_json = Http_200 (Json (sort_questions (project_questionnaire ?qn)))"
    using assms by (simp add: get_questionnaire_def last_map)
  with id js_sort_key_props[of qID "map question_head.truncate (questions ?qn)"] show ?thesis
    by (simp add: sort_questions_def project_questionnaire_def)
qed

theorem get_questionnaire_json_sorted_witness:
  "find_questionnaires sample_store (\<lambda>q. questionnaireID q = ''QQ000'') \<noteq> [] \<and>
   (\<exists>v. get_questionnaire sample_store ''QQ000'' Format_json = Http_200 (Json v) \<and> qv_id v = ''QQ000'' \<and>
      sorted (map qID (qv_questions v)))"
proof -
  have h: "find_questionnaires sample_store (\<lambda>q. questionnaireID q = ''QQ000'') \<noteq> []"
    by (simp add: sample_defs)
  show ?thesis using h get_questionnaire_json_sorted[OF h] by blast
qed

text \<open>
  An unknown questionnaire id is answered with 402 "No questionnaire found." in
  either format.
\<close>

lemma get_questionnaire_unknown:
  assumes "find_questionnaires d (\<lambda>q. questionnaireID q = qnid) = []"
  shows "get_questionnaire d qnid fmt = Http_402 msg_no_questionnaire"
  using assms by (simp add: get_questionnaire_def)

lemma get_questionnaire_unknown_witness:
  "find_questionnaires sample_store (\<lambda>q. questionnaireID q = ''QQ999'') = [] \<and>
   get_questionnaire sample_store ''QQ999'' Format_csv = Http_402 msg_no_questionnaire"
proof -
  have h: "find_questionnaires sample_store (\<lambda>q. questionnaireID q = ''QQ999'') = []"
    by (simp add: sample_defs)
  show ?thesis using h get_questionnaire_unknown[OF h] by simp
qed

text \<open>
  C17 (functional). For a question stored once, the JSON body of \<open>getQuestion\<close> lists the
  options sorted by option id, while the CSV rows list them in stored order: the CSV branch
  turns the options into arrays before sorting them, so its comparator reads
  \<open>undefined\<close> and the sort leaves the list as it is.
\<close>

theorem get_question_csv_unsorted:
  assumes "find_questionnaires d (question_doc_match qnid qid) = [qn]"
    and "first_question qid qn = Some q"
  shows "get_question d qnid qid Format_json = Http_200 (Json (question_json qnid q)) \<and>
         qo_options (question_json qnid q) = sort_key optID (options q) \<and>
         get_question d qnid qid Format_csv = Http_200 (Csv [question_csv qnid q]) \<and>
         qo_options (question_csv qnid q) = map option_row (options q)"
  using assms
  by (simp add: get_question_def question_json_def question_csv_def js_sort_key js_sort_undefined_key)

theorem get_question_csv_unsorted_witness:
  "find_questionnaires sample_store (question_doc_match ''QQ000'' ''Q01'') = [sample_questionnaire] \<and>
   first_question ''Q01'' sample_questionnaire = Some sample_q01 \<and>
   qo_options (question_csv ''QQ000'' sample_q01) = map option_row (options sample_q01)"
proof -
  have h1: "find_questionnaires sample_store (question_doc_match ''QQ000'' ''Q01'') = [sample_questionnaire]"
    by (simp add: sample_defs question_doc_match_def)
  have h2: "first_question ''Q01'' sample_questionnaire = Some sample_q01"
    by (simp add: first_question_def sample_defs)
  show ?thesis using h1 h2 get_question_csv_unsorted[OF h1 h2] by simp
qed

text \<open>
  When a session has answered a questionnaire, \<open>getSessionAnswers\<close>
  returns its (question id, option id) pairs sorted by question id, a permutation of the
  stored answers in which repeated answers to one question keep the order they were given.
\<close>

lemma get_session_answers_sorted:
  assumes "find_answers d (session_filter qnid s) \<noteq> []"
  shows "\<exists>v. get_session_answers d qnid s Format_json = Http_200 (Json v) \<and>
           sa_questionnaireID v = qnid \<and> sa_session v = s \<and>
           sorted (map fst (sa_answers v)) \<and>
           mset (sa_answers v) = mset (session_rows d qnid s) \<and>
           (\<forall>c. filter (\<lambda>r. fst r = c) (sa_answers v) = filter (\<lambda>r. fst r = c) (session_rows d qnid s))"
proof -
  have "session_rows d qnid s \<noteq> []" using assms by (simp add: session_rows_def)
  with js_sort_key_props[of fst "session_rows d qnid s"] show ?thesis
    by (simp add: get_session_answers_def Let_def)
qed

lemma get_session_answers_sorted_witness:
  "find_answers after_q02 (session_filter ''QQ000'' ''AAAA'') \<noteq> [] \<and>
   (\<exists>v. get_session_answers after_q02 ''QQ000'' ''AAAA'' Format_json = Http_200 (Json v) \<and>
      sorted (map fst (sa_answers v)))"
proof -
  have h: "find_answers after_q02 (session_filter ''QQ000'' ''AAAA'') \<noteq> []"
    by (simp add: after_q02_def sample_defs session_filter_def new_answer_def)
  show ?thesis using h get_session_answers_sorted[OF h] by blast
qed

text \<open>
  C19 (functional). The export of a questionnaire with answers is every stored answer to it,
  as (question id, option id) pairs sorted by question id, stable among equal ids.
\<close>

theorem get_export_answers_sorted:
  assumes "find_answers d (\<lambda>a. questionnaireIDRef a = qnid) \<noteq> []"
  shows "\<exists>rows. get_export_answers d qnid = Http_200 rows \<and> sorted (map fst rows) \<and>
           mset rows = mset (map (\<lambda>a. (qIDRef a, ans a)) (find_answers d (\<lambda>a. questionnaireIDRef a = qnid))) \<and>
           (\<forall>c. filter (\<lambda>r. fst r = c) rows =
                map (\<lambda>a. (qIDRef a, ans a))
                  (find_answers d (\<lambda>a. questionnaireIDRef a = qnid \<and> qIDRef a = c)))"
proof -
  let ?rows = "map (\<lambda>a. (qIDRef a, ans a)) (find_answers d (\<lambda>a. questionnaireIDRef a = qnid))"
  have ne: "?rows \<noteq> []" using assms by simp
  have "filter (\<lambda>r. fst r = c) ?rows =
        map (\<lambda>a. (qIDRef a, ans a)) (find_answers d (\<lambda>a. questionnaireIDRef a = qnid \<and> qIDRef a = c))"
    for c by (simp add: filter_map comp_def)
  with ne js_sort_key_props[of fst ?rows] show ?thesis
    by (simp add: get_export_answers_def Let_def)
qed

theorem get_export_answers_sorted_witness:
  "find_answers after_q02 (\<lambda>a. questionnaireIDRef a = ''QQ000'') \<noteq> [] \<and>
   (\<exists>rows. get_export_answers after_q02 ''QQ000'' = Http_200 rows \<and> sorted (map fst rows))"
proof -
  have h: "find_answers after_q02 (\<lambda>a. questionnaireIDRef a = ''QQ000'') \<noteq> []"
    by (simp add: after_q02_def sample_defs new_answer_def)
  show ?thesis using h get_export_answers_sorted[OF h] by blast
qed

end
