(* ===== verification/Admin.thy ===== *)
theory Admin
  imports AnswerFlow
begin

text \<open>
  The administrative endpoints of \<open>src/api-backend/controllers/admin.js\<close> and the
  connection probe of \<open>src/api-backend/util/dbconnection.js\<close>:
  \<^item> \<open>connected\<close> and \<open>get_health_check\<close>: \<open>connected()\<close> and \<open>getHealthCheck\<close>,
    over Mongoose's \<open>readyState\<close> (0 disconnected, 1 connected, 2 connecting,
    3 disconnecting);
  \<^item> \<open>post_questionnaire_upd\<close>: \<open>postQuestionnaireUpd\<close>; the uploaded file is the list of
    questionnaire documents it holds (\<open>None\<close> when no file was sent). Mongoose's
    \<open>insertMany\<close> validates every document before writing, so one invalid document fails
    the whole call with 500 and nothing is inserted;
  \<^item> \<open>post_reset_all\<close>: \<open>postResetAll\<close>, which empties both collections;
  \<^item> \<open>post_reset_q\<close>: \<open>postResetQ\<close>, which deletes the answers of one stored questionnaire.
  The two resets start their \<open>deleteMany\<close> calls and answer 200 without waiting for them;
  the store is taken to be reliable, so the model applies the deletion with the response.
\<close>

definition connected :: "nat \<Rightarrow> nat" where
  "connected ready_state = (if ready_state = 1 then 1 else 0)"

definition get_health_check :: "nat \<Rightarrow> string http" where
  "get_health_check ready_state =
     (if connected ready_state = 1 then Http_200 ''OK''
      else if connected ready_state = 0 then Http_500
      else No_response)"

definition post_questionnaire_upd ::
  "store \<Rightarrow> questionnaire list option \<Rightarrow> string http \<times> store" where
  "post_questionnaire_upd d file =
     (case file of
        None \<Rightarrow> (Http_422 msg_no_file, d)
      | Some qs \<Rightarrow>
          (if list_all questionnaire_schema_ok qs then (Http_200 ''OK'', insert_questionnaires d qs)
           else (Http_500, d)))"

definition post_reset_all :: "store \<Rightarrow> string http \<times> store" where
  "post_reset_all d =
     (Http_200 ''OK'', delete_answers (delete_questionnaires d (\<lambda>_. True)) (\<lambda>_. True))"

definition post_reset_q :: "store \<Rightarrow> ident \<Rightarrow> string http \<times> store" where
  "post_reset_q d qnid =
     (if find_questionnaires d (\<lambda>q. questionnaireID q = qnid) = []
      then (Http_402 msg_no_questionnaire, d)
      else (Http_200 ''OK'', delete_answers d (\<lambda>a. questionnaireIDRef a = qnid)))"


subsection \<open>The store invariant under the administrative writes\<close>

lemma answer_refers_more_questionnaires:
  "answer_refers d a \<Longrightarrow> answer_refers (insert_questionnaires d qs) a"
  by (auto simp: answer_refers_def list_ex_iff)

lemma post_questionnaire_upd_answers_valid:
  "answers_valid d \<Longrightarrow> answers_valid (snd (post_questionnaire_upd d file))"
  by (auto simp: post_questionnaire_upd_def answers_valid_def list_all_iff
           intro: answer_refers_more_questionnaires split: option.splits)

lemma post_questionnaire_upd_schema:
  "list_all questionnaire_schema_ok (questionnaires d) \<Longrightarrow>
   list_all questionnaire_schema_ok (questionnaires (snd (post_questionnaire_upd d file)))"
  by (auto simp: post_questionnaire_upd_def split: option.splits)

lemma post_reset_all_empty: "snd (post_reset_all d) = d\<lparr>questionnaires := [], answers := []\<rparr>"
  by (simp add: post_reset_all_def)

lemma post_reset_q_answers_valid:
  "answers_valid d \<Longrightarrow> answers_valid (snd (post_reset_q d qnid))"
  by (auto simp: post_reset_q_def answers_valid_def answer_refers_def list_all_iff)

end
