(* ===== verification/Server.thy ===== *)
theory Server
  imports ReadAPI Admin
begin

text \<open>
  The HTTP application of \<open>src/api-backend/app.js\<close> with the routers
  \<open>src/api-backend/routes/admin.js\<close> and \<open>src/api-backend/routes/operational.js\<close>:
  a request is an HTTP verb, the path split at \<open>/\<close>, the \<open>format\<close> query parameter and the
  uploaded file. \<open>route\<close> is the router: the admin router is mounted first at
  \<open>/intelliq_api/admin\<close>, the operational router at \<open>/intelliq_api\<close>, and an unmatched
  request reaches the final middleware, 404 "Endpoint not found.". A route parameter
  \<open>:name\<close> matches one non-empty path segment and keeps its case; the fixed segments
  match in any case, one trailing \<open>/\<close> is ignored, and HEAD requests are served by the GET
  routes, as Express does by default. \<open>dispatch\<close> calls the controller of the route;
  \<open>handle\<close> is one request of the server. \<open>server_start\<close> is \<open>server.js\<close>: the HTTPS
  server listens only once \<open>mongoose.connect\<close> has succeeded, and not at all otherwise.

  The server's state is the store and the connection's \<open>readyState\<close>.
  \<open>server_step\<close> is the step relation of a running server: any request, or a change of
  the connection state by the environment; \<open>reachable\<close> are the states reachable from an
  empty store. Each request is handled on its own: the handlers keep no state between
  requests beyond the store.
\<close>

datatype http_verb = GET | POST | HEAD | PUT | DELETE | PATCH | OPTIONS

record request =
  req_method :: http_verb
  req_path :: "string list"
  req_format :: "string option"
  req_file :: "questionnaire list option"

datatype endpoint =
    Health
  | Questionnaire_upd
  | Reset_all
  | Reset_q ident
  | Get_questionnaire ident
  | Get_question ident ident
  | Do_answer ident ident ident ident
  | Get_session_answers ident ident
  | Get_question_answers ident ident
  | Export_answers ident

datatype response =
    Resp_status "string http"
  | Resp_answer "answer http"
  | Resp_questionnaire "(questionnaire_view, questionnaire_view) payload http"
  | Resp_question "(opt question_out, string list question_out) payload http"
  | Resp_session_answers
      "((ident \<times> ident) session_answers_out, string list session_answers_out) payload http"
  | Resp_question_answers
      "((ident \<times> ident) question_answers_out, string list question_answers_out) payload http"
  | Resp_export "(ident \<times> ident) list http"
  | Resp_not_found

record server =
  db :: store
  ready_state :: nat

fun status_code :: "response \<Rightarrow> nat option" where
  "status_code (Resp_status h) = http_status h"
| "status_code (Resp_answer h) = http_status h"
| "status_code (Resp_questionnaire h) = http_status h"
| "status_code (Resp_question h) = http_status h"
| "status_code (Resp_session_answers h) = http_status h"
| "status_code (Resp_question_answers h) = http_status h"
| "status_code (Resp_export h) = http_status h"
| "status_code Resp_not_found = Some 404"

subsection \<open>Routing\<close>

text \<open>
  Express matches a route case-insensitively and lets the path end in one extra \<open>/\<close>
  (the defaults \<open>sensitive: false\<close>, \<open>strict: false\<close>); a route parameter keeps its case.
  \<open>router.get\<close> also serves HEAD requests, answered by the GET handler.
\<close>

definition seg_is :: "string \<Rightarrow> string \<Rightarrow> bool" where
  "seg_is lit x \<longleftrightarrow> map ascii_lower x = lit"

definition strip_slash :: "string list \<Rightarrow> string list" where
  "strip_slash p = (if p \<noteq> [] \<and> last p = [] then butlast p else p)"

fun router_verb :: "http_verb \<Rightarrow> http_verb" where
  "router_verb HEAD = GET"
| "router_verb m = m"

fun admin_route :: "http_verb \<Rightarrow> string list \<Rightarrow> endpoint option" where
  "admin_route GET [e] = (if seg_is ''healthcheck'' e then Some Health else None)"
| "admin_route POST [e] =
     (if seg_is ''questionnaire_upd'' e then Some Questionnaire_upd
      else if seg_is ''resetall'' e then Some Reset_all else None)"
| "admin_route POST [e, q] = (if seg_is ''resetq'' e \<and> q \<noteq> [] then Some (Reset_q q) else None)"
| "admin_route _ _ = None"

fun operational_route :: "http_verb \<Rightarrow> string list \<Rightarrow> endpoint option" where
  "operational_route GET [e, a] =
     (if a = [] then None
      else if seg_is ''questionnaire'' e then Some (Get_questionnaire a)
      else if seg_is ''exportanswers'' e then Some (Export_answers a) else None)"
| "operational_route GET [e, a, b] =
     (if a = [] \<or> b = [] then None
      else if seg_is ''question'' e then Some (Get_question a b)
      else if seg_is ''getsessionanswers'' e then Some (Get_session_answers a b)
      else if seg_is ''getquestionanswers'' e then Some (Get_question_answers a b) else None)"
| "operational_route POST [e, a, b, c, x] =
     (if seg_is ''doanswer'' e \<and> a \<noteq> [] \<and> b \<noteq> [] \<and> c \<noteq> [] \<and> x \<noteq> []
      then Some (Do_answer a b c x) else None)"
| "operational_route _ _ = None"

definition route :: "http_verb \<Rightarrow> string list \<Rightarrow> endpoint option" where
  "route m p =
     (case strip_slash p of
        [] \<Rightarrow> None
      | base # rest \<Rightarrow>
          (if \<not> seg_is ''intelliq_api'' base then None
           else
             (case rest of
                [] \<Rightarrow> None
              | sub # rest' \<Rightarrow>
                  (case (if seg_is ''admin'' sub then admin_route (router_verb m) rest' else None) of
                     Some e \<Rightarrow> Some e
                   | None \<Rightarrow> operational_route (router_verb m) rest))))"

subsection \<open>Dispatch\<close>

definition dispatch :: "server \<Rightarrow> request \<Rightarrow> endpoint \<Rightarrow> response \<times> server" where
  "dispatch s r e =
     (let fmt = parse_format (req_format r) in
      case e of
        Health \<Rightarrow> (Resp_status (get_health_check (ready_state s)), s)
      | Questionnaire_upd \<Rightarrow>
          (case post_questionnaire_upd (db s) (req_file r) of
             (h, d') \<Rightarrow> (Resp_status h, s\<lparr>db := d'\<rparr>))
      | Reset_all \<Rightarrow> (case post_reset_all (db s) of (h, d') \<Rightarrow> (Resp_status h, s\<lparr>db := d'\<rparr>))
      | Reset_q q \<Rightarrow> (case post_reset_q (db s) q of (h, d') \<Rightarrow> (Resp_status h, s\<lparr>db := d'\<rparr>))
      | Get_questionnaire q \<Rightarrow> (Resp_questionnaire (get_questionnaire (db s) q fmt), s)
      | Get_question q qid \<Rightarrow> (Resp_question (get_question (db s) q qid fmt), s)
      | Do_answer q qid ss oid \<Rightarrow>
          (case post_answer (db s) q qid ss oid of (h, d') \<Rightarrow> (Resp_answer h, s\<lparr>db := d'\<rparr>))
      | Get_session_answers q ss \<Rightarrow>
          (Resp_session_answers (get_session_answers (db s) q ss fmt), s)
      | Get_question_answers q qid \<Rightarrow>
          (Resp_question_answers (get_question_answers (db s) q qid fmt), s)
      | Export_answers q \<Rightarrow> (Resp_export (get_export_answers (db s) q), s))"

definition handle :: "server \<Rightarrow> request \<Rightarrow> response \<times> server" where
  "handle s r =
     (case route (req_method r) (req_path r) of
        None \<Rightarrow> (Resp_not_found, s)
      | Some e \<Rightarrow> dispatch s r e)"

subsection \<open>The running server\<close>

definition init_server :: server where
  "init_server = \<lparr>db = empty_store, ready_state = 0\<rparr>"

definition server_start :: "bool \<Rightarrow> store \<Rightarrow> server option" where
  "server_start connect_ok d = (if connect_ok then Some \<lparr>db = d, ready_state = 1\<rparr> else None)"

inductive server_step :: "server \<Rightarrow> server \<Rightarrow> bool" where
  request: "server_step s (snd (handle s r))"
| connection: "server_step s (s\<lparr>ready_state := n\<rparr>)"

inductive reachable :: "server \<Rightarrow> bool" where
  init: "reachable init_server"
| step: "reachable s \<Longrightarrow> server_step s t \<Longrightarrow> reachable t"

definition store_inv :: "store \<Rightarrow> bool" where
  "store_inv d \<longleftrightarrow> answers_valid d \<and> list_all questionnaire_schema_ok (questionnaires d)"

definition mk_request :: "http_verb \<Rightarrow> string list \<Rightarrow> request" where
  "mk_request m p = \<lparr>req_method = m, req_path = p, req_format = None, req_file = None\<rparr>"


definition upload_request :: request where
  "upload_request =
     \<lparr>req_method = POST, req_path = [''intelliq_api'', ''admin'', ''questionnaire_upd''],
      req_format = None, req_file = Some [sample_questionnaire]\<rparr>"

definition answer_request :: "ident \<Rightarrow> ident \<Rightarrow> ident \<Rightarrow> ident \<Rightarrow> request" where
  "answer_request qnid qid s oid =
     mk_request POST [''intelliq_api'', ''doanswer'', qnid, qid, s, oid]"

subsection \<open>Every state the server reaches keeps the store invariant\<close>

lemmas route_eval = route_def strip_slash_def seg_is_def ascii_lower_eval

lemma dispatch_store_inv:
  assumes "store_inv (db s)"
  shows "store_inv (db (snd (dispatch s r e)))"
proof (cases e)
  case Questionnaire_upd
  with assms show ?thesis
    using post_questionnaire_upd_answers_valid post_questionnaire_upd_schema
    by (simp add: dispatch_def store_inv_def case_prod_unfold)
next
  case Reset_all
  then show ?thesis
    by (simp add: dispatch_def store_inv_def post_reset_all_def answers_valid_def)
next
  case (Reset_q q)
  with assms show ?thesis
    using post_reset_q_answers_valid[of "db s" q]
    by (simp add: dispatch_def store_inv_def case_prod_unfold post_reset_q_def)
next
  case (Do_answer q qid ss oid)
  with assms show ?thesis
    using post_answer_answers_valid[of "db s" q qid ss oid] post_answer_questionnaires[of "db s" q qid ss oid]
    by (simp add: dispatch_def store_inv_def case_prod_unfold)
qed (use assms in \<open>simp_all add: dispatch_def\<close>)

lemma handle_store_inv: "store_inv (db s) \<Longrightarrow> store_inv (db (snd (handle s r)))"
  by (auto simp: handle_def dispatch_store_inv split: option.splits)

lemma server_step_store_inv: "server_step s t \<Longrightarrow> store_inv (db s) \<Longrightarrow> store_inv (db t)"
  by (induction rule: server_step.induct) (simp_all add: handle_store_inv)

text \<open>
  C4 (invariant). In every state a running server reaches from an empty store, whatever
  requests it served and however the connection changed, every stored questionnaire passed
  its schema and every stored answer passed its schema and names a stored question together
  with one of that question's options.
\<close>

theorem reachable_store_inv:
  assumes "reachable s"
  shows "store_inv (db s)"
  using assms
proof (induction rule: reachable.induct)
  case init
  show ?case by (simp add: init_server_def empty_store_def store_inv_def answers_valid_def)
next
  case (step s t)
  from step.hyps(2) step.IH show ?case by (rule server_step_store_inv)
qed

theorem reachable_store_inv_witness:
  "reachable (snd (handle (snd (handle init_server upload_request))
                    (answer_request ''QQ000'' ''Q01'' ''AAAA'' ''Q01A1''))) \<and>
   store_inv (db (snd (handle (snd (handle init_server upload_request))
                    (answer_request ''QQ000'' ''Q01'' ''AAAA'' ''Q01A1''))))"
proof -
  have r1: "reachable (snd (handle init_server upload_request))"
    by (rule reachable.step[OF reachable.init server_step.request])
  have r2: "reachable (snd (handle (snd (handle init_server upload_request))
                              (answer_request ''QQ000'' ''Q01'' ''AAAA'' ''Q01A1'')))"
    by (rule reachable.step[OF r1 server_step.request])
  show ?thesis using r2 reachable_store_inv[OF r2] by simp
qed

subsection \<open>Reads, sessions and routes\<close>

lemma admin_route_read: "admin_route v p = Some e \<Longrightarrow> v \<noteq> POST \<Longrightarrow> e = Health"
  by (induction v p rule: admin_route.induct) (auto split: if_splits)

lemma operational_route_read:
  "operational_route v p = Some e \<Longrightarrow> v \<noteq> POST \<Longrightarrow> snd (dispatch s r e) = s"
  by (induction v p rule: operational_route.induct) (auto simp: dispatch_def Let_def split: if_splits)

lemma router_verb_POST: "router_verb m = POST \<longleftrightarrow> m = POST"
  by (cases m) simp_all

lemma route_read_only: "route m p = Some e \<Longrightarrow> m \<noteq> POST \<Longrightarrow> snd (dispatch s r e) = s"
  by (auto simp: route_def dispatch_def Let_def router_verb_POST
           dest: admin_route_read operational_route_read split: list.splits if_splits option.splits)

text \<open>
  C20 (safety). Every request other than a POST, to any path, leaves the server state
  unchanged: GET and HEAD reach only the read endpoints, every other verb no route.
\<close>

theorem non_post_request_read_only:
  assumes "req_method r \<noteq> POST"
  shows "snd (handle s r) = s"
  using assms route_read_only[of "req_method r" "req_path r" _ s r]
  by (auto simp: handle_def split: option.splits)

theorem non_post_request_read_only_witness:
  "req_method (mk_request HEAD [''intelliq_api'', ''getsessionanswers'', ''QQ000'', ''AAAA'']) \<noteq> POST \<and>
   snd (handle (init_server\<lparr>db := after_q01\<rparr>)
          (mk_request HEAD [''intelliq_api'', ''getsessionanswers'', ''QQ000'', ''AAAA''])) =
     init_server\<lparr>db := after_q01\<rparr>"
proof -
  have h: "req_method (mk_request HEAD [''intelliq_api'', ''getsessionanswers'', ''QQ000'', ''AAAA'']) \<noteq> POST"
    by (simp add: mk_request_def)
  show ?thesis using h non_post_request_read_only[OF h] by simp
qed

lemma post_answer_other_session:
  assumes "session a \<noteq> s"
  shows "fst (post_answer (insert_answer d a) qnid qid s oid) = fst (post_answer d qnid qid s oid)"
  using assms later_answer_check_other_session[OF assms]
  by (simp add: post_answer_def session_filter_def save_answer_def Let_def split: verdict.splits)

text \<open>
  C8 (safety). Submissions of different sessions do not interfere: the response to a
  session's submission is the same whether or not another session's submission was handled
  before it.
\<close>

theorem post_answer_sessions_independent:
  assumes "s1 \<noteq> s2"
  shows "fst (post_answer (snd (post_answer d q1 i1 s1 o1)) q2 i2 s2 o2) =
         fst (post_answer d q2 i2 s2 o2)"
  using post_answer_store_effect[of d q1 i1 s1 o1]
    post_answer_other_session[of "new_answer q1 i1 s1 o1" s2 d q2 i2 o2] assms
  by (auto simp: new_answer_def)

theorem post_answer_sessions_independent_witness:
  "''AAAA'' \<noteq> ''BBBB'' \<and>
   fst (post_answer (snd (post_answer sample_store ''QQ000'' ''Q01'' ''AAAA'' ''Q01A1''))
          ''QQ000'' ''Q01'' ''BBBB'' ''Q01A2'') =
   fst (post_answer sample_store ''QQ000'' ''Q01'' ''BBBB'' ''Q01A2'')"
proof -
  have h: "''AAAA'' \<noteq> ''BBBB''" by simp
  show ?thesis using h post_answer_sessions_independent[OF h] by simp
qed

text \<open>
  A path without the route's parameters matches no route: the test suite's
  \<open>POST /intelliq_api/doanswer\<close> and an export with an empty questionnaire id are
  answered 404 "Endpoint not found." and change nothing.
\<close>

lemma handle_missing_parameters_not_found:
  "handle s (mk_request POST [''intelliq_api'', ''doanswer'']) = (Resp_not_found, s) \<and>
   handle s (mk_request GET [''intelliq_api'', ''exportanswers'', []]) = (Resp_not_found, s)"
  by (simp add: handle_def route_eval mk_request_def)

text \<open>
  A path with one more \<open>/\<close> at its end reaches the same endpoint,
  for every verb and every path whose last segment is not already empty.
\<close>

theorem route_trailing_slash:
  assumes "p \<noteq> []" and "last p \<noteq> []"
  shows "route m (p @ [[]]) = route m p"
  using assms by (simp add: route_def strip_slash_def)

theorem route_trailing_slash_witness:
  "[''intelliq_api'', ''exportanswers'', ''QQ000''] \<noteq> [] \<and> last [''intelliq_api'', ''exportanswers'', ''QQ000''] \<noteq> [] \<and>
   route GET ([''intelliq_api'', ''exportanswers'', ''QQ000''] @ [[]]) = Some (Export_answers ''QQ000'')"
proof -
  have h1: "[''intelliq_api'', ''exportanswers'', ''QQ000''] \<noteq> []" by simp
  have h2: "last [''intelliq_api'', ''exportanswers'', ''QQ000''] \<noteq> []" by simp
  show ?thesis using h1 h2 route_trailing_slash[OF h1 h2, of GET] by (simp add: route_eval)
qed

text \<open>
  The fixed segments of a path match in any case, the parameters keep
  theirs: \<open>/IntelliQ_API/Admin/ResetQ/QQ000/\<close> resets \<open>QQ000\<close>, and
  \<open>/intelliq_api/QUESTIONNAIRE/qq000\<close> asks for a questionnaire \<open>qq000\<close>, which is not
  \<open>QQ000\<close> and is not found.
\<close>

lemma route_case_insensitive:
  "route POST [''IntelliQ_API'', ''Admin'', ''ResetQ'', ''QQ000'', []] = Some (Reset_q ''QQ000'') \<and>
   route GET [''intelliq_api'', ''QUESTIONNAIRE'', ''qq000''] = Some (Get_questionnaire ''qq000'') \<and>
   fst (handle (init_server\<lparr>db := sample_store\<rparr>) (mk_request GET [''intelliq_api'', ''QUESTIONNAIRE'', ''qq000''])) =
     Resp_questionnaire (Http_402 msg_no_questionnaire)"
  by (simp add: handle_def route_eval mk_request_def dispatch_def get_questionnaire_def sample_defs)

text \<open>
  A server that started answers the health check with 200, whatever its
  database holds: \<open>server.js\<close> listens only after the connection succeeded. When the
  connection fails there is no server to answer.
\<close>

lemma server_start_healthy:
  "server_start True d = Some \<lparr>db = d, ready_state = 1\<rparr> \<and>
   fst (handle \<lparr>db = d, ready_state = 1\<rparr> (mk_request GET [''intelliq_api'', ''admin'', ''healthcheck''])) =
     Resp_status (Http_200 ''OK'') \<and>
   server_start False d = None"
  by (simp add: server_start_def handle_def route_eval mk_request_def dispatch_def
      get_health_check_def connected_def)

end
