(* ===== verification/Frontend.thy ===== *)
theory Frontend
  imports Server
begin

text \<open>
  The export page of the React front end, \<open>src/frontend/src/Home.js\<close>, one handler at a
  time. Its state is the questionnaire id typed in, the rows last fetched and the error shown.
  \<open>get_user_list\<close> is \<open>getUserList\<close> on the backend's response: the parsed rows of a
  2xx answer of the export route, \<open>Questionnaire not found\<close> on status 404 and
  \<open>Failed to fetch data\<close> on any other failure status (a 2xx answer of another route is
  not an export and is not modelled: \<open>None\<close>). In this theory the request carries the typed
  id as one path segment (\<open>export_request\<close>); the URL \<open>fetch\<close> really sends, with the id
  written into it unencoded, is \<open>FrontendFetch\<close>'s \<open>fetch_request\<close>, and the two agree on
  the ids the URL carries unchanged (C18). A fetch the browser rejects (network failure, the
  self-signed certificate refused) is the \<open>Reject\<close> event of \<open>HomePage\<close>.
  \<open>download_csv\<close> is \<open>downloadCSV\<close>: the rows go into the state and the error is
  cleared, or the thrown message becomes the error. A request the backend never answers leaves
  the fetch pending and the page unchanged. \<open>download_json\<close> is \<open>downloadJSON\<close>, which
  returns the rows it downloads; \<open>set_questionnaire_id\<close> is the input's \<open>onChange\<close>.
  Rendering, the CSV link's serialisation and the \<open>Blob\<close> of the JSON file are not
  modelled.
\<close>

record page =
  questionnaireId :: string
  page_data :: "(ident \<times> ident) list"
  page_error :: "string option"

definition export_request :: "string \<Rightarrow> request" where
  "export_request qid = mk_request GET [''intelliq_api'', ''exportanswers'', qid]"

definition get_user_list :: "response \<Rightarrow> (string + (ident \<times> ident) list) option" where
  "get_user_list resp =
     (case status_code resp of
        None \<Rightarrow> None
      | Some c \<Rightarrow>
          (if 200 \<le> c \<and> c < 300 then
             (case resp of Resp_export (Http_200 rows) \<Rightarrow> Some (Inr rows) | _ \<Rightarrow> None)
           else if c = 404 then Some (Inl ''Questionnaire not found'')
           else Some (Inl ''Failed to fetch data'')))"

definition download_csv :: "server \<Rightarrow> page \<Rightarrow> page" where
  "download_csv s p =
     (case get_user_list (fst (handle s (export_request (questionnaireId p)))) of
        None \<Rightarrow> p
      | Some (Inr rows) \<Rightarrow> p\<lparr>page_data := rows, page_error := None\<rparr>
      | Some (Inl msg) \<Rightarrow> p\<lparr>page_error := Some msg\<rparr>)"


text \<open>
  \<open>downloadJSON\<close>: on success the rows are serialised and downloaded as \<open>Answers.json\<close>
  (the second component) and the page state is not touched; a thrown message becomes the
  error.
\<close>

definition download_json :: "server \<Rightarrow> page \<Rightarrow> page \<times> (ident \<times> ident) list option" where
  "download_json s p =
     (case get_user_list (fst (handle s (export_request (questionnaireId p)))) of
        None \<Rightarrow> (p, None)
      | Some (Inr rows) \<Rightarrow> (p, Some rows)
      | Some (Inl msg) \<Rightarrow> (p\<lparr>page_error := Some msg\<rparr>, None))"

text \<open>The input's \<open>onChange\<close> handler.\<close>

definition set_questionnaire_id :: "string \<Rightarrow> page \<Rightarrow> page" where
  "set_questionnaire_id v p = p\<lparr>questionnaireId := v\<rparr>"

text \<open>
  The \<open>CSVLink\<close> of the page writes \<open>Answers.csv\<close> from the page's data with the column
  \<open>headers\<close> of lines 5--8: a header row of the labels, then for every row of the data
  the values under the headers' keys (\<open>export_field\<close>: the export row's field of that
  name, the empty cell for a key the row does not have), \<open>questionID\<close> and \<open>ans\<close>.
\<close>

definition csv_headers :: "(string \<times> string) list" where
  "csv_headers = [(''Question'', ''questionID''), (''Answer'', ''ans'')]"

fun export_field :: "ident \<times> ident \<Rightarrow> string \<Rightarrow> string" where
  "export_field (q, a) k = (if k = ''questionID'' then q else if k = ''ans'' then a else [])"

definition csv_file :: "page \<Rightarrow> string list list" where
  "csv_file p = map fst csv_headers # map (\<lambda>r. map (\<lambda>h. export_field r (snd h)) csv_headers) (page_data p)"

definition init_page :: page where
  "init_page = \<lparr>questionnaireId = [], page_data = [], page_error = None\<rparr>"


lemma handle_export_request:
  "qid \<noteq> [] \<Longrightarrow> handle s (export_request qid) = (Resp_export (get_export_answers (db s) qid), s)"
  by (simp add: handle_def route_eval export_request_def mk_request_def dispatch_def)

text \<open>
  A successful JSON export leaves the page as it was: an error shown by an
  earlier failed export stays on the page next to the downloaded file, while a successful CSV
  export of the same data clears it.
\<close>

theorem download_json_keeps_error:
  assumes "snd (download_json s p) = Some rows"
  shows "fst (download_json s p) = p \<and>
         download_csv s p = p\<lparr>page_data := rows, page_error := None\<rparr>"
  using assms
  by (auto simp: download_json_def download_csv_def split: option.splits sum.splits)

theorem download_json_keeps_error_witness:
  "snd (download_json (init_server\<lparr>db := after_q01\<rparr>)
     (set_questionnaire_id ''QQ000''
        (download_csv (init_server\<lparr>db := after_q01\<rparr>) (set_questionnaire_id ''QQ999'' init_page)))) =
     Some [(''Q01'', ''Q01A1'')] \<and>
   page_error (fst (download_json (init_server\<lparr>db := after_q01\<rparr>)
     (set_questionnaire_id ''QQ000''
        (download_csv (init_server\<lparr>db := after_q01\<rparr>) (set_questionnaire_id ''QQ999'' init_page))))) =
     Some ''Failed to fetch data''"
proof -
  have p: "download_csv (init_server\<lparr>db := after_q01\<rparr>) (set_questionnaire_id ''QQ999'' init_page) =
           \<lparr>questionnaireId = ''QQ999'', page_data = [], page_error = Some ''Failed to fetch data''\<rparr>"
    by (simp add: download_csv_def set_questionnaire_id_def init_page_def handle_export_request
        get_user_list_def get_export_answers_def after_q01_def sample_store_def new_answer_def)
  have h: "snd (download_json (init_server\<lparr>db := after_q01\<rparr>)
             \<lparr>questionnaireId = ''QQ000'', page_data = [], page_error = Some ''Failed to fetch data''\<rparr>) =
           Some [(''Q01'', ''Q01A1'')]"
    by (simp add: download_json_def handle_export_request get_user_list_def get_export_answers_def
        after_q01_def sample_store_def new_answer_def js_sort_key)
  show ?thesis
    using download_json_keeps_error[OF h] h p by (simp add: set_questionnaire_id_def)
qed

text \<open>
  Exporting with an empty questionnaire id requests \<open>/exportanswers/\<close>, which
  no route matches; the backend's 404 fallback makes the page show "Questionnaire not found",
  in both export buttons, whatever the store holds.
\<close>

lemma download_empty_id_not_found:
  "page_error (download_csv s (set_questionnaire_id [] p)) = Some ''Questionnaire not found'' \<and>
   download_json s (set_questionnaire_id [] p) =
     (set_questionnaire_id [] p\<lparr>page_error := Some ''Questionnaire not found''\<rparr>, None)"
  by (simp add: download_csv_def download_json_def set_questionnaire_id_def export_request_def
      handle_def route_eval mk_request_def get_user_list_def)

end
