(* ===== verification/Interface.thy ===== *)
theory Interface
  imports Server
begin

text \<open>
  The documented interface of the backend. Every controller of
  \<open>controllers/operational.js\<close> and \<open>controllers/admin.js\<close> opens with a comment whose
  "Error handling" section lists the statuses it answers with and, for status 402 and 422,
  the message of each error; the final middleware of \<open>app.js\<close> answers every other request
  404 "Endpoint not found.". \<open>doc_ok m402 m422 h\<close> says that the outcome \<open>h\<close> is one such a
  section allows, with \<open>m402\<close> and \<open>m422\<close> the documented messages;
  \<open>documented_response\<close> gives the section of each endpoint, read off the comments.
\<close>

definition doc_get_questionnaire :: "string list \<times> string list" where
  "doc_get_questionnaire = ([msg_no_questionnaire], [])"

definition doc_get_question :: "string list \<times> string list" where
  "doc_get_question = ([msg_no_question], [])"

definition doc_post_answer :: "string list \<times> string list" where
  "doc_post_answer = ([msg_check_fields, msg_required_first, msg_cannot_answer], [])"

definition doc_get_session_answers :: "string list \<times> string list" where
  "doc_get_session_answers = ([msg_no_answers], [])"

definition doc_get_question_answers :: "string list \<times> string list" where
  "doc_get_question_answers = ([msg_no_answers], [])"

definition doc_get_export_answers :: "string list \<times> string list" where
  "doc_get_export_answers = ([msg_no_questionnaire], [])"

definition doc_health_check :: "string list \<times> string list" where
  "doc_health_check = ([], [])"

definition doc_questionnaire_upd :: "string list \<times> string list" where
  "doc_questionnaire_upd = ([], [msg_no_file])"

definition doc_reset_all :: "string list \<times> string list" where
  "doc_reset_all = ([], [])"

definition doc_reset_q :: "string list \<times> string list" where
  "doc_reset_q = ([msg_no_questionnaire], [])"

fun doc_ok :: "string list \<times> string list \<Rightarrow> 'a http \<Rightarrow> bool" where
  "doc_ok doc (Http_200 _) = True"
| "doc_ok doc (Http_402 m) = (m \<in> set (fst doc))"
| "doc_ok doc (Http_422 m) = (m \<in> set (snd doc))"
| "doc_ok doc Http_500 = True"
| "doc_ok doc (Http_404 _) = False"
| "doc_ok doc No_response = False"

fun documented_response :: "endpoint option \<Rightarrow> response \<Rightarrow> bool" where
  "documented_response None resp = (resp = Resp_not_found)"
| "documented_response (Some Health) (Resp_status h) = doc_ok doc_health_check h"
| "documented_response (Some Questionnaire_upd) (Resp_status h) = doc_ok doc_questionnaire_upd h"
| "documented_response (Some Reset_all) (Resp_status h) = doc_ok doc_reset_all h"
| "documented_response (Some (Reset_q _)) (Resp_status h) = doc_ok doc_reset_q h"
| "documented_response (Some (Get_questionnaire _)) (Resp_questionnaire h) = doc_ok doc_get_questionnaire h"
| "documented_response (Some (Get_question _ _)) (Resp_question h) = doc_ok doc_get_question h"
| "documented_response (Some (Do_answer _ _ _ _)) (Resp_answer h) = doc_ok doc_post_answer h"
| "documented_response (Some (Get_session_answers _ _)) (Resp_session_answers h) =
     doc_ok doc_get_session_answers h"
| "documented_response (Some (Get_question_answers _ _)) (Resp_question_answers h) =
     doc_ok doc_get_question_answers h"
| "documented_response (Some (Export_answers _)) (Resp_export h) = doc_ok doc_get_export_answers h"
| "documented_response (Some _) _ = False"

lemmas doc_defs = doc_get_questionnaire_def doc_get_question_def doc_post_answer_def doc_get_session_answers_def doc_get_question_answers_def doc_get_export_answers_def doc_health_check_def doc_questionnaire_upd_def doc_reset_all_def doc_reset_q_def

subsection \<open>Each controller answers as documented\<close>

named_theorems doc_ok_intros "documented outcomes of the controllers"

lemma get_health_check_doc [doc_ok_intros]: "doc_ok doc_health_check (get_health_check n)"
  by (simp add: doc_defs get_health_check_def connected_def)

lemma post_questionnaire_upd_doc [doc_ok_intros]: "doc_ok doc_questionnaire_upd (fst (post_questionnaire_upd d f))"
  by (simp add: doc_defs post_questionnaire_upd_def split: option.split)

lemma post_reset_all_doc [doc_ok_intros]: "doc_ok doc_reset_all (fst (post_reset_all d))"
  by (simp add: doc_defs post_reset_all_def)

lemma post_reset_q_doc [doc_ok_intros]: "doc_ok doc_reset_q (fst (post_reset_q d q))"
  by (simp add: doc_defs post_reset_q_def)

lemma get_questionnaire_doc [doc_ok_intros]: "doc_ok doc_get_questionnaire (get_questionnaire d q f)"
  by (simp add: doc_defs get_questionnaire_def Let_def split: format.split)

lemma get_question_doc [doc_ok_intros]: "doc_ok doc_get_question (get_question d q i f)"
  by (simp add: doc_defs get_question_def Let_def split: format.split option.split)

lemma get_session_answers_doc [doc_ok_intros]: "doc_ok doc_get_session_answers (get_session_answers d q s f)"
  by (simp add: doc_defs get_session_answers_def Let_def split: format.split)

lemma get_question_answers_doc [doc_ok_intros]: "doc_ok doc_get_question_answers (get_question_answers d q i f)"
  by (simp add: doc_defs get_question_answers_def Let_def split: format.split)

lemma get_export_answers_doc [doc_ok_intros]: "doc_ok doc_get_export_answers (get_export_answers d q)"
  by (simp add: doc_defs get_export_answers_def Let_def)

lemma post_answer_doc:
  "fst (post_answer d q i s x) \<noteq> No_response \<Longrightarrow>
   doc_ok doc_post_answer (fst (post_answer d q i s x))"
  by (auto simp: doc_defs post_answer_def save_answer_def Let_def split: verdict.splits if_splits)

lemma dispatch_documented:
  assumes "status_code (fst (dispatch s r e)) \<noteq> None"
  shows "documented_response (Some e) (fst (dispatch s r e))"
  using assms
proof (cases e)
  case (Do_answer q i ss x)
  with assms have "fst (post_answer (db s) q i ss x) \<noteq> No_response"
    by (auto simp: dispatch_def case_prod_unfold)
  with Do_answer show ?thesis
    by (simp add: dispatch_def case_prod_unfold post_answer_doc)
qed (simp_all add: dispatch_def case_prod_unfold Let_def doc_ok_intros)

text \<open>
  On the Server model, where parameters arrive decoded and OPTIONS is not answered by Express,
  every response is of the type its endpoint's comment documents: a status the comment lists
  and, for an error, one of the comment's messages; a request no route matches is answered
  404. The application's own responses are C24 (\<open>DocEndpoints\<close>).
\<close>

lemma responses_documented:
  assumes "status_code (fst (handle s r)) \<noteq> None"
  shows "documented_response (route (req_method r) (req_path r)) (fst (handle s r))"
  using assms dispatch_documented[of s r]
  by (auto simp: handle_def split: option.splits)

lemma responses_documented_witness:
  "status_code (fst (handle (init_server\<lparr>db := after_q01\<rparr>) (answer_request ''QQ000'' ''Q03'' ''AAAA'' ''Q03A1''))) \<noteq> None \<and>
   documented_response (route POST [''intelliq_api'', ''doanswer'', ''QQ000'', ''Q03'', ''AAAA'', ''Q03A1''])
     (fst (handle (init_server\<lparr>db := after_q01\<rparr>) (answer_request ''QQ000'' ''Q03'' ''AAAA'' ''Q03A1'')))"
proof -
  have h: "status_code (fst (handle (init_server\<lparr>db := after_q01\<rparr>) (answer_request ''QQ000'' ''Q03'' ''AAAA'' ''Q03A1''))) \<noteq> None"
    by (simp add: handle_def route_eval answer_request_def mk_request_def dispatch_def post_answer_def
        after_q01_def sample_defs answer_fields_match_def session_filter_def later_answer_check_def
        projected_predecessor_def predecessor_match_def points_to_def previous_answer_filter_def
        telos_match_def new_answer_def save_answer_def answer_schema_ok_def)
  show ?thesis
    using h responses_documented[OF h] by (simp add: answer_request_def mk_request_def)
qed

end
