(* ===== verification/Concurrency.thy ===== *)
theory Concurrency
  imports AnswerFlow
begin

text \<open>
  Concurrent submissions. \<open>postAnswer\<close> (\<open>controllers/operational.js\<close> lines 282--461) is a
  chain of promise callbacks: its queries read the store, and its last callback, \<open>save()\<close>,
  writes it. Node's event loop runs the callbacks of different requests in any order, so the
  reads of one request may come before or after the write of another.

  The handler is split into its two phases. \<open>post_answer_read\<close> runs the queries and the
  checks on the store it is given and ends in a \<open>pending\<close> action: a response to send, or
  an answer to save; \<open>post_answer_commit\<close> performs that action on the store of the moment.
  A configuration \<open>conc\<close> is the shared store with the requests in flight, each
  \<open>Arrived\<close>, \<open>Checked\<close> (reads done, write pending) or \<open>Finished\<close> with its response;
  \<open>conc_step\<close> lets any request take its next phase. \<open>conc_run\<close> executes a schedule,
  an explicit list of \<open>event\<close>s, and covers exactly the steps of \<open>conc_step\<close>.

  The reads of one request happen in one step. Every schedule of this model is a schedule of
  the event loop, so the race below is a behaviour of the server; the invariant holds for every
  schedule of the event loop too, since it only depends on the questionnaires, which no
  submission changes.
\<close>

datatype pending = Respond "answer http" | Save answer

definition post_answer_read :: "store \<Rightarrow> ident \<Rightarrow> ident \<Rightarrow> ident \<Rightarrow> ident \<Rightarrow> pending" where
  "post_answer_read d qnid qid s oid =
     (let result = find_questionnaires d (answer_fields_match qnid qid oid) in
      if result = [] then Respond (Http_402 msg_check_fields)
      else
        (let apotel = find_answers d (session_filter qnid s);
             v = (if apotel = [] then first_answer_check result qid
                  else later_answer_check d qnid qid s)
         in case v of
              Pass \<Rightarrow> Save (new_answer qnid qid s oid)
            | Required_first \<Rightarrow> Respond (Http_402 msg_required_first)
            | Cannot_answer \<Rightarrow> Respond (Http_402 msg_cannot_answer)
            | Type_error \<Rightarrow> Respond No_response))"

definition post_answer_commit :: "store \<Rightarrow> pending \<Rightarrow> answer http \<times> store" where
  "post_answer_commit d p = (case p of Respond r \<Rightarrow> (r, d) | Save a \<Rightarrow> save_answer d a)"

datatype thread =
    Arrived ident ident ident ident
  | Checked pending
  | Finished "answer http"

record conc =
  shared :: store
  threads :: "thread list"

inductive conc_step :: "conc \<Rightarrow> conc \<Rightarrow> bool" where
  arrive: "conc_step c (c\<lparr>threads := threads c @ [Arrived qnid qid s oid]\<rparr>)"
| check: "\<lbrakk>i < length (threads c); threads c ! i = Arrived qnid qid s oid\<rbrakk> \<Longrightarrow>
    conc_step c (c\<lparr>threads := (threads c)[i := Checked (post_answer_read (shared c) qnid qid s oid)]\<rparr>)"
| commit: "\<lbrakk>i < length (threads c); threads c ! i = Checked p; post_answer_commit (shared c) p = (r, d)\<rbrakk> \<Longrightarrow>
    conc_step c \<lparr>shared = d, threads = (threads c)[i := Finished r]\<rparr>"

datatype event = Arrive ident ident ident ident | Check nat | Commit nat

fun conc_exec :: "conc \<Rightarrow> event \<Rightarrow> conc option" where
  "conc_exec c (Arrive qnid qid s oid) = Some (c\<lparr>threads := threads c @ [Arrived qnid qid s oid]\<rparr>)"
| "conc_exec c (Check i) =
     (case js_index (threads c) i of
        Some (Arrived qnid qid s oid) \<Rightarrow>
          Some (c\<lparr>threads := (threads c)[i := Checked (post_answer_read (shared c) qnid qid s oid)]\<rparr>)
      | _ \<Rightarrow> None)"
| "conc_exec c (Commit i) =
     (case js_index (threads c) i of
        Some (Checked p) \<Rightarrow>
          (case post_answer_commit (shared c) p of
             (r, d) \<Rightarrow> Some \<lparr>shared = d, threads = (threads c)[i := Finished r]\<rparr>)
      | _ \<Rightarrow> None)"

fun conc_run :: "conc \<Rightarrow> event list \<Rightarrow> conc option" where
  "conc_run c [] = Some c"
| "conc_run c (e # es) = (case conc_exec c e of None \<Rightarrow> None | Some c' \<Rightarrow> conc_run c' es)"

fun save_refers :: "store \<Rightarrow> thread \<Rightarrow> bool" where
  "save_refers d (Checked (Save a)) = answer_refers d a"
| "save_refers d _ = True"

definition conc_inv :: "conc \<Rightarrow> bool" where
  "conc_inv c \<longleftrightarrow> answers_valid (shared c) \<and> list_all (save_refers (shared c)) (threads c)"

text \<open>
  Progress without new requests. \<open>thread_work\<close> counts the steps a request still has
  to take (two when it arrived, one once checked, none when finished); \<open>conc_progress\<close>
  is a step that admits no new request.
\<close>

fun thread_work :: "thread \<Rightarrow> nat" where
  "thread_work (Arrived _ _ _ _) = 2"
| "thread_work (Checked _) = 1"
| "thread_work (Finished _) = 0"

definition conc_work :: "conc \<Rightarrow> nat" where
  "conc_work c = sum_list (map thread_work (threads c))"

definition conc_progress :: "conc \<Rightarrow> conc \<Rightarrow> bool" where
  "conc_progress c c' \<longleftrightarrow> conc_step c c' \<and> length (threads c') = length (threads c)"

fun finished :: "thread \<Rightarrow> bool" where
  "finished (Finished _) = True"
| "finished _ = False"

text \<open>The schedule of the race: two submissions of the same session both pass their checks
  before either is saved.\<close>

definition race_schedule :: "event list" where
  "race_schedule =
     [Arrive ''QQ000'' ''Q01'' ''AAAA'' ''Q01A1'', Arrive ''QQ000'' ''Q01'' ''AAAA'' ''Q01A2'',
      Check 0, Check 1, Commit 0, Commit 1]"

text \<open>
  A request that has been or will be answered with a status: not a pending or sent
  \<open>No_response\<close>.
\<close>

fun answered :: "thread \<Rightarrow> bool" where
  "answered (Checked (Respond r)) = (r \<noteq> No_response)"
| "answered (Finished r) = (r \<noteq> No_response)"
| "answered _ = True"

definition conc_answered :: "conc \<Rightarrow> bool" where
  "conc_answered c \<longleftrightarrow>
     distinct (map questionnaireID (questionnaires (shared c))) \<and> list_all answered (threads c)"

subsection \<open>Lemmas on the phases and the scheduler\<close>

lemma post_answer_read_Save:
  "post_answer_read d qnid qid s oid = Save a \<Longrightarrow>
   a = new_answer qnid qid s oid \<and> list_ex (answer_fields_match qnid qid oid) (questionnaires d)"
  by (auto simp: post_answer_read_def Let_def filter_empty_conv list_ex_iff
           split: if_splits verdict.splits)

lemma post_answer_commit_effect:
  "snd (post_answer_commit d p) = d \<or>
   (\<exists>a. p = Save a \<and> answer_schema_ok a \<and> snd (post_answer_commit d p) = insert_answer d a)"
  by (auto simp: post_answer_commit_def save_answer_def split: pending.split)

lemma save_refers_questionnaires:
  "questionnaires d' = questionnaires d \<Longrightarrow> save_refers d' t = save_refers d t"
  by (induction d t rule: save_refers.induct) (simp_all add: answer_refers_def)

lemma conc_exec_step: "conc_exec c e = Some c' \<Longrightarrow> conc_step c c'"
proof (cases e)
  case (Check i)
  assume h: "conc_exec c e = Some c'"
  with Check show ?thesis
    by (auto simp: js_index_def intro: conc_step.check split: option.splits if_splits thread.splits)
next
  case (Commit i)
  assume h: "conc_exec c e = Some c'"
  with Commit show ?thesis
    by (auto simp: js_index_def intro: conc_step.commit split: option.splits if_splits thread.splits prod.splits)
qed (auto intro: conc_step.arrive)

lemma conc_step_exec: "conc_step c c' \<Longrightarrow> \<exists>e. conc_exec c e = Some c'"
proof (induction rule: conc_step.induct)
  case (arrive c qnid qid s oid)
  show ?case by (rule exI[of _ "Arrive qnid qid s oid"]) simp
next
  case (check i c qnid qid s oid)
  then show ?case by (intro exI[of _ "Check i"]) (simp add: js_index_def)
next
  case (commit i c p r d)
  then show ?case by (intro exI[of _ "Commit i"]) (simp add: js_index_def)
qed

lemma conc_run_steps: "conc_run c es = Some c' \<Longrightarrow> conc_step\<^sup>*\<^sup>* c c'"
proof (induction es arbitrary: c)
  case (Cons e es)
  then obtain c1 where "conc_exec c e = Some c1" "conc_run c1 es = Some c'"
    by (auto split: option.splits)
  with Cons.IH show ?case by (meson conc_exec_step converse_rtranclp_into_rtranclp)
qed simp

text \<open>The two phases run back to back are the handler.\<close>

lemma post_answer_read_commit:
  "post_answer d qnid qid s oid = post_answer_commit d (post_answer_read d qnid qid s oid)"
  by (simp add: post_answer_def post_answer_read_def post_answer_commit_def Let_def
           split: verdict.split)

lemma post_answer_read_other_session:
  "session a \<noteq> s \<Longrightarrow>
   post_answer_read (insert_answer d a) qnid qid s oid = post_answer_read d qnid qid s oid"
  by (simp add: post_answer_read_def session_filter_def Let_def later_answer_check_other_session)

lemma conc_step_inv: "conc_step c c' \<Longrightarrow> conc_inv c \<Longrightarrow> conc_inv c'"
proof (induction rule: conc_step.induct)
  case (arrive c qnid qid s oid)
  then show ?case by (simp add: conc_inv_def)
next
  case (check i c qnid qid s oid)
  have "save_refers (shared c) (Checked (post_answer_read (shared c) qnid qid s oid))"
    using post_answer_read_Save[of "shared c" qnid qid s oid]
    by (cases "post_answer_read (shared c) qnid qid s oid") (auto simp: answer_refers_def new_answer_def)
  with check show ?case
    by (auto simp: conc_inv_def list_all_length nth_list_update)
next
  case (commit i c p r d)
  have q: "questionnaires d = questionnaires (shared c)"
    using post_answer_commit_effect[of "shared c" p] commit.hyps(3) by auto
  have "save_refers (shared c) (Checked p)"
    using commit by (auto simp: conc_inv_def list_all_length)
  then have "answers_valid d"
    using post_answer_commit_effect[of "shared c" p] commit
    by (auto simp: conc_inv_def answers_valid_def answer_refers_def)
  then show ?case using commit.prems commit.hyps(1) save_refers_questionnaires[OF q]
    by (auto simp: conc_inv_def list_all_length nth_list_update)
qed

lemma conc_steps_inv: "conc_step\<^sup>*\<^sup>* c c' \<Longrightarrow> conc_inv c \<Longrightarrow> conc_inv c'"
  by (induction rule: rtranclp_induct) (auto intro: conc_step_inv)

lemma conc_progress_work: "conc_progress c c' \<Longrightarrow> conc_work c' < conc_work c"
  unfolding conc_progress_def
proof (elim conjE, induction rule: conc_step.induct)
  case (check i c qnid qid s oid)
  then show ?case
    using sum_list_map_update[OF check(1), of thread_work "Checked (post_answer_read (shared c) qnid qid s oid)"]
    by (simp add: conc_work_def)
next
  case (commit i c p r d)
  then show ?case
    using sum_list_map_update[OF commit(1), of thread_work "Finished r"]
    by (simp add: conc_work_def)
qed simp

lemma conc_work_bound: "conc_work c \<le> 2 * length (threads c)"
proof -
  have "\<And>ts. sum_list (map thread_work ts) \<le> 2 * length ts"
  proof -
    fix ts show "sum_list (map thread_work ts) \<le> 2 * length ts"
    proof (induction ts)
      case (Cons t ts)
      have "thread_work t \<le> 2" by (cases t) simp_all
      with Cons show ?case by simp
    qed simp
  qed
  then show ?thesis by (simp add: conc_work_def)
qed

lemma unfinished_step:
  assumes "\<not> list_all finished (threads c)"
  shows "\<exists>c'. conc_progress c c'"
proof -
  from assms obtain i where i: "i < length (threads c)" "\<not> finished (threads c ! i)"
    by (auto simp: list_all_length)
  show ?thesis
  proof (cases "threads c ! i")
    case (Arrived qnid qid s oid)
    with i show ?thesis by (auto simp: conc_progress_def intro: conc_step.check)
  next
    case (Checked p)
    obtain r d where "post_answer_commit (shared c) p = (r, d)" by fastforce
    with Checked i show ?thesis by (auto simp: conc_progress_def intro: conc_step.commit)
  next
    case (Finished r)
    with i show ?thesis by simp
  qed
qed

lemma race_run:
  "conc_run \<lparr>shared = sample_store, threads = []\<rparr> race_schedule =
   Some \<lparr>shared = sample_store\<lparr>answers :=
            [new_answer ''QQ000'' ''Q01'' ''AAAA'' ''Q01A1'', new_answer ''QQ000'' ''Q01'' ''AAAA'' ''Q01A2'']\<rparr>,
         threads = [Finished (Http_200 (new_answer ''QQ000'' ''Q01'' ''AAAA'' ''Q01A1'')),
                    Finished (Http_200 (new_answer ''QQ000'' ''Q01'' ''AAAA'' ''Q01A2''))]\<rparr>"
  by (simp add: race_schedule_def js_index_def post_answer_read_def post_answer_commit_def sample_defs
      answer_fields_match_def session_filter_def first_answer_check_def first_fields_def
      save_answer_def answer_schema_ok_def new_answer_def)

subsection \<open>Properties of concurrent submissions\<close>

text \<open>
  C25 (safety). Two submissions of the same session can both be accepted where only one may be:
  when both pass their checks before either is saved, the session answers the first question
  twice, once with each option. Run one after the other, in either order, the second is
  refused with "Cannot answer that question.", so the interleaved outcome is not the outcome
  of any sequential order.
\<close>

theorem same_session_race:
  "conc_run \<lparr>shared = sample_store, threads = []\<rparr> race_schedule =
   Some \<lparr>shared = sample_store\<lparr>answers :=
            [new_answer ''QQ000'' ''Q01'' ''AAAA'' ''Q01A1'', new_answer ''QQ000'' ''Q01'' ''AAAA'' ''Q01A2'']\<rparr>,
         threads = [Finished (Http_200 (new_answer ''QQ000'' ''Q01'' ''AAAA'' ''Q01A1'')),
                    Finished (Http_200 (new_answer ''QQ000'' ''Q01'' ''AAAA'' ''Q01A2''))]\<rparr> \<and>
   fst (post_answer (snd (post_answer sample_store ''QQ000'' ''Q01'' ''AAAA'' ''Q01A1''))
          ''QQ000'' ''Q01'' ''AAAA'' ''Q01A2'') = Http_402 msg_cannot_answer \<and>
   fst (post_answer (snd (post_answer sample_store ''QQ000'' ''Q01'' ''AAAA'' ''Q01A2''))
          ''QQ000'' ''Q01'' ''AAAA'' ''Q01A1'') = Http_402 msg_cannot_answer"
  apply (simp only: race_run simp_thms)
  by (simp add: post_answer_def sample_defs answer_fields_match_def session_filter_def
      first_answer_check_def first_fields_def save_answer_def answer_schema_ok_def new_answer_def
      later_answer_check_def predecessor_match_def points_to_def previous_answer_filter_def)

text \<open>
  C26 (invariant). Under every interleaving of submissions, starting from a store whose
  answers all refer to a stored question and option, every answer stored still does: a
  pending save was checked against the questionnaires, and no submission changes them.
\<close>

theorem interleaving_answers_valid:
  assumes "conc_step\<^sup>*\<^sup>* \<lparr>shared = d, threads = []\<rparr> c" and "answers_valid d"
  shows "answers_valid (shared c)"
  using conc_steps_inv[OF assms(1)] assms(2) by (simp add: conc_inv_def)

theorem interleaving_answers_valid_witness:
  "conc_step\<^sup>*\<^sup>* \<lparr>shared = sample_store, threads = []\<rparr>
     \<lparr>shared = sample_store\<lparr>answers :=
            [new_answer ''QQ000'' ''Q01'' ''AAAA'' ''Q01A1'', new_answer ''QQ000'' ''Q01'' ''AAAA'' ''Q01A2'']\<rparr>,
      threads = [Finished (Http_200 (new_answer ''QQ000'' ''Q01'' ''AAAA'' ''Q01A1'')),
                 Finished (Http_200 (new_answer ''QQ000'' ''Q01'' ''AAAA'' ''Q01A2''))]\<rparr> \<and>
   answers_valid sample_store \<and>
   answers_valid (sample_store\<lparr>answers :=
            [new_answer ''QQ000'' ''Q01'' ''AAAA'' ''Q01A1'', new_answer ''QQ000'' ''Q01'' ''AAAA'' ''Q01A2'']\<rparr>)"
proof -
  have r: "conc_step\<^sup>*\<^sup>* \<lparr>shared = sample_store, threads = []\<rparr>
     \<lparr>shared = sample_store\<lparr>answers :=
            [new_answer ''QQ000'' ''Q01'' ''AAAA'' ''Q01A1'', new_answer ''QQ000'' ''Q01'' ''AAAA'' ''Q01A2'']\<rparr>,
      threads = [Finished (Http_200 (new_answer ''QQ000'' ''Q01'' ''AAAA'' ''Q01A1'')),
                 Finished (Http_200 (new_answer ''QQ000'' ''Q01'' ''AAAA'' ''Q01A2''))]\<rparr>"
    by (rule conc_run_steps[OF race_run])
  have v: "answers_valid sample_store" by (simp add: answers_valid_def sample_store_def)
  show ?thesis using interleaving_answers_valid[OF r v] r v by simp
qed

text \<open>
  C27 (equivalence). Submissions of different sessions are serializable: when both pass their
  checks before either is saved, the responses and the final store are those of handling the
  two requests one after the other.
\<close>

theorem interleaved_sessions_serializable:
  assumes "s1 \<noteq> s2"
  shows "conc_run \<lparr>shared = d, threads = []\<rparr>
           [Arrive q1 i1 s1 o1, Arrive q2 i2 s2 o2, Check 0, Check 1, Commit 0, Commit 1] =
         Some \<lparr>shared = snd (post_answer (snd (post_answer d q1 i1 s1 o1)) q2 i2 s2 o2),
               threads = [Finished (fst (post_answer d q1 i1 s1 o1)),
                          Finished (fst (post_answer (snd (post_answer d q1 i1 s1 o1)) q2 i2 s2 o2))]\<rparr>"
proof -
  have e: "post_answer_read (snd (post_answer d q1 i1 s1 o1)) q2 i2 s2 o2 = post_answer_read d q2 i2 s2 o2"
    using post_answer_store_effect[of d q1 i1 s1 o1]
      post_answer_read_other_session[of "new_answer q1 i1 s1 o1" s2 d q2 i2 o2] assms
    by (auto simp: new_answer_def)
  show ?thesis
    by (simp add: js_index_def post_answer_read_commit e[symmetric] split: prod.split)
qed

theorem interleaved_sessions_serializable_witness:
  "''AAAA'' \<noteq> ''BBBB'' \<and>
   conc_run \<lparr>shared = sample_store, threads = []\<rparr>
     [Arrive ''QQ000'' ''Q01'' ''AAAA'' ''Q01A1'', Arrive ''QQ000'' ''Q01'' ''BBBB'' ''Q01A2'',
      Check 0, Check 1, Commit 0, Commit 1] =
   Some \<lparr>shared = snd (post_answer (snd (post_answer sample_store ''QQ000'' ''Q01'' ''AAAA'' ''Q01A1''))
                          ''QQ000'' ''Q01'' ''BBBB'' ''Q01A2''),
         threads = [Finished (fst (post_answer sample_store ''QQ000'' ''Q01'' ''AAAA'' ''Q01A1'')),
                    Finished (fst (post_answer (snd (post_answer sample_store ''QQ000'' ''Q01'' ''AAAA'' ''Q01A1''))
                                     ''QQ000'' ''Q01'' ''BBBB'' ''Q01A2''))]\<rparr>"
proof -
  have h: "''AAAA'' \<noteq> ''BBBB''" by simp
  show ?thesis using h interleaved_sessions_serializable[OF h] by simp
qed

subsection \<open>Every request in flight is answered\<close>

text \<open>
  Once no new request arrives, the interleaving ends: the steps that admit no new request
  form a well-founded relation, by \<open>conc_work\<close>.
\<close>

lemma conc_progress_terminates: "wf {(c', c). conc_progress c c'}"
  by (rule wf_subset[OF wf_measure[of conc_work]]) (auto dest: conc_progress_work)

lemma conc_all_finished: "\<exists>c'. conc_progress\<^sup>*\<^sup>* c c' \<and> list_all finished (threads c')"
proof (induction c rule: wf_induct[OF conc_progress_terminates])
  case (1 c)
  show ?case
  proof (cases "list_all finished (threads c)")
    case True
    then show ?thesis by blast
  next
    case False
    then obtain c1 where s: "conc_progress c c1" using unfinished_step by blast
    with 1 obtain c' where "conc_progress\<^sup>*\<^sup>* c1 c'" "list_all finished (threads c')" by blast
    with s show ?thesis by (meson converse_rtranclp_into_rtranclp)
  qed
qed

text \<open>
  With one document per questionnaire id, no query callback of \<open>postAnswer\<close> throws: the
  first-answer loop reads the questions of the one document that has the submitted question,
  and the predecessor query returns at most one document, whose projection exists.
\<close>

lemma distinct_ids_filter:
  assumes "distinct (map questionnaireID xs)" and "\<And>r. P r \<Longrightarrow> questionnaireID r = qnid"
  shows "length (filter P xs) \<le> 1"
  using assms
proof (induction xs)
  case (Cons x xs)
  then have "P x \<Longrightarrow> filter P xs = []"
    by (fastforce simp: filter_empty_conv)
  with Cons show ?case by auto
qed simp

lemma later_answer_check_answered:
  assumes "length (find_questionnaires d (predecessor_match qnid qid)) \<le> 1"
  shows "later_answer_check d qnid qid s \<noteq> Type_error"
proof -
  have "for_each_assign (projected_predecessor qid) (find_questionnaires d (predecessor_match qnid qid)) None \<noteq> None"
  proof (cases "find_questionnaires d (predecessor_match qnid qid)")
    case (Cons x xs)
    with assms have xs: "xs = []" by simp
    from Cons have "x \<in> set (find_questionnaires d (predecessor_match qnid qid))" by simp
    then have "find (points_to qid) (questions x) \<noteq> None"
      by (auto simp: predecessor_match_def list_ex_iff find_None_iff)
    with Cons xs show ?thesis by (auto simp: projected_predecessor_def)
  qed simp
  then show ?thesis by (auto simp: later_answer_check_def Let_def split: option.splits)
qed

lemma post_answer_read_answered:
  assumes "distinct (map questionnaireID (questionnaires d))"
  shows "post_answer_read d qnid qid s oid \<noteq> Respond No_response"
proof -
  have one: "length (find_questionnaires d (answer_fields_match qnid qid oid)) \<le> 1"
    and pred: "length (find_questionnaires d (predecessor_match qnid qid)) \<le> 1"
    using distinct_ids_filter[OF assms, of "answer_fields_match qnid qid oid" qnid]
      distinct_ids_filter[OF assms, of "predecessor_match qnid qid" qnid]
    by (auto simp: answer_fields_match_def predecessor_match_def)
  have "first_answer_check [re] qid \<noteq> Type_error"
    if "find_questionnaires d (answer_fields_match qnid qid oid) = [re]" for re
  proof -
    have "re \<in> set (find_questionnaires d (answer_fields_match qnid qid oid))" using that by simp
    then have "qid \<in> qID ` set (questions re)"
      by (auto simp: answer_fields_match_def list_ex_iff)
    then show ?thesis by (simp add: first_answer_check_single)
  qed
  moreover have "find_questionnaires d (answer_fields_match qnid qid oid) = [] \<or>
      (\<exists>re. find_questionnaires d (answer_fields_match qnid qid oid) = [re])"
    using one by (cases "find_questionnaires d (answer_fields_match qnid qid oid)") auto
  ultimately show ?thesis
    using later_answer_check_answered[OF pred, of s]
    by (auto simp: post_answer_read_def Let_def split: verdict.splits)
qed

lemma http_status_None: "http_status r = None \<longleftrightarrow> r = No_response"
  by (cases r) simp_all

lemma conc_step_answered: "conc_step c c' \<Longrightarrow> conc_answered c \<Longrightarrow> conc_answered c'"
proof (induction rule: conc_step.induct)
  case (check i c qnid qid s oid)
  then show ?case
    using post_answer_read_answered[of "shared c" qnid qid s oid]
    by (cases "post_answer_read (shared c) qnid qid s oid")
      (auto simp: conc_answered_def list_all_iff dest!: subsetD[OF set_update_subset_insert])
next
  case (commit i c p r d)
  then have "answered (Checked p)" by (auto simp: conc_answered_def list_all_length)
  with commit have "r \<noteq> No_response" and "questionnaires d = questionnaires (shared c)"
    by (auto simp: post_answer_commit_def save_answer_def split: pending.splits if_splits)
  with commit show ?case
    by (auto simp: conc_answered_def list_all_iff dest!: subsetD[OF set_update_subset_insert])
qed (auto simp: conc_answered_def)

lemma conc_steps_answered: "conc_step\<^sup>*\<^sup>* c c' \<Longrightarrow> conc_answered c \<Longrightarrow> conc_answered c'"
  by (induction rule: rtranclp_induct) (auto intro: conc_step_answered)

text \<open>
  C34 (liveness). On a store with one document per questionnaire id, every submission in
  flight receives an HTTP response: from every configuration reachable from such a store, the
  steps without new requests reach one in which every request has been answered with a status.
  With two documents sharing an id a request can hang instead (C14).
\<close>

theorem conc_all_answered:
  assumes "conc_step\<^sup>*\<^sup>* \<lparr>shared = d, threads = []\<rparr> c"
    and "distinct (map questionnaireID (questionnaires d))"
  shows "\<exists>c'. conc_progress\<^sup>*\<^sup>* c c' \<and>
              list_all (\<lambda>t. \<exists>r. t = Finished r \<and> http_status r \<noteq> None) (threads c')"
proof -
  have "conc_answered c"
    using conc_steps_answered[OF assms(1)] assms(2) by (simp add: conc_answered_def)
  obtain c' where p: "conc_progress\<^sup>*\<^sup>* c c'" and f: "list_all finished (threads c')"
    using conc_all_finished by blast
  have "conc_step\<^sup>*\<^sup>* c c'"
    using p by (induction rule: rtranclp_induct) (auto simp: conc_progress_def)
  then have "conc_answered c'" using conc_steps_answered \<open>conc_answered c\<close> by blast
  moreover have "\<exists>r. t = Finished r \<and> http_status r \<noteq> None" if "finished t" "answered t" for t
    using that http_status_None by (cases t) auto
  ultimately have "list_all (\<lambda>t. \<exists>r. t = Finished r \<and> http_status r \<noteq> None) (threads c')"
    using f by (auto simp: conc_answered_def list_all_iff)
  with p show ?thesis by blast
qed

theorem conc_all_answered_witness:
  "conc_step\<^sup>*\<^sup>* \<lparr>shared = sample_store, threads = []\<rparr>
     \<lparr>shared = sample_store, threads = [Arrived ''QQ000'' ''Q01'' ''AAAA'' ''Q01A1'']\<rparr> \<and>
   distinct (map questionnaireID (questionnaires sample_store)) \<and>
   (\<exists>c'. conc_progress\<^sup>*\<^sup>* \<lparr>shared = sample_store, threads = [Arrived ''QQ000'' ''Q01'' ''AAAA'' ''Q01A1'']\<rparr> c' \<and>
         list_all (\<lambda>t. \<exists>r. t = Finished r \<and> http_status r \<noteq> None) (threads c'))"
proof -
  have s: "conc_step\<^sup>*\<^sup>* \<lparr>shared = sample_store, threads = []\<rparr>
     \<lparr>shared = sample_store, threads = [Arrived ''QQ000'' ''Q01'' ''AAAA'' ''Q01A1'']\<rparr>"
    using conc_step.arrive[of "\<lparr>shared = sample_store, threads = []\<rparr>" "''QQ000''" "''Q01''" "''AAAA''" "''Q01A1''"]
    by simp
  have d: "distinct (map questionnaireID (questionnaires sample_store))"
    by (simp add: sample_store_def sample_questionnaire_def sample_optional_def)
  show ?thesis using s d conc_all_answered[OF s d] by blast
qed

end
