(* ===== verification/AsyncReset.thy ===== *)
theory AsyncReset
  imports Concurrency Admin ReadAPI
begin

text \<open>
  The resets answer before their deletions finish. \<open>postResetAll\<close>
  (\<open>controllers/admin.js\<close> lines 139--161) starts \<open>Questionnaire.deleteMany({})\<close> and
  \<open>Answer.deleteMany({})\<close> without waiting for either and answers 200;
  \<open>postResetQ\<close> (lines 200--221) answers 200 once the questionnaire is found and leaves
  \<open>Answer.deleteMany\<close> running. A reset is therefore its response and a list of pending
  \<open>deletion\<close>s (\<open>post_reset_all_async\<close>, \<open>post_reset_q_async\<close>); \<open>run_deletion\<close> is
  one \<open>deleteMany\<close> completing.

  A configuration \<open>aconf\<close> extends the submissions of \<open>Concurrency\<close> with the pending
  deletions and the responses the resets sent; \<open>a_step\<close> lets a submission take a step, a
  reset arrive, or a pending deletion complete, in any order; \<open>a_run\<close> executes an explicit
  schedule of \<open>aevent\<close>s.
\<close>

datatype deletion = Del_all_questionnaires | Del_all_answers | Del_answers_of ident

fun run_deletion :: "deletion \<Rightarrow> store \<Rightarrow> store" where
  "run_deletion Del_all_questionnaires d = delete_questionnaires d (\<lambda>_. True)"
| "run_deletion Del_all_answers d = delete_answers d (\<lambda>_. True)"
| "run_deletion (Del_answers_of qnid) d = delete_answers d (\<lambda>a. questionnaireIDRef a = qnid)"

definition post_reset_all_async :: "store \<Rightarrow> string http \<times> deletion list" where
  "post_reset_all_async d = (Http_200 ''OK'', [Del_all_questionnaires, Del_all_answers])"

definition post_reset_q_async :: "store \<Rightarrow> ident \<Rightarrow> string http \<times> deletion list" where
  "post_reset_q_async d qnid =
     (if find_questionnaires d (\<lambda>q. questionnaireID q = qnid) = []
      then (Http_402 msg_no_questionnaire, [])
      else (Http_200 ''OK'', [Del_answers_of qnid]))"

record aconf =
  astore :: store
  subs :: "thread list"
  dels :: "deletion list"
  replies :: "string http list"

definition drop_at :: "nat \<Rightarrow> 'a list \<Rightarrow> 'a list" where
  "drop_at i xs = take i xs @ drop (Suc i) xs"

definition start_reset :: "aconf \<Rightarrow> string http \<times> deletion list \<Rightarrow> aconf" where
  "start_reset a rd = a\<lparr>dels := dels a @ snd rd, replies := replies a @ [fst rd]\<rparr>"

inductive a_step :: "aconf \<Rightarrow> aconf \<Rightarrow> bool" where
  submission: "conc_step \<lparr>shared = astore a, threads = subs a\<rparr> c \<Longrightarrow>
    a_step a (a\<lparr>astore := shared c, subs := threads c\<rparr>)"
| reset_all: "a_step a (start_reset a (post_reset_all_async (astore a)))"
| reset_q: "a_step a (start_reset a (post_reset_q_async (astore a) qnid))"
| deletion: "i < length (dels a) \<Longrightarrow>
    a_step a (a\<lparr>astore := run_deletion (dels a ! i) (astore a), dels := drop_at i (dels a)\<rparr>)"

datatype aevent = Sub event | Reset_all | Reset_q ident | Delete nat

fun a_exec :: "aconf \<Rightarrow> aevent \<Rightarrow> aconf option" where
  "a_exec a (Sub e) =
     map_option (\<lambda>c. a\<lparr>astore := shared c, subs := threads c\<rparr>)
       (conc_exec \<lparr>shared = astore a, threads = subs a\<rparr> e)"
| "a_exec a Reset_all = Some (start_reset a (post_reset_all_async (astore a)))"
| "a_exec a (Reset_q qnid) = Some (start_reset a (post_reset_q_async (astore a) qnid))"
| "a_exec a (Delete i) =
     (case js_index (dels a) i of
        None \<Rightarrow> None
      | Some x \<Rightarrow> Some (a\<lparr>astore := run_deletion x (astore a), dels := drop_at i (dels a)\<rparr>))"

fun a_run :: "aconf \<Rightarrow> aevent list \<Rightarrow> aconf option" where
  "a_run a [] = Some a"
| "a_run a (e # es) = (case a_exec a e of None \<Rightarrow> None | Some a' \<Rightarrow> a_run a' es)"

text \<open>
  The schedule of the lost reset: a session's answer to \<open>Q02\<close> passes its checks, the
  questionnaires are reset, both deletions complete, and then the answer is saved.
\<close>

definition lost_reset_schedule :: "aevent list" where
  "lost_reset_schedule =
     [Sub (Arrive ''QQ000'' ''Q02'' ''AAAA'' ''Q02A1''), Sub (Check 0), Reset_all,
      Delete 0, Delete 0, Sub (Commit 0)]"

subsection \<open>Lemmas\<close>

lemma run_deletion_commute: "run_deletion x \<circ> run_deletion y = run_deletion y \<circ> run_deletion x"
  by (cases x; cases y) (auto simp: fun_eq_iff conj_commute)

text \<open>Completing the deletion of \<open>postResetQ\<close> gives the reset of the \<open>Admin\<close> model.\<close>

lemma reset_q_deletion:
  "fold run_deletion (snd (post_reset_q_async d qnid)) d = snd (post_reset_q d qnid) \<and>
   fst (post_reset_q_async d qnid) = fst (post_reset_q d qnid)"
  by (simp add: post_reset_q_async_def post_reset_q_def)

lemma a_exec_step: "a_exec a e = Some a' \<Longrightarrow> a_step a a'"
proof (cases e)
  case (Sub x)
  assume "a_exec a e = Some a'"
  with Sub obtain c where "conc_exec \<lparr>shared = astore a, threads = subs a\<rparr> x = Some c"
    and "a' = a\<lparr>astore := shared c, subs := threads c\<rparr>" by auto
  then show ?thesis by (auto intro: a_step.submission conc_exec_step)
next
  case (Delete i)
  assume "a_exec a e = Some a'"
  with Delete show ?thesis
    by (auto simp: js_index_def intro: a_step.deletion split: if_splits)
qed (auto intro: a_step.reset_all a_step.reset_q)

lemma a_run_steps: "a_run a es = Some a' \<Longrightarrow> a_step\<^sup>*\<^sup>* a a'"
proof (induction es arbitrary: a)
  case (Cons e es)
  then obtain a1 where "a_exec a e = Some a1" "a_run a1 es = Some a'"
    by (auto split: option.splits)
  with Cons.IH show ?case by (meson a_exec_step converse_rtranclp_into_rtranclp)
qed simp

lemma lost_reset_run:
  "a_run \<lparr>astore = after_q01, subs = [], dels = [], replies = []\<rparr> lost_reset_schedule =
   Some \<lparr>astore = \<lparr>questionnaires = [], answers = [new_answer ''QQ000'' ''Q02'' ''AAAA'' ''Q02A1'']\<rparr>,
         subs = [Finished (Http_200 (new_answer ''QQ000'' ''Q02'' ''AAAA'' ''Q02A1''))],
         dels = [], replies = [Http_200 ''OK'']\<rparr>"
  by (simp add: lost_reset_schedule_def js_index_def drop_at_def start_reset_def post_reset_all_async_def
      post_answer_read_def post_answer_commit_def after_q01_def sample_defs
      answer_fields_match_def session_filter_def later_answer_check_def projected_predecessor_def
      predecessor_match_def points_to_def previous_answer_filter_def telos_match_def
      save_answer_def answer_schema_ok_def new_answer_def)

subsection \<open>Properties of the asynchronous resets\<close>

text \<open>
  The deletions of \<open>postResetAll\<close> may complete in either order: every
  order leaves the store the \<open>Admin\<close> model's reset leaves, with no questionnaire and no
  answer.
\<close>

lemma reset_deletions_any_order:
  assumes "mset ds = mset (snd (post_reset_all_async d))"
  shows "fold run_deletion ds d = snd (post_reset_all d)"
proof -
  have "fold run_deletion ds = fold run_deletion (snd (post_reset_all_async d))"
    using assms run_deletion_commute by (intro fold_multiset_equiv) auto
  then show ?thesis by (simp add: post_reset_all_async_def post_reset_all_def)
qed

lemma reset_deletions_any_order_witness:
  "mset [Del_all_answers, Del_all_questionnaires] = mset (snd (post_reset_all_async after_q01)) \<and>
   fold run_deletion [Del_all_answers, Del_all_questionnaires] after_q01 = snd (post_reset_all after_q01)"
proof -
  have h: "mset [Del_all_answers, Del_all_questionnaires] = mset (snd (post_reset_all_async after_q01))"
    by (simp add: post_reset_all_async_def)
  show ?thesis using h reset_deletions_any_order[OF h] by simp
qed

text \<open>
  C31 (safety). A reset does not reset a submission in flight: a session's answer that passed
  its checks before \<open>resetall\<close> is saved after the reset answered 200 and its deletions
  completed. The store, which held only valid answers, ends with no questionnaire and one
  answer naming none, and the export of the deleted questionnaire still lists that answer.
\<close>

theorem reset_loses_to_inflight_answer:
  "a_run \<lparr>astore = after_q01, subs = [], dels = [], replies = []\<rparr> lost_reset_schedule =
   Some \<lparr>astore = \<lparr>questionnaires = [], answers = [new_answer ''QQ000'' ''Q02'' ''AAAA'' ''Q02A1'']\<rparr>,
         subs = [Finished (Http_200 (new_answer ''QQ000'' ''Q02'' ''AAAA'' ''Q02A1''))],
         dels = [], replies = [Http_200 ''OK'']\<rparr> \<and>
   answers_valid after_q01 \<and>
   \<not> answers_valid \<lparr>questionnaires = [], answers = [new_answer ''QQ000'' ''Q02'' ''AAAA'' ''Q02A1'']\<rparr> \<and>
   get_export_answers \<lparr>questionnaires = [], answers = [new_answer ''QQ000'' ''Q02'' ''AAAA'' ''Q02A1'']\<rparr>
     ''QQ000'' = Http_200 [(''Q02'', ''Q02A1'')]"
  apply (simp only: lost_reset_run simp_thms)
  by (simp add: answers_valid_def answer_refers_def after_q01_def sample_defs new_answer_def
      answer_schema_ok_def answer_fields_match_def get_export_answers_def js_sort_key)

end
