(* ===== verification/IsoTime.thy ===== *)
theory IsoTime
  imports Prelude "HOL-Library.Monad_Syntax"
begin

text \<open>
  \<open>Date.prototype.toISOString\<close> on a clock reading \<open>t\<close>, in milliseconds since
  1970-01-01T00:00:00Z, which multer's file names contain: the proleptic Gregorian calendar
  (\<open>leap_year\<close>, \<open>year_days\<close>, \<open>month_days\<close>), the year and the day of the year found
  by counting whole years from 1970 (\<open>civil_year\<close>) and the month by counting whole months
  (\<open>civil_month\<close>), both terminating \<open>function\<close>s, and the zero-padded decimal fields
  (\<open>digits\<close>). Years after 9999 are written with a sign and six digits, as ECMAScript
  prescribes. \<open>of_iso\<close> reads the 24-character form back; \<open>iso_roundtrip\<close> shows it
  inverts \<open>to_iso\<close> below \<open>iso_limit\<close>, the first millisecond of the year 10000.
\<close>

fun digits :: "nat \<Rightarrow> nat \<Rightarrow> string" where
  "digits 0 n = []"
| "digits (Suc k) n = digits k (n div 10) @ [char_of (48 + n mod 10)]"

definition digit_of :: "char \<Rightarrow> nat option" where
  "digit_of c = (if (48::nat) \<le> of_char c \<and> of_char c \<le> (57::nat) then Some (of_char c - 48) else None)"

fun parse_digits :: "string \<Rightarrow> nat \<Rightarrow> nat option" where
  "parse_digits [] acc = Some acc"
| "parse_digits (c # cs) acc =
     (case digit_of c of None \<Rightarrow> None | Some d \<Rightarrow> parse_digits cs (acc * 10 + d))"

definition leap_year :: "nat \<Rightarrow> bool" where
  "leap_year y \<longleftrightarrow> 4 dvd y \<and> (\<not> 100 dvd y \<or> 400 dvd y)"

definition year_days :: "nat \<Rightarrow> nat" where
  "year_days y = (if leap_year y then 366 else 365)"

definition month_days :: "nat \<Rightarrow> nat \<Rightarrow> nat" where
  "month_days y m =
     (if m = 2 then (if leap_year y then 29 else 28)
      else if m = 4 \<or> m = 6 \<or> m = 9 \<or> m = 11 then 30 else 31)"

function civil_year :: "nat \<Rightarrow> nat \<Rightarrow> nat \<times> nat" where
  "civil_year y z = (if z < year_days y then (y, z) else civil_year (Suc y) (z - year_days y))"
  by pat_completeness auto
termination
  by (relation "measure (\<lambda>(y, z). z)") (auto simp: year_days_def)

function civil_month :: "nat \<Rightarrow> nat \<Rightarrow> nat \<Rightarrow> nat \<times> nat" where
  "civil_month y m z =
     (if 12 \<le> m \<or> z < month_days y m then (m, z) else civil_month y (Suc m) (z - month_days y m))"
  by pat_completeness auto
termination
  by (relation "measure (\<lambda>(y, m, z). 12 - m)") auto

definition iso_fields :: "nat \<Rightarrow> nat \<times> nat \<times> nat \<times> nat \<times> nat \<times> nat \<times> nat" where
  "iso_fields t =
     (let s = t div 1000; (y, yd) = civil_year 1970 (s div 86400); (mo, d) = civil_month y 1 yd
      in (y, mo, Suc d, s div 3600 mod 24, s div 60 mod 60, s mod 60, t mod 1000))"

definition to_iso :: "nat \<Rightarrow> string" where
  "to_iso t =
     (case iso_fields t of
        (y, mo, d, h, mi, sec, ms) \<Rightarrow>
          (if y \<le> 9999 then digits 4 y else ''+'' @ digits 6 y) @ ''-'' @ digits 2 mo @ ''-'' @
          digits 2 d @ ''T'' @ digits 2 h @ '':'' @ digits 2 mi @ '':'' @ digits 2 sec @ ''.'' @
          digits 3 ms @ ''Z'')"

definition days_before :: "nat \<Rightarrow> nat \<Rightarrow> nat \<Rightarrow> nat" where
  "days_before y mo d =
     sum_list (map year_days [1970..<y]) + sum_list (map (month_days y) [1..<mo]) + (d - 1)"

definition iso_time :: "nat \<Rightarrow> nat \<Rightarrow> nat \<Rightarrow> nat \<Rightarrow> nat \<Rightarrow> nat \<Rightarrow> nat \<Rightarrow> nat" where
  "iso_time y mo d h mi sec ms = (((days_before y mo d * 24 + h) * 60 + mi) * 60 + sec) * 1000 + ms"

definition parse_field :: "nat \<Rightarrow> string \<Rightarrow> (nat \<times> string) option" where
  "parse_field k s =
     (if length s < k then None else map_option (\<lambda>n. (n, drop k s)) (parse_digits (take k s) 0))"

fun expect :: "char \<Rightarrow> string \<Rightarrow> string option" where
  "expect c [] = None"
| "expect c (c' # s) = (if c' = c then Some s else None)"

definition of_iso :: "string \<Rightarrow> nat option" where
  "of_iso s0 =
     do {
       (y, s) \<leftarrow> parse_field 4 s0; s \<leftarrow> expect CHR ''-'' s;
       (mo, s) \<leftarrow> parse_field 2 s; s \<leftarrow> expect CHR ''-'' s;
       (d, s) \<leftarrow> parse_field 2 s; s \<leftarrow> expect CHR ''T'' s;
       (h, s) \<leftarrow> parse_field 2 s; s \<leftarrow> expect CHR '':'' s;
       (mi, s) \<leftarrow> parse_field 2 s; s \<leftarrow> expect CHR '':'' s;
       (sec, s) \<leftarrow> parse_field 2 s; s \<leftarrow> expect CHR ''.'' s;
       (ms, s) \<leftarrow> parse_field 3 s; s \<leftarrow> expect CHR ''Z'' s;
       if s = [] then Some (iso_time y mo d h mi sec ms) else None
     }"

definition iso_limit :: nat where
  "iso_limit = sum_list (map year_days [1970..<10000]) * 86400000"

declare civil_year.simps [simp del] civil_month.simps [simp del]

lemma civil_year_base: "z < year_days y \<Longrightarrow> civil_year y z = (y, z)"
  by (subst civil_year.simps) simp

lemma civil_year_step: "\<not> z < year_days y \<Longrightarrow> civil_year y z = civil_year (Suc y) (z - year_days y)"
  by (subst civil_year.simps) simp

lemma civil_month_base: "12 \<le> m \<or> z < month_days y m \<Longrightarrow> civil_month y m z = (m, z)"
  by (subst civil_month.simps) simp

lemma civil_month_step:
  "\<not> (12 \<le> m \<or> z < month_days y m) \<Longrightarrow> civil_month y m z = civil_month y (Suc m) (z - month_days y m)"
  by (subst civil_month.simps) simp

lemmas calendar_eval = civil_year_base civil_year_step civil_month_base civil_month_step
  year_days_def month_days_def leap_year_def

lemma digits_numeral:
  "digits (numeral k) n = digits (pred_numeral k) (n div 10) @ [char_of (48 + n mod 10)]"
  by (simp only: numeral_eq_Suc digits.simps)

lemma length_digits [simp]: "length (digits k n) = k"
  by (induction k arbitrary: n) simp_all

lemma digit_of_digit: "d < 10 \<Longrightarrow> digit_of (char_of (48 + d)) = Some d"
  by (simp add: digit_of_def of_char_of)

lemma parse_digits_append:
  "parse_digits (xs @ ys) acc = Option.bind (parse_digits xs acc) (parse_digits ys)"
  by (induction xs acc rule: parse_digits.induct) (simp_all split: option.split)

lemma parse_digits_digits: "parse_digits (digits k n) acc = Some (acc * 10 ^ k + n mod 10 ^ k)"
proof (induction k arbitrary: n acc)
  case 0
  then show ?case by simp
next
  case (Suc k)
  have "n mod 10 ^ Suc k = n mod 10 + 10 * (n div 10 mod 10 ^ k)"
    by (simp add: mod_mult2_eq)
  then show ?case
    by (simp add: parse_digits_append Suc.IH digit_of_digit algebra_simps)
qed


lemma sum_upt_split:
  fixes f :: "nat \<Rightarrow> nat"
  assumes "a \<le> b" "b \<le> c"
  shows "sum_list (map f [a..<c]) = sum_list (map f [a..<b]) + sum_list (map f [b..<c])"
proof -
  have "[a..<c] = [a..<b] @ [b..<c]" using assms upt_add_eq_append[of a b "c - b"] by simp
  then show ?thesis by simp
qed

lemma civil_year_spec:
  "civil_year y z = (y', r) \<Longrightarrow>
   y \<le> y' \<and> sum_list (map year_days [y..<y']) + r = z \<and> r < year_days y'"
proof (induction y z arbitrary: y' r rule: civil_year.induct)
  case (1 y z)
  show ?case
  proof (cases "z < year_days y")
    case True
    with "1.prems" show ?thesis by (simp add: civil_year_base)
  next
    case False
    with "1.prems" have "civil_year (Suc y) (z - year_days y) = (y', r)" by (simp add: civil_year_step)
    with "1.IH"[OF False] have ih: "Suc y \<le> y'" "sum_list (map year_days [Suc y..<y']) + r = z - year_days y"
      "r < year_days y'" by auto
    then have "sum_list (map year_days [y..<y']) = year_days y + sum_list (map year_days [Suc y..<y'])"
      by (simp add: upt_conv_Cons)
    with ih False show ?thesis by simp
  qed
qed

lemma year_days_months: "year_days y = sum_list (map (month_days y) [1..<13])"
  by (simp add: year_days_def month_days_def upt_rec)

lemma civil_month_spec:
  "civil_month y m z = (m', r) \<Longrightarrow> z < sum_list (map (month_days y) [m..<13]) \<Longrightarrow>
   m \<le> m' \<and> m' \<le> 12 \<and> sum_list (map (month_days y) [m..<m']) + r = z \<and> r < month_days y m'"
proof (induction y m z arbitrary: m' r rule: civil_month.induct)
  case (1 y m z)
  have m13: "m < 13" using "1.prems"(2) by (cases "m < 13") auto
  show ?case
  proof (cases "12 \<le> m \<or> z < month_days y m")
    case True
    with "1.prems" m13 show ?thesis by (auto simp: civil_month_base upt_rec)
  next
    case False
    with "1.prems"(1) have c: "civil_month y (Suc m) (z - month_days y m) = (m', r)"
      by (simp add: civil_month_step)
    from False have split: "sum_list (map (month_days y) [m..<13]) =
        month_days y m + sum_list (map (month_days y) [Suc m..<13])"
      by (simp add: upt_conv_Cons)
    with "1.prems"(2) False have "z - month_days y m < sum_list (map (month_days y) [Suc m..<13])"
      by linarith
    with "1.IH"[OF False c] have ih: "Suc m \<le> m'" "m' \<le> 12"
      "sum_list (map (month_days y) [Suc m..<m']) + r = z - month_days y m" "r < month_days y m'"
      by auto
    then have "sum_list (map (month_days y) [m..<m']) =
        month_days y m + sum_list (map (month_days y) [Suc m..<m'])"
      by (simp add: upt_conv_Cons)
    with ih False show ?thesis by simp
  qed
qed


lemmas iso_eval = digits_numeral char_of_def bit_0 calendar_eval

text \<open>The model prints what JavaScript prints for 2023-01-15, 10:30:45.123 UTC.\<close>

lemma to_iso_sample: "to_iso 1673778645123 = ''2023-01-15T10:30:45.123Z''"
  by (simp add: to_iso_def iso_fields_def iso_eval)

lemma parse_field_digits: "parse_field k (digits k n @ rest) = Some (n mod 10 ^ k, rest)"
  by (simp add: parse_field_def parse_digits_digits)

lemma time_split:
  "((s div 86400 * 24 + s div 3600 mod 24) * 60 + s div 60 mod 60) * 60 + s mod 60 = (s::nat)"
proof -
  have a: "s div 86400 * 24 + s div 3600 mod 24 = s div 3600"
    using div_mult_mod_eq[of "s div 3600" 24] by (simp add: div_mult2_eq[symmetric])
  have b: "s div 3600 * 60 + s div 60 mod 60 = s div 60"
    using div_mult_mod_eq[of "s div 60" 60] by (simp add: div_mult2_eq[symmetric])
  show ?thesis using div_mult_mod_eq[of s 60] by (simp add: a b)
qed

lemma month_days_le: "month_days y m \<le> 31"
  by (simp add: month_days_def)

lemma iso_fields_spec:
  assumes "t < iso_limit" and "iso_fields t = (y, mo, d, h, mi, sec, ms)"
  shows "y \<le> 9999 \<and> 1 \<le> mo \<and> mo \<le> 12 \<and> 1 \<le> d \<and> d \<le> 31 \<and> h < 24 \<and> mi < 60 \<and>
         sec < 60 \<and> ms < 1000 \<and> iso_time y mo d h mi sec ms = t"
proof -
  define D where "D = t div 1000 div 86400"
  obtain y' yd where cy: "civil_year 1970 D = (y', yd)" by fastforce
  obtain mo' r where cm: "civil_month y' 1 yd = (mo', r)" by fastforce
  have f: "y = y'" "mo = mo'" "d = Suc r" "h = t div 1000 div 3600 mod 24"
    "mi = t div 1000 div 60 mod 60" "sec = t div 1000 mod 60" "ms = t mod 1000"
    using assms(2) cy cm by (simp_all add: iso_fields_def D_def Let_def)
  from civil_year_spec[OF cy] have ys: "1970 \<le> y'" "sum_list (map year_days [1970..<y']) + yd = D"
    "yd < year_days y'" by auto
  from ys(3) have "yd < sum_list (map (month_days y') [1..<13])" by (simp add: year_days_months)
  from civil_month_spec[OF cm this] have ms: "1 \<le> mo'" "mo' \<le> 12"
    "sum_list (map (month_days y') [1..<mo']) + r = yd" "r < month_days y' mo'" by auto
  have "D < sum_list (map year_days [1970..<10000])"
    using assms(1)
    by (simp add: iso_limit_def D_def div_mult2_eq[symmetric] less_mult_imp_div_less del: upt_rec_numeral)
  then have y9999: "y' \<le> 9999"
    using ys sum_upt_split[of 1970 10000 y' year_days] by (cases "y' \<le> 9999") (auto simp del: upt_rec_numeral)
  have "days_before y' mo' (Suc r) = D" using ys(2) ms(3) by (simp add: days_before_def)
  then have "iso_time y' mo' (Suc r) h mi sec ms = t"
    using time_split[of "t div 1000"] div_mult_mod_eq[of t 1000]
    by (simp add: iso_time_def f D_def)
  with f y9999 ms month_days_le[of y' mo'] show ?thesis by auto
qed

lemma to_iso_fields:
  assumes "iso_fields t = (y, mo, d, h, mi, sec, ms)" and "y \<le> 9999"
  shows "to_iso t = digits 4 y @ ''-'' @ digits 2 mo @ ''-'' @ digits 2 d @ ''T'' @ digits 2 h @ '':'' @
                    digits 2 mi @ '':'' @ digits 2 sec @ ''.'' @ digits 3 ms @ ''Z''"
  using assms by (simp add: to_iso_def)

lemma iso_roundtrip:
  assumes "t < iso_limit"
  shows "of_iso (to_iso t) = Some t"
proof -
  obtain y mo d h mi sec ms where fs: "iso_fields t = (y, mo, d, h, mi, sec, ms)"
    by (cases "iso_fields t") auto
  note b = iso_fields_spec[OF assms fs]
  show ?thesis
    using b by (simp add: to_iso_fields[OF fs] of_iso_def parse_field_digits)
qed

lemma length_to_iso: "t < iso_limit \<Longrightarrow> length (to_iso t) = 24"
proof -
  assume t: "t < iso_limit"
  obtain y mo d h mi sec ms where fs: "iso_fields t = (y, mo, d, h, mi, sec, ms)"
    by (cases "iso_fields t") auto
  with iso_fields_spec[OF t fs] show ?thesis by (simp add: to_iso_fields)
qed

end
