(* ===== verification/Upload.thy ===== *)
theory Upload
  imports Admin IsoTime
begin

text \<open>
  The upload of a questionnaire file as it happens. multer's disk storage
  (\<open>src/api-backend/app.js\<close> lines 9--16, 25) writes the file into the data folder under
  \<open>new Date().toISOString() + '-' + file.originalname\<close> (\<open>multer_filename\<close>, with the
  clock reading in milliseconds); \<open>postQuestionnaireUpd\<close> (\<open>controllers/admin.js\<close>
  lines 89--106) then loads it with \<open>require\<close>, which parses a JSON file once and afterwards
  returns the parsed value cached under its path (\<open>require_json\<close>, the cache is
  \<open>module_cache\<close>; a file that does not parse throws and is not cached), and passes it to
  \<open>insertMany\<close>, which takes an array or a single document (\<open>insert_many_docs\<close>). Both
  paths name the same folder when the server runs from \<open>src/api-backend\<close>, as
  \<open>server.js\<close> needs for its relative \<open>ssl/\<close> paths; the folder and the cache are maps
  from file names. \<open>post_questionnaire_upd_file\<close> is the request; \<open>sync_upload\<close> is what
  the \<open>Admin\<close> model of the same request does with the file's content, and
  \<open>upload_run\<close> a sequence of uploads with their clock readings.
\<close>

definition multer_filename :: "nat \<Rightarrow> string \<Rightarrow> string" where
  "multer_filename t name = to_iso t @ ''-'' @ name"

definition parse_upload_name :: "string \<Rightarrow> (nat \<times> string) option" where
  "parse_upload_name s =
     (case of_iso (take 24 s) of
        None \<Rightarrow> None
      | Some t \<Rightarrow> map_option (\<lambda>name. (t, name)) (expect CHR ''-'' (drop 24 s)))"

datatype json_doc =
    Json_array "questionnaire list"
  | Json_object questionnaire
  | Json_other
  | Json_malformed

record uploaded =
  original_name :: string
  file_content :: json_doc

record upload_env =
  data_dir :: "string \<Rightarrow> json_doc option"
  module_cache :: "string \<Rightarrow> json_doc option"

definition multer_store :: "upload_env \<Rightarrow> nat \<Rightarrow> uploaded \<Rightarrow> upload_env \<times> string" where
  "multer_store e t f =
     (let n = multer_filename t (original_name f)
      in (e\<lparr>data_dir := (data_dir e)(n \<mapsto> file_content f)\<rparr>, n))"

definition require_json :: "upload_env \<Rightarrow> string \<Rightarrow> json_doc option \<times> upload_env" where
  "require_json e n =
     (case module_cache e n of
        Some v \<Rightarrow> (Some v, e)
      | None \<Rightarrow>
          (case data_dir e n of
             None \<Rightarrow> (None, e)
           | Some Json_malformed \<Rightarrow> (None, e)
           | Some v \<Rightarrow> (Some v, e\<lparr>module_cache := (module_cache e)(n \<mapsto> v)\<rparr>)))"

fun insert_many_docs :: "json_doc \<Rightarrow> questionnaire list option" where
  "insert_many_docs (Json_array qs) = Some qs"
| "insert_many_docs (Json_object q) = Some [q]"
| "insert_many_docs _ = None"

definition post_questionnaire_upd_file ::
  "store \<Rightarrow> upload_env \<Rightarrow> nat \<Rightarrow> uploaded option \<Rightarrow> string http \<times> store \<times> upload_env" where
  "post_questionnaire_upd_file d e t file =
     (case file of
        None \<Rightarrow> (Http_422 msg_no_file, d, e)
      | Some f \<Rightarrow>
          (let (e1, n) = multer_store e t f; (v, e2) = require_json e1 n
           in case v of
                None \<Rightarrow> (Http_500, d, e2)
              | Some doc \<Rightarrow>
                  (case insert_many_docs doc of
                     None \<Rightarrow> (Http_500, d, e2)
                   | Some qs \<Rightarrow> (case post_questionnaire_upd d (Some qs) of (h, d') \<Rightarrow> (h, d', e2)))))"

definition sync_upload :: "store \<Rightarrow> uploaded \<Rightarrow> store" where
  "sync_upload d f =
     (case insert_many_docs (file_content f) of
        None \<Rightarrow> d
      | Some qs \<Rightarrow> snd (post_questionnaire_upd d (Some qs)))"

fun upload_run :: "store \<Rightarrow> upload_env \<Rightarrow> (nat \<times> uploaded) list \<Rightarrow> store \<times> upload_env" where
  "upload_run d e [] = (d, e)"
| "upload_run d e ((t, f) # us) =
     (case post_questionnaire_upd_file d e t (Some f) of (_, d', e') \<Rightarrow> upload_run d' e' us)"

definition empty_env :: upload_env where
  "empty_env = \<lparr>data_dir = Map.empty, module_cache = Map.empty\<rparr>"

lemma multer_filename_inj:
  assumes "t1 < iso_limit" "t2 < iso_limit" "multer_filename t1 n1 = multer_filename t2 n2"
  shows "t1 = t2 \<and> n1 = n2"
proof -
  have l: "length (to_iso t1) = 24" "length (to_iso t2) = 24"
    using length_to_iso assms(1,2) by auto
  from assms(3) have "take 24 (multer_filename t1 n1) = take 24 (multer_filename t2 n2)"
    "drop 25 (multer_filename t1 n1) = drop 25 (multer_filename t2 n2)" by simp_all
  then have "to_iso t1 = to_iso t2" "n1 = n2" using l by (simp_all add: multer_filename_def)
  then have "of_iso (to_iso t1) = of_iso (to_iso t2)" "n1 = n2" by simp_all
  then show ?thesis using iso_roundtrip assms(1,2) by simp
qed

lemma post_upd_file_fresh_store:
  assumes "module_cache e (multer_filename t (original_name f)) = None"
  shows "fst (snd (post_questionnaire_upd_file d e t (Some f))) = sync_upload d f"
  using assms
  by (cases "file_content f")
     (simp_all add: post_questionnaire_upd_file_def multer_store_def require_json_def sync_upload_def
                    Let_def case_prod_unfold)

lemma post_upd_file_cache:
  assumes "module_cache (snd (snd (post_questionnaire_upd_file d e t (Some f)))) n = Some v"
  shows "module_cache e n = Some v \<or> n = multer_filename t (original_name f)"
  using assms
  by (auto simp: post_questionnaire_upd_file_def multer_store_def require_json_def Let_def
                 case_prod_unfold split: option.splits json_doc.splits if_splits)

definition cache_before :: "upload_env \<Rightarrow> (nat \<times> uploaded) list \<Rightarrow> bool" where
  "cache_before e us \<longleftrightarrow>
     (\<forall>n v. module_cache e n = Some v \<longrightarrow>
        (\<exists>t' nm. n = multer_filename t' nm \<and> t' < iso_limit \<and> list_all (\<lambda>u. t' < fst u) us))"

lemma upload_run_fresh:
  assumes "sorted_wrt (<) (map fst us)" "list_all (\<lambda>u. fst u < iso_limit) us" "cache_before e us"
  shows "fst (upload_run d e us) = fold (\<lambda>u d. sync_upload d (snd u)) us d"
  using assms
proof (induction us arbitrary: d e)
  case Nil
  then show ?case by simp
next
  case (Cons u us)
  obtain t f where u: "u = (t, f)" by fastforce
  obtain h d' e' where r: "post_questionnaire_upd_file d e t (Some f) = (h, d', e')"
    by (cases "post_questionnaire_upd_file d e t (Some f)") auto
  have tl: "t < iso_limit" using Cons.prems(2) u by simp
  have later: "list_all (\<lambda>u. t < fst u) us" using Cons.prems(1) u by (simp add: list_all_iff)
  have fresh: "module_cache e (multer_filename t (original_name f)) = None"
  proof (rule ccontr)
    assume "module_cache e (multer_filename t (original_name f)) \<noteq> None"
    then obtain v where "module_cache e (multer_filename t (original_name f)) = Some v" by auto
    with Cons.prems(3) obtain t' nm where eq: "multer_filename t (original_name f) = multer_filename t' nm"
      and t': "t' < iso_limit" "list_all (\<lambda>u. t' < fst u) (u # us)"
      unfolding cache_before_def by blast
    from multer_filename_inj[OF tl t'(1) eq] have "t = t'" by simp
    with t'(2) u show False by simp
  qed
  have d': "d' = sync_upload d f" using post_upd_file_fresh_store[OF fresh, of d] r by simp
  have c: "cache_before e' us"
    unfolding cache_before_def
  proof (intro allI impI)
    fix n v assume "module_cache e' n = Some v"
    then have "module_cache e n = Some v \<or> n = multer_filename t (original_name f)"
      using post_upd_file_cache[of d e t f n v] r by simp
    then show "\<exists>t' nm. n = multer_filename t' nm \<and> t' < iso_limit \<and> list_all (\<lambda>u. t' < fst u) us"
    proof
      assume "module_cache e n = Some v"
      with Cons.prems(3) obtain t' nm where "n = multer_filename t' nm" "t' < iso_limit"
        "list_all (\<lambda>u. t' < fst u) (u # us)"
        unfolding cache_before_def by blast
      then show ?thesis by auto
    next
      assume "n = multer_filename t (original_name f)"
      with tl later show ?thesis by blast
    qed
  qed
  have s: "sorted_wrt (<) (map fst us)" using Cons.prems(1) by simp
  have l: "list_all (\<lambda>u. fst u < iso_limit) us" using Cons.prems(2) by simp
  have "fst (upload_run d e (u # us)) = fst (upload_run d' e' us)" using u r by simp
  also have "\<dots> = fold (\<lambda>u d. sync_upload d (snd u)) us d'" using Cons.IH[OF s l c] .
  finally show ?case using u d' by simp
qed

lemma year_days_sum_ge: "365 * length xs \<le> sum_list (map year_days xs)"
  by (induction xs) (auto simp: year_days_def)

lemma year_days_upt_ge: "365 * (b - a) * 86400000 \<le> sum_list (map year_days [a..<b]) * 86400000"
  using year_days_sum_ge[of "[a..<b]"] by simp

lemma iso_limit_lower: "365 * (10000 - 1970) * 86400000 \<le> iso_limit"
  unfolding iso_limit_def by (rule year_days_upt_ge)

subsection \<open>Properties of the upload\<close>

text \<open>
  C35 (roundtrip). The name multer gives an uploaded file determines the clock reading and the
  original name: they are read back from it, for every reading before the year 10000, where
  \<open>toISOString\<close> switches to six-digit years.
\<close>

lemma multer_filename_roundtrip:
  "t < iso_limit \<Longrightarrow> parse_upload_name (multer_filename t name) = Some (t, name)"
  by (simp add: parse_upload_name_def multer_filename_def length_to_iso iso_roundtrip)

theorem multer_filename_roundtrip_witness:
  "1673778645123 < iso_limit \<and>
   parse_upload_name (multer_filename 1673778645123 ''survey.json'') = Some (1673778645123, ''survey.json'')"
proof -
  have h: "1673778645123 < iso_limit" using iso_limit_lower by simp
  show ?thesis using h multer_filename_roundtrip[OF h, of "''survey.json''"] by simp
qed

text \<open>
  C36 (refinement). Uploads whose clock readings increase strictly each insert their own
  file's content: from an empty data folder and cache, a run of uploads leaves the store that
  the \<open>Admin\<close> model of the request leaves, which takes the parsed file as given.
\<close>

theorem upload_runs_in_order:
  assumes "sorted_wrt (<) (map fst us)" and "list_all (\<lambda>u. fst u < iso_limit) us"
  shows "fst (upload_run d empty_env us) = fold (\<lambda>u d. sync_upload d (snd u)) us d"
  using upload_run_fresh[OF assms] by (simp add: cache_before_def empty_env_def)

theorem upload_runs_in_order_witness:
  "sorted_wrt (<) (map fst [(1673778645123::nat, \<lparr>original_name = ''survey.json'', file_content = Json_array [sample_questionnaire]\<rparr>),
                            (1673778645124, \<lparr>original_name = ''survey.json'', file_content = Json_object sample_optional\<rparr>)]) \<and>
   list_all (\<lambda>u. fst u < iso_limit)
     [(1673778645123, \<lparr>original_name = ''survey.json'', file_content = Json_array [sample_questionnaire]\<rparr>),
      (1673778645124, \<lparr>original_name = ''survey.json'', file_content = Json_object sample_optional\<rparr>)] \<and>
   fst (upload_run empty_store empty_env
     [(1673778645123, \<lparr>original_name = ''survey.json'', file_content = Json_array [sample_questionnaire]\<rparr>),
      (1673778645124, \<lparr>original_name = ''survey.json'', file_content = Json_object sample_optional\<rparr>)]) =
   fold (\<lambda>u d. sync_upload d (snd u))
     [(1673778645123, \<lparr>original_name = ''survey.json'', file_content = Json_array [sample_questionnaire]\<rparr>),
      (1673778645124, \<lparr>original_name = ''survey.json'', file_content = Json_object sample_optional\<rparr>)] empty_store"
proof -
  have h1: "sorted_wrt (<) (map fst [(1673778645123::nat, \<lparr>original_name = ''survey.json'', file_content = Json_array [sample_questionnaire]\<rparr>),
                            (1673778645124, \<lparr>original_name = ''survey.json'', file_content = Json_object sample_optional\<rparr>)])"
    by simp
  have h2: "list_all (\<lambda>u. fst u < iso_limit)
     [(1673778645123, \<lparr>original_name = ''survey.json'', file_content = Json_array [sample_questionnaire]\<rparr>),
      (1673778645124, \<lparr>original_name = ''survey.json'', file_content = Json_object sample_optional\<rparr>)]"
    using iso_limit_lower by simp
  show ?thesis using h1 h2 upload_runs_in_order[OF h1 h2, of empty_store] by simp
qed

text \<open>
  C37 (safety). Two uploads of files with the same name in the same millisecond share a
  file name: multer overwrites the first file, and \<open>require\<close> returns the first content
  from its cache. The second request answers 200, yet the store holds the first
  questionnaire twice and the second not at all.
\<close>

theorem upload_name_collision:
  "(let f1 = \<lparr>original_name = ''survey.json'', file_content = Json_array [sample_questionnaire]\<rparr>;
        f2 = \<lparr>original_name = ''survey.json'', file_content = Json_array [sample_optional]\<rparr>;
        r1 = post_questionnaire_upd_file empty_store empty_env 1673778645123 (Some f1);
        r2 = post_questionnaire_upd_file (fst (snd r1)) (snd (snd r1)) 1673778645123 (Some f2)
    in fst r2 = Http_200 ''OK'' \<and>
       questionnaires (fst (snd r2)) = [sample_questionnaire, sample_questionnaire])"
  by (simp add: post_questionnaire_upd_file_def multer_store_def require_json_def empty_env_def
      Let_def case_prod_unfold post_questionnaire_upd_def empty_store_def sample_defs questionnaire_schema_ok_def
      question_schema_ok_def opt_schema_ok_def)

end
