(* ===== verification/UrlCodec.thy ===== *)
theory UrlCodec
  imports Prelude
begin

text \<open>
  The two text transformations a path goes through between the front end and a controller.
  \<open>uri_decode\<close> is \<open>decodeURIComponent\<close>, which Express applies to every route parameter
  (\<open>decode_param\<close> of Express's \<open>layer.js\<close>): an escape \<open>%XX\<close> is a byte, a \<open>%\<close> not
  followed by two hex digits is a \<open>URIError\<close>, and the escaped bytes of a character outside
  ASCII must form one valid UTF-8 sequence (no overlong form, no surrogate, nothing above
  U+10FFFF). Strings are byte strings, so a decoded character outside ASCII is its UTF-8
  bytes. \<open>url_char\<close> is the URL parser's percent-encoding of a path character (the path
  percent-encode set of the WHATWG URL standard, applied by \<open>fetch\<close>): control characters,
  bytes outside ASCII, the space and \<open>" # < > ? ` { }\<close>.
\<close>

subsection \<open>Hex digits and escapes\<close>

definition hex_value :: "char \<Rightarrow> nat option" where
  "hex_value c =
     (let n = of_char c :: nat in
      if 48 \<le> n \<and> n \<le> 57 then Some (n - 48)
      else if 65 \<le> n \<and> n \<le> 70 then Some (n - 55)
      else if 97 \<le> n \<and> n \<le> 102 then Some (n - 87) else None)"

definition hex_char :: "nat \<Rightarrow> char" where
  "hex_char d = char_of (if d < 10 then 48 + d else 55 + d)"

definition pct_byte :: "nat \<Rightarrow> string" where
  "pct_byte b = [CHR ''%'', hex_char (b div 16), hex_char (b mod 16)]"

datatype token = Raw char | Byte nat

fun lex_escapes :: "string \<Rightarrow> token list option" where
  "lex_escapes [] = Some []"
| "lex_escapes (c # cs) =
     (if c \<noteq> CHR ''%'' then map_option (Cons (Raw c)) (lex_escapes cs)
      else
        (case cs of
           h # l # rest \<Rightarrow>
             (case (hex_value h, hex_value l) of
                (Some a, Some b) \<Rightarrow> map_option (Cons (Byte (16 * a + b))) (lex_escapes rest)
              | _ \<Rightarrow> None)
         | _ \<Rightarrow> None))"

subsection \<open>UTF-8 sequences\<close>

text \<open>
  The length of the sequence a lead byte starts (0 for a continuation byte or a byte no
  sequence starts with), the scalar value of a sequence, and its validity.
\<close>

definition utf8_len :: "nat \<Rightarrow> nat" where
  "utf8_len b =
     (if b < 128 then 1 else if b div 32 = 6 then 2 else if b div 16 = 14 then 3
      else if b div 8 = 30 then 4 else 0)"

definition utf8_scalar :: "nat \<Rightarrow> nat list \<Rightarrow> nat" where
  "utf8_scalar b cs = foldl (\<lambda>acc c. acc * 64 + c mod 64) (b mod 2 ^ (6 - length cs)) cs"

definition utf8_ok :: "nat \<Rightarrow> nat list \<Rightarrow> bool" where
  "utf8_ok b cs =
     (list_all (\<lambda>c. 128 \<le> c \<and> c < 192) cs \<and>
      (let cp = utf8_scalar b cs in
         (length cs = 1 \<and> 128 \<le> cp) \<or>
         (length cs = 2 \<and> 2048 \<le> cp \<and> (cp < 55296 \<or> 57343 < cp)) \<or>
         (length cs = 3 \<and> 65536 \<le> cp \<and> cp \<le> 1114111)))"

fun byte_of :: "token \<Rightarrow> nat option" where
  "byte_of (Byte b) = Some b"
| "byte_of (Raw _) = None"

function utf8_group :: "token list \<Rightarrow> string option" where
  "utf8_group [] = Some []"
| "utf8_group (Raw c # ts) = map_option (Cons c) (utf8_group ts)"
| "utf8_group (Byte b # ts) =
     (if b < 128 then map_option (Cons (char_of b)) (utf8_group ts)
      else if utf8_len b = 0 \<or> length ts < utf8_len b - 1 then None
      else
        (case those (map byte_of (take (utf8_len b - 1) ts)) of
           None \<Rightarrow> None
         | Some cs \<Rightarrow>
             (if utf8_ok b cs
              then map_option (\<lambda>s. map char_of (b # cs) @ s) (utf8_group (drop (utf8_len b - 1) ts))
              else None)))"
  by pat_completeness auto
termination
  by (relation "measure length") auto

definition uri_decode :: "string \<Rightarrow> string option" where
  "uri_decode x = Option.bind (lex_escapes x) utf8_group"

definition utf8_valid :: "string \<Rightarrow> bool" where
  "utf8_valid x \<longleftrightarrow> utf8_group (map (\<lambda>c. Byte (of_char c)) x) \<noteq> None"

subsection \<open>The URL parser's escaping of a path character\<close>

definition path_encoded :: "char \<Rightarrow> bool" where
  "path_encoded c \<longleftrightarrow>
     of_char c < (32::nat) \<or> (126::nat) < of_char c \<or>
     of_char c \<in> {32, 34, 35, 60, 62, 63, 96, 123, 125 :: nat}"

definition url_char :: "char \<Rightarrow> string" where
  "url_char c = (if path_encoded c then pct_byte (of_char c) else [c])"


definition url_token :: "char \<Rightarrow> token" where
  "url_token c = (if path_encoded c then Byte (of_char c) else Raw c)"

subsection \<open>The URL parser's path state\<close>

text \<open>
  \<open>fetch\<close> parses its URL string by the WHATWG URL standard. The leading and trailing
  C0 controls and spaces of the string are removed, then every tab and newline. In the path
  state of a special scheme such as \<open>https\<close>, \<open>/\<close> and the backslash end a segment, \<open>?\<close> starts
  the query and \<open>#\<close> the fragment, and every other character is appended to the segment,
  percent-encoded by \<open>url_char\<close>. A segment that is a single dot (\<open>.\<close> or \<open>%2e\<close> in any
  case) is dropped and a double dot removes the segment before it; either leaves an empty
  last segment when it ends the path.
\<close>

definition strip_c0 :: "string \<Rightarrow> string" where
  "strip_c0 u = rev (dropWhile (\<lambda>c. of_char c \<le> (32::nat)) (rev (dropWhile (\<lambda>c. of_char c \<le> (32::nat)) u)))"

definition drop_tab_newline :: "string \<Rightarrow> string" where
  "drop_tab_newline u = filter (\<lambda>c. of_char c \<notin> {9, 10, 13 :: nat}) u"

definition single_dot :: "string \<Rightarrow> bool" where
  "single_dot b \<longleftrightarrow> b \<in> {''.'', ''%2e'', ''%2E''}"

definition double_dot :: "string \<Rightarrow> bool" where
  "double_dot b \<longleftrightarrow>
     b \<in> {''..'', ''.%2e'', ''.%2E'', ''%2e.'', ''%2E.'', ''%2e%2e'', ''%2e%2E'', ''%2E%2e'', ''%2E%2E''}"

definition end_segment :: "string list \<Rightarrow> string \<Rightarrow> bool \<Rightarrow> string list" where
  "end_segment p b at_slash =
     (if double_dot b then butlast p @ (if at_slash then [] else [[]])
      else if single_dot b then p @ (if at_slash then [] else [[]])
      else p @ [b])"

definition segment_end :: "char \<Rightarrow> bool" where
  "segment_end c \<longleftrightarrow> c = CHR ''/'' \<or> c = CHR 0x5C"

fun path_state :: "string list \<Rightarrow> string \<Rightarrow> string \<Rightarrow> string list" where
  "path_state p b [] = end_segment p b False"
| "path_state p b (c # cs) =
     (if segment_end c then path_state (end_segment p b True) [] cs
      else if c = CHR ''?'' \<or> c = CHR ''#'' then end_segment p b False
      else path_state p (b @ url_char c) cs)"

definition url_path :: "string \<Rightarrow> string \<Rightarrow> string list" where
  "url_path origin u = path_state [] [] (drop (length origin) (drop_tab_newline (strip_c0 u)))"

subsection \<open>Decoding inverts the URL parser's escaping\<close>

lemma lex_escapes_plain: "CHR ''%'' \<notin> set x \<Longrightarrow> lex_escapes x = Some (map Raw x)"
  by (induction x) auto

lemma utf8_group_raw: "utf8_group (map Raw x) = Some x"
  by (induction x) auto

lemma uri_decode_plain: "CHR ''%'' \<notin> set x \<Longrightarrow> uri_decode x = Some x"
  by (simp add: uri_decode_def lex_escapes_plain utf8_group_raw)

lemma hex_value_hex_char: "d < 16 \<Longrightarrow> hex_value (hex_char d) = Some d"
  by (auto simp: hex_value_def hex_char_def Let_def of_char_of)

lemma not_path_encoded_ascii: "\<not> path_encoded c \<Longrightarrow> of_char c < (128::nat)"
  by (simp add: path_encoded_def)

lemma lex_escapes_url:
  "CHR ''%'' \<notin> set x \<Longrightarrow> lex_escapes (concat (map url_char x)) = Some (map url_token x)"
proof (induction x)
  case (Cons c cs)
  have b: "of_char c div 16 < (16::nat)" using nat_of_char_less_256[of c] by (simp add: div_less_iff_less_mult)
  have "16 * (of_char c div 16) + of_char c mod 16 = (of_char c :: nat)" by simp
  with Cons b show ?case
    by (auto simp: url_char_def url_token_def pct_byte_def hex_value_hex_char)
qed simp

lemma those_url_tokens:
  "those (map byte_of (map url_token xs)) =
     (if list_all path_encoded xs then Some (map of_char xs) else None)"
  by (induction xs) (auto simp: url_token_def)

lemma those_bytes: "those (map byte_of (map (\<lambda>c. Byte (of_char c)) xs)) = Some (map of_char xs)"
  by (induction xs) auto

lemma utf8_ok_ascii:
  assumes "\<not> list_all path_encoded xs"
  shows "\<not> utf8_ok b (map of_char xs)"
proof -
  from assms obtain x where "x \<in> set xs" "\<not> path_encoded x" by (auto simp: list_all_iff)
  moreover have "of_char x < (128::nat)" using \<open>\<not> path_encoded x\<close> by (rule not_path_encoded_ascii)
  ultimately have "\<not> list_all (\<lambda>c. 128 \<le> c \<and> c < 192) (map of_char xs :: nat list)"
    by (force simp: list_all_iff)
  then show ?thesis by (simp add: utf8_ok_def)
qed

lemma utf8_group_lead:
  assumes "\<not> b < 128" and "utf8_len b \<noteq> 0" and "length A = utf8_len b - 1"
  shows "utf8_group (Byte b # A @ ts) =
    (case those (map byte_of A) of
       None \<Rightarrow> None
     | Some cs \<Rightarrow>
         if utf8_ok b cs then map_option (\<lambda>s. map char_of (b # cs) @ s) (utf8_group ts) else None)"
proof -
  have "take (utf8_len b - 1) (A @ ts) = A" and "drop (utf8_len b - 1) (A @ ts) = ts"
    and "\<not> length (A @ ts) < utf8_len b - 1"
    using assms(3) by simp_all
  then show ?thesis using assms(1,2) by (simp del: take_append drop_append split: option.split)
qed

lemma utf8_group_short:
  "\<not> b < 128 \<Longrightarrow> length ts < utf8_len b - 1 \<Longrightarrow> utf8_group (Byte b # ts) = None"
  by simp

lemma utf8_group_url_tokens:
  "utf8_group (map url_token x) = utf8_group (map (\<lambda>c. Byte (of_char c)) x)"
proof (induction "length x" arbitrary: x rule: less_induct)
  case less
  show ?case
  proof (cases x)
    case (Cons c cs)
    let ?b = "of_char c :: nat" and ?B = "\<lambda>c. Byte (of_char c)"
    define k where "k = utf8_len ?b - 1"
    have ih: "utf8_group (map url_token (drop k cs)) = utf8_group (map ?B (drop k cs))"
      using less Cons by simp
    consider (raw) "\<not> path_encoded c" | (ascii) "path_encoded c" "?b < 128"
      | (bad) "path_encoded c" "\<not> ?b < 128" "utf8_len ?b = 0"
      | (short) "path_encoded c" "\<not> ?b < 128" "length cs < k"
      | (lead) "path_encoded c" "\<not> ?b < 128" "utf8_len ?b \<noteq> 0" "k \<le> length cs"
      by linarith
    then show ?thesis
    proof cases
      case raw
      then show ?thesis
        using less[of cs] not_path_encoded_ascii[of c] Cons by (simp add: url_token_def)
    next
      case ascii
      then show ?thesis using less[of cs] Cons by (simp add: url_token_def)
    next
      case bad
      then show ?thesis using Cons by (simp add: url_token_def)
    next
      case short
      then show ?thesis using Cons by (simp add: url_token_def k_def)
    next
      case lead
      have len: "length (map f (take k cs)) = utf8_len ?b - 1" for f :: "char \<Rightarrow> token"
        using lead by (simp add: k_def)
      have unf: "utf8_group (Byte ?b # map f (take k cs) @ map f (drop k cs)) =
          (case those (map byte_of (map f (take k cs))) of
             None \<Rightarrow> None
           | Some bs \<Rightarrow>
               if utf8_ok ?b bs
               then map_option (\<lambda>s. map char_of (?b # bs) @ s) (utf8_group (map f (drop k cs)))
               else None)" for f
        by (rule utf8_group_lead[OF lead(2) lead(3) len])
      have "map url_token x = Byte ?b # map url_token (take k cs) @ map url_token (drop k cs)"
        using lead Cons by (simp add: url_token_def flip: map_append)
      then have L: "utf8_group (map url_token x) =
          (case those (map byte_of (map url_token (take k cs))) of
             None \<Rightarrow> None
           | Some bs \<Rightarrow>
               if utf8_ok ?b bs
               then map_option (\<lambda>s. map char_of (?b # bs) @ s) (utf8_group (map url_token (drop k cs)))
               else None)"
        by (simp only: unf)
      have "map ?B x = Byte ?b # map ?B (take k cs) @ map ?B (drop k cs)"
        using Cons by (simp flip: map_append)
      then have R: "utf8_group (map ?B x) =
          (case those (map byte_of (map ?B (take k cs))) of
             None \<Rightarrow> None
           | Some bs \<Rightarrow>
               if utf8_ok ?b bs
               then map_option (\<lambda>s. map char_of (?b # bs) @ s) (utf8_group (map ?B (drop k cs)))
               else None)"
        by (simp only: unf)
      show ?thesis
        unfolding L R those_url_tokens those_bytes
        using ih utf8_ok_ascii[where xs = "take k cs" and b = ?b] by simp
    qed
  qed simp
qed

lemma utf8_group_bytes:
  "utf8_group (map (\<lambda>c. Byte (of_char c)) x) \<noteq> None \<Longrightarrow>
   utf8_group (map (\<lambda>c. Byte (of_char c)) x) = Some x"
proof (induction "length x" arbitrary: x rule: less_induct)
  case less
  show ?case
  proof (cases x)
    case (Cons c cs)
    let ?b = "of_char c :: nat" and ?B = "\<lambda>c. Byte (of_char c)"
    define k where "k = utf8_len ?b - 1"
    have ih: "utf8_group (map ?B (drop k cs)) \<noteq> None \<Longrightarrow>
        utf8_group (map ?B (drop k cs)) = Some (drop k cs)"
      using less Cons by simp
    consider (ascii) "?b < 128" | (lead) "\<not> ?b < 128" "utf8_len ?b \<noteq> 0" "k \<le> length cs"
      | (other) "\<not> ?b < 128" "utf8_len ?b = 0 \<or> length cs < k"
      by linarith
    then show ?thesis
    proof cases
      case ascii
      then show ?thesis using less.hyps[of cs] less.prems Cons by auto
    next
      case lead
      have split: "map ?B cs = map ?B (take k cs) @ map ?B (drop k cs)"
        by (simp flip: map_append)
      have len: "length (map ?B (take k cs)) = utf8_len ?b - 1"
        using lead by (simp add: k_def)
      have "map ?B x = Byte ?b # map ?B (take k cs) @ map ?B (drop k cs)"
        using Cons by (simp flip: map_append)
      then have "utf8_group (map ?B x) =
          (case those (map byte_of (map ?B (take k cs))) of
             None \<Rightarrow> None
           | Some bs \<Rightarrow>
               if utf8_ok ?b bs
               then map_option (\<lambda>s. map char_of (?b # bs) @ s) (utf8_group (map ?B (drop k cs)))
               else None)"
        by (simp only: utf8_group_lead[OF lead(1) lead(2) len])
      then have eq: "utf8_group (map ?B x) =
          (if utf8_ok ?b (map of_char (take k cs))
           then map_option (\<lambda>s. map char_of (?b # map of_char (take k cs)) @ s)
                  (utf8_group (map ?B (drop k cs)))
           else None)"
        unfolding those_bytes by simp
      have "map char_of (map of_char (take k cs)) = take k cs" by (simp add: comp_def)
      then
      show ?thesis
        using less.prems ih Cons unfolding eq by (auto split: if_splits)
    next
      case other
      then show ?thesis using less.prems Cons by (auto simp: k_def)
    qed
  qed simp
qed

lemma uri_decode_url:
  assumes "CHR ''%'' \<notin> set x" and "utf8_valid x"
  shows "uri_decode (concat (map url_char x)) = Some x"
  using assms utf8_group_bytes[of x]
  by (simp add: uri_decode_def lex_escapes_url utf8_group_url_tokens utf8_valid_def)
subsection \<open>The path of a URL whose last segment needs no parsing\<close>

lemma path_state_plain:
  "list_all (\<lambda>c. \<not> segment_end c \<and> c \<noteq> CHR ''?'' \<and> c \<noteq> CHR ''#'') x \<Longrightarrow>
   path_state p b x = end_segment p (b @ concat (map url_char x)) False"
  by (induction x arbitrary: b) auto

lemma dot_segments_decode:
  "single_dot b \<Longrightarrow> uri_decode b = Some ''.''"
  "double_dot b \<Longrightarrow> uri_decode b = Some ''..''"
  by (auto simp: single_dot_def double_dot_def uri_decode_def hex_value_def char_of_def bit_0)

lemma end_segment_url:
  assumes "CHR ''%'' \<notin> set x" and "utf8_valid x" and "x \<noteq> ''.''" and "x \<noteq> ''..''"
  shows "end_segment p (concat (map url_char x)) False = p @ [concat (map url_char x)]"
proof -
  have "uri_decode (concat (map url_char x)) = Some x" using assms(1,2) by (rule uri_decode_url)
  then have "\<not> single_dot (concat (map url_char x))" and "\<not> double_dot (concat (map url_char x))"
    using assms(3,4) dot_segments_decode by fastforce+
  then show ?thesis by (simp add: end_segment_def)
qed

lemma strip_c0_id:
  assumes "u \<noteq> []" and "(32::nat) < of_char (hd u)" and "(32::nat) < of_char (last u)"
  shows "strip_c0 u = u"
proof -
  have "dropWhile (\<lambda>c. of_char c \<le> (32::nat)) u = u"
    using assms(1,2) by (cases u) auto
  moreover have "dropWhile (\<lambda>c. of_char c \<le> (32::nat)) (rev u) = rev u"
    using assms(1,3) by (cases "rev u") (auto simp: last_rev[symmetric] simp del: last_rev)
  ultimately show ?thesis by (simp add: strip_c0_def)
qed
end
