(* ===== verification/ExpressRouter.thy ===== *)
theory ExpressRouter
  imports Server UrlCodec
begin

text \<open>
  The routing of \<open>app.js\<close> as Express 4 performs it on the raw path, below the \<open>route\<close> of
  \<open>Server\<close>. The routers of \<open>routes/admin.js\<close> and \<open>routes/operational.js\<close> are lists
  of layers in registration order, each the name of the controller function registered, a
  verb, a path pattern and the controller's endpoint.
  A router tries its layers in order: a layer whose pattern matches the path first decodes
  its parameters with \<open>decodeURIComponent\<close>; a parameter that does not decode ends the
  routing with a 400 error, which the final handler of Express sends, skipping the 404
  middleware; a layer of another verb is skipped (a HEAD request is served by a GET layer),
  and for an OPTIONS request its verbs are collected, so that a router that matched the path
  but has no OPTIONS route answers 200 with the allowed verbs. The routers are mounted with
  \<open>app.use\<close>, which matches the mount path as a prefix in any case and hands the rest of
  the path to the router. \<open>express_route\<close> is the whole chain and \<open>express_handle\<close> a
  request of the application.
\<close>

datatype pseg = Lit string | Par

record layer =
  l_name :: string
  l_verb :: http_verb
  l_path :: "pseg list"
  l_endpoint :: "string list \<Rightarrow> endpoint"

text \<open>
  A route pattern compiled by \<open>path-to-regexp\<close> with the defaults \<open>strict: false\<close> and
  \<open>sensitive: false\<close>: literal segments in any case, a parameter one non-empty segment, and
  one optional trailing slash (an empty last segment).
\<close>

fun match_segs :: "pseg list \<Rightarrow> string list \<Rightarrow> string list option" where
  "match_segs [] [] = Some []"
| "match_segs [] [x] = (if x = [] then Some [] else None)"
| "match_segs (Lit l # ps) (x # xs) = (if seg_is l x then match_segs ps xs else None)"
| "match_segs (Par # ps) (x # xs) = (if x \<noteq> [] then map_option (Cons x) (match_segs ps xs) else None)"
| "match_segs _ _ = None"

definition admin_layers :: "layer list" where
  "admin_layers =
     [\<lparr>l_name = ''getHealthCheck'', l_verb = GET, l_path = [Lit ''healthcheck''],
       l_endpoint = (\<lambda>_. Health)\<rparr>,
      \<lparr>l_name = ''postQuestionnaireUpd'', l_verb = POST,
       l_path = [Lit ''questionnaire_upd''], l_endpoint = (\<lambda>_. Questionnaire_upd)\<rparr>,
      \<lparr>l_name = ''postResetAll'', l_verb = POST, l_path = [Lit ''resetall''],
       l_endpoint = (\<lambda>_. Reset_all)\<rparr>,
      \<lparr>l_name = ''postResetQ'', l_verb = POST, l_path = [Lit ''resetq'', Par],
       l_endpoint = (\<lambda>ps. Reset_q (ps ! 0))\<rparr>]"

definition operational_layers :: "layer list" where
  "operational_layers =
     [\<lparr>l_name = ''getQuestionnaire'', l_verb = GET, l_path = [Lit ''questionnaire'', Par],
       l_endpoint = (\<lambda>ps. Get_questionnaire (ps ! 0))\<rparr>,
      \<lparr>l_name = ''getQuestion'', l_verb = GET, l_path = [Lit ''question'', Par, Par],
       l_endpoint = (\<lambda>ps. Get_question (ps ! 0) (ps ! 1))\<rparr>,
      \<lparr>l_name = ''postAnswer'', l_verb = POST, l_path = [Lit ''doanswer'', Par, Par, Par, Par],
       l_endpoint = (\<lambda>ps. Do_answer (ps ! 0) (ps ! 1) (ps ! 2) (ps ! 3))\<rparr>,
      \<lparr>l_name = ''getSessionAnswers'', l_verb = GET, l_path = [Lit ''getsessionanswers'', Par, Par],
       l_endpoint = (\<lambda>ps. Get_session_answers (ps ! 0) (ps ! 1))\<rparr>,
      \<lparr>l_name = ''getQuestionAnswers'', l_verb = GET, l_path = [Lit ''getquestionanswers'', Par, Par],
       l_endpoint = (\<lambda>ps. Get_question_answers (ps ! 0) (ps ! 1))\<rparr>,
      \<lparr>l_name = ''getExportAnswers'', l_verb = GET, l_path = [Lit ''exportanswers'', Par],
       l_endpoint = (\<lambda>ps. Export_answers (ps ! 0))\<rparr>]"

text \<open>\<open>decode_param\<close> on the parameters in order: the first that does not decode, or all decoded.\<close>

fun decode_params :: "string list \<Rightarrow> string + string list" where
  "decode_params [] = Inr []"
| "decode_params (x # xs) =
     (case uri_decode x of
        None \<Rightarrow> Inl x
      | Some y \<Rightarrow> (case decode_params xs of Inl b \<Rightarrow> Inl b | Inr ys \<Rightarrow> Inr (y # ys)))"

text \<open>The verbs a route answers to (\<open>Route._options\<close>: a GET route also answers HEAD).\<close>

fun route_options :: "http_verb \<Rightarrow> http_verb list" where
  "route_options GET = [GET, HEAD]"
| "route_options v = [v]"

definition add_options :: "http_verb list \<Rightarrow> http_verb \<Rightarrow> http_verb list" where
  "add_options opts v = opts @ filter (\<lambda>x. x \<notin> set opts) (route_options v)"

datatype router_result = Routed endpoint | Unmatched "http_verb list" | Param_error string

fun router_handle :: "layer list \<Rightarrow> http_verb \<Rightarrow> string list \<Rightarrow> http_verb list \<Rightarrow> router_result" where
  "router_handle [] m p opts = Unmatched opts"
| "router_handle (l # ls) m p opts =
     (case match_segs (l_path l) p of
        None \<Rightarrow> router_handle ls m p opts
      | Some raw \<Rightarrow>
          (case decode_params raw of
             Inl bad \<Rightarrow> Param_error bad
           | Inr ps \<Rightarrow>
               if l_verb l = router_verb m then Routed (l_endpoint l ps)
               else router_handle ls m p (if m = OPTIONS then add_options opts (l_verb l) else opts)))"

text \<open>
  The mount of a router: the mount path's segments in any case, then the rest of the path;
  the regular expression \<open>\/?(?=\/|$)\<close> after the mount path takes one slash of a double
  slash with it, and an empty rest is the path \<open>/\<close>.
\<close>

definition mount_rest :: "string list \<Rightarrow> string list" where
  "mount_rest r = (case r of [] \<Rightarrow> [[]] | x # xs \<Rightarrow> if x = [] \<and> xs \<noteq> [] then xs else r)"

fun mount :: "string list \<Rightarrow> string list \<Rightarrow> string list option" where
  "mount [] p = Some (mount_rest p)"
| "mount (l # ls) (x # xs) = (if seg_is l x then mount ls xs else None)"
| "mount (l # ls) [] = None"

datatype app_result =
    App_route endpoint
  | App_options "http_verb list"
  | App_not_found
  | App_param_error string

definition router_outcome :: "router_result \<Rightarrow> app_result \<Rightarrow> app_result" where
  "router_outcome res next_layer =
     (case res of
        Routed e \<Rightarrow> App_route e
      | Param_error x \<Rightarrow> App_param_error x
      | Unmatched opts \<Rightarrow> if opts \<noteq> [] then App_options opts else next_layer)"

definition express_route :: "http_verb \<Rightarrow> string list \<Rightarrow> app_result" where
  "express_route m p =
     (let fallback = App_not_found;
          operational =
            (case mount [''intelliq_api''] p of
               None \<Rightarrow> fallback
             | Some r \<Rightarrow> router_outcome (router_handle operational_layers m r []) fallback)
      in case mount [''intelliq_api'', ''admin''] p of
           None \<Rightarrow> operational
         | Some r \<Rightarrow> router_outcome (router_handle admin_layers m r []) operational)"

datatype app_response =
    Handled response
  | Options_response "http_verb list"
  | Bad_request string

fun app_status :: "app_response \<Rightarrow> nat option" where
  "app_status (Handled r) = status_code r"
| "app_status (Options_response _) = Some 200"
| "app_status (Bad_request _) = Some 400"

definition express_handle :: "server \<Rightarrow> request \<Rightarrow> app_response \<times> server" where
  "express_handle s r =
     (case express_route (req_method r) (req_path r) of
        App_route e \<Rightarrow> (case dispatch s r e of (resp, s') \<Rightarrow> (Handled resp, s'))
      | App_options opts \<Rightarrow> (Options_response opts, s)
      | App_not_found \<Rightarrow> (Handled Resp_not_found, s)
      | App_param_error x \<Rightarrow> (Bad_request x, s))"

text \<open>
  The paths on which the two models agree: no empty segment but the last (no double
  slash) and no escape.
\<close>

definition plain_path :: "string list \<Rightarrow> bool" where
  "plain_path p \<longleftrightarrow> list_all (\<lambda>x. x \<noteq> []) (butlast p) \<and> list_all (\<lambda>x. CHR ''%'' \<notin> set x) p"

subsection \<open>Agreement with the router of the Server model\<close>

text \<open>
  On a plain path every parameter decodes to itself, the mounts and the layers try the
  patterns in the order \<open>route\<close> tests them, and the two routings agree for every verb but
  OPTIONS. The routers are checked segment by segment up to their longest pattern; a longer
  path matches no layer.
\<close>

lemma match_segs_length: "match_segs ps xs = Some r \<Longrightarrow> length xs \<le> Suc (length ps)"
  by (induction ps xs arbitrary: r rule: match_segs.induct) (auto split: if_splits)

lemma router_handle_long:
  "list_all (\<lambda>l. Suc (length (l_path l)) < length p) ls \<Longrightarrow> router_handle ls m p opts = Unmatched opts"
proof (induction ls arbitrary: opts)
  case (Cons l ls)
  then have "match_segs (l_path l) p = None"
    using match_segs_length[of "l_path l" p] by fastforce
  with Cons show ?case by simp
qed simp

lemma router_handle_root:
  "router_handle admin_layers m [[]] opts = Unmatched opts"
  "router_handle operational_layers m [[]] opts = Unmatched opts"
  by (simp_all add: admin_layers_def operational_layers_def seg_is_def)

lemma strip_slash_Cons: "xs \<noteq> [] \<Longrightarrow> strip_slash (x # xs) = x # strip_slash xs"
  by (simp add: strip_slash_def)

lemmas router_plain_simps = plain_path_def strip_slash_def seg_is_def uri_decode_plain

lemma admin_router_plain:
  assumes "plain_path r" and "r \<noteq> []" and "m \<noteq> OPTIONS"
  shows "router_handle admin_layers m r [] =
    (case admin_route (router_verb m) (strip_slash r) of Some e \<Rightarrow> Routed e | None \<Rightarrow> Unmatched [])"
proof -
  consider (one) a where "r = [a]" | (two) a b where "r = [a, b]" | (three) a b c where "r = [a, b, c]"
    | (long) a b c d t where "r = a # b # c # d # t"
    using assms(2) by (metis list.exhaust)
  then show ?thesis
  proof cases
    case long
    have "router_handle admin_layers m r [] = Unmatched []"
      by (rule router_handle_long) (simp add: admin_layers_def long)
    moreover have "admin_route (router_verb m) (strip_slash r) = None"
      by (cases "router_verb m") (simp_all add: long strip_slash_def)
    ultimately show ?thesis by simp
  next
    case one
    then show ?thesis
      using assms(1,3) by (cases m) (auto simp: admin_layers_def router_plain_simps split: if_splits)
  next
    case two
    then show ?thesis
      using assms(1,3) by (cases m) (auto simp: admin_layers_def router_plain_simps split: if_splits)
  next
    case three
    then show ?thesis
      using assms(1,3) by (cases m) (auto simp: admin_layers_def router_plain_simps split: if_splits)
  qed
qed

lemma operational_router_plain:
  assumes "plain_path r" and "r \<noteq> []" and "m \<noteq> OPTIONS"
  shows "router_handle operational_layers m r [] =
    (case operational_route (router_verb m) (strip_slash r) of Some e \<Rightarrow> Routed e | None \<Rightarrow> Unmatched [])"
proof -
  consider (one) a where "r = [a]" | (two) a b where "r = [a, b]" | (three) a b c where "r = [a, b, c]"
    | (four) a b c d where "r = [a, b, c, d]" | (five) a b c d e where "r = [a, b, c, d, e]"
    | (six) a b c d e f where "r = [a, b, c, d, e, f]"
    | (long) a b c d e f g t where "r = a # b # c # d # e # f # g # t"
    using assms(2) by (metis list.exhaust)
  then show ?thesis
  proof cases
    case long
    have "router_handle operational_layers m r [] = Unmatched []"
      by (rule router_handle_long) (simp add: operational_layers_def long)
    moreover have "operational_route (router_verb m) (strip_slash r) = None"
      by (cases "router_verb m") (simp_all add: long strip_slash_def)
    ultimately show ?thesis by simp
  next
    case one
    then show ?thesis
      using assms(1,3) by (cases m) (auto simp: operational_layers_def router_plain_simps split: if_splits)
  next
    case two
    then show ?thesis
      using assms(1,3) by (cases m) (auto simp: operational_layers_def router_plain_simps split: if_splits)
  next
    case three
    then show ?thesis
      using assms(1,3) by (cases m) (auto simp: operational_layers_def router_plain_simps split: if_splits)
  next
    case four
    then show ?thesis
      using assms(1,3) by (cases m) (auto simp: operational_layers_def router_plain_simps split: if_splits)
  next
    case five
    then show ?thesis
      using assms(1,3) by (cases m) (auto simp: operational_layers_def router_plain_simps split: if_splits)
  next
    case six
    then show ?thesis
      using assms(1,3) by (cases m) (auto simp: operational_layers_def router_plain_simps split: if_splits)
  qed
qed

lemma plain_path_tl: "plain_path (x # xs) \<Longrightarrow> plain_path xs"
  by (cases xs) (simp_all add: plain_path_def)

lemma plain_path_hd: "plain_path (x # xs) \<Longrightarrow> xs \<noteq> [] \<Longrightarrow> x \<noteq> []"
  by (simp add: plain_path_def)

lemma mount_rest_plain: "plain_path r \<Longrightarrow> mount_rest r = (if r = [] \<or> r = [[]] then [[]] else r)"
  by (cases r) (auto simp: mount_rest_def plain_path_def split: if_splits)

lemma router_outcome_unmatched: "router_outcome (Unmatched []) n = n"
  by (simp add: router_outcome_def)

lemma express_route_refines:
  assumes "plain_path p" and "m \<noteq> OPTIONS"
  shows "express_route m p = (case route m p of Some e \<Rightarrow> App_route e | None \<Rightarrow> App_not_found)"
proof (cases p)
  case Nil
  then show ?thesis by (simp add: express_route_def route_def strip_slash_def)
next
  case (Cons x r)
  show ?thesis
  proof (cases r)
    case Nil
    then show ?thesis
      using Cons router_handle_root
      by (simp add: express_route_def route_def strip_slash_def mount_rest_def router_outcome_def)
  next
    case (Cons y t)
    have pr: "plain_path r" and pt: "plain_path t"
      using assms(1) \<open>p = x # r\<close> Cons by (auto intro: plain_path_tl)
    have op: "(case mount [''intelliq_api''] p of
                 None \<Rightarrow> App_not_found
               | Some r' \<Rightarrow> router_outcome (router_handle operational_layers m r' []) App_not_found) =
              (if seg_is ''intelliq_api'' x
               then (case operational_route (router_verb m) (strip_slash r) of
                       Some e \<Rightarrow> App_route e | None \<Rightarrow> App_not_found)
               else App_not_found)"
    proof (cases "r = [[]]")
      case True
      then show ?thesis
        using \<open>p = x # r\<close> router_handle_root
        by (simp add: mount_rest_def router_outcome_def strip_slash_def)
    next
      case False
      then show ?thesis
        using \<open>p = x # r\<close> Cons pr operational_router_plain[OF pr _ assms(2)] mount_rest_plain[OF pr]
        by (auto simp: router_outcome_def split: option.split)
    qed
    have ad: "(case mount [''intelliq_api'', ''admin''] p of
                 None \<Rightarrow> A
               | Some r' \<Rightarrow> router_outcome (router_handle admin_layers m r' []) A) =
              (if seg_is ''intelliq_api'' x \<and> seg_is ''admin'' y
               then (case admin_route (router_verb m) (strip_slash t) of
                       Some e \<Rightarrow> App_route e | None \<Rightarrow> A)
               else A)" for A
    proof (cases "t = [] \<or> t = [[]]")
      case True
      then show ?thesis
        using \<open>p = x # r\<close> Cons router_handle_root
        by (auto simp: mount_rest_def router_outcome_def strip_slash_def)
    next
      case False
      then show ?thesis
        using \<open>p = x # r\<close> Cons pt admin_router_plain[OF pt _ assms(2)] mount_rest_plain[OF pt]
        by (auto simp: router_outcome_def split: option.split)
    qed
    have "strip_slash r = y # strip_slash t \<or> (t = [] \<and> strip_slash r = strip_slash [y])"
      using Cons strip_slash_Cons by (cases t) auto
    then show ?thesis
      unfolding express_route_def Let_def ad op
      using \<open>p = x # r\<close> Cons
      by (auto simp: route_def strip_slash_Cons strip_slash_def split: option.split list.split)
  qed
qed

text \<open>
  C13 (refinement). \<open>handle\<close> of the Server model is what the application does: on every
  request whose path is plain and whose verb is not OPTIONS, Express's routing of the raw
  path, with its parameter decoding, its mounts and its layer order, calls the same
  controller on the same parameters, with the same response and the same new state.
\<close>

theorem express_handle_refines:
  assumes "plain_path (req_path r)" and "req_method r \<noteq> OPTIONS"
  shows "express_handle s r = (Handled (fst (handle s r)), snd (handle s r))"
  using express_route_refines[OF assms]
  by (simp add: express_handle_def handle_def split: option.split prod.split)

theorem express_handle_refines_witness:
  "express_handle \<lparr>db = sample_store, ready_state = 1\<rparr>
     (mk_request GET [''intelliq_api'', ''question'', ''QQ000'', ''Q01'', [] ]) =
   (Handled (fst (handle \<lparr>db = sample_store, ready_state = 1\<rparr>
        (mk_request GET [''intelliq_api'', ''question'', ''QQ000'', ''Q01'', [] ]))),
    snd (handle \<lparr>db = sample_store, ready_state = 1\<rparr>
        (mk_request GET [''intelliq_api'', ''question'', ''QQ000'', ''Q01'', [] ])))"
  by (rule express_handle_refines) (simp_all add: mk_request_def plain_path_def)

text \<open>
  C16 (error). A route parameter that \<open>decodeURIComponent\<close> rejects, such as a lone
  \<open>%\<close> or a truncated UTF-8 escape, makes Express answer 400 (the error of
  \<open>decode_param\<close>, sent by its final handler), whatever the verb, since the parameters are
  decoded before the verb is compared; no controller runs and the state is unchanged. No
  controller comment documents a 400.
\<close>

theorem param_decode_error_400:
  assumes "uri_decode x = None" and "x \<noteq> []"
  shows "express_handle s (mk_request m [''intelliq_api'', ''questionnaire'', x]) = (Bad_request x, s) \<and>
         app_status (Bad_request x) = Some 400"
  using assms
  by (simp add: express_handle_def express_route_def mk_request_def route_eval mount_rest_def
      operational_layers_def admin_layers_def router_outcome_def)

theorem param_decode_error_400_witness:
  "express_handle \<lparr>db = sample_store, ready_state = 1\<rparr>
     (mk_request POST [''intelliq_api'', ''questionnaire'', ''50%'']) =
   (Bad_request ''50%'', \<lparr>db = sample_store, ready_state = 1\<rparr>) \<and>
   app_status (Bad_request ''50%'') = Some 400"
  by (rule param_decode_error_400) (simp_all add: uri_decode_def)

text \<open>
  An OPTIONS request to the path of a route is answered 200 with the route's verbs, by
  Express, where \<open>route\<close> sees no route and the Server model answers 404.
\<close>

lemma options_allowed:
  assumes "CHR ''%'' \<notin> set x" and "x \<noteq> []"
  shows "express_handle s (mk_request OPTIONS [''intelliq_api'', ''questionnaire'', x]) =
           (Options_response [GET, HEAD], s)"
    and "handle s (mk_request OPTIONS [''intelliq_api'', ''questionnaire'', x]) = (Resp_not_found, s)"
  using assms
  by (simp_all add: express_handle_def express_route_def mk_request_def route_eval mount_rest_def
      operational_layers_def admin_layers_def router_outcome_def uri_decode_plain add_options_def
      handle_def)

subsection \<open>Requests other than POST\<close>

lemma router_handle_unmatched:
  "router_handle ls m p opts = Unmatched opts' \<Longrightarrow> m \<noteq> OPTIONS \<Longrightarrow> opts' = opts"
  by (induction ls m p opts rule: router_handle.induct)
    (auto split: option.splits sum.splits if_splits)

lemma express_route_options: "express_route m p = App_options opts \<Longrightarrow> m = OPTIONS"
  using router_handle_unmatched[of _ m _ "[]"]
  by (cases "m = OPTIONS")
    (auto simp: express_route_def router_outcome_def Let_def
      split: option.splits router_result.splits if_splits)

lemma router_handle_routed:
  "router_handle ls m p opts = Routed e \<Longrightarrow> \<exists>l \<in> set ls. \<exists>ps. l_verb l = router_verb m \<and> e = l_endpoint l ps"
  by (induction ls m p opts rule: router_handle.induct)
    (fastforce split: option.splits sum.splits if_splits)+

lemma layer_read_only:
  "l \<in> set (admin_layers @ operational_layers) \<Longrightarrow> l_verb l \<noteq> POST \<Longrightarrow>
   snd (dispatch s r (l_endpoint l ps)) = s"
  by (auto simp: admin_layers_def operational_layers_def dispatch_def Let_def)

lemma express_route_read_only:
  assumes "express_route m p = App_route e" and "m \<noteq> POST"
  shows "snd (dispatch s r e) = s"
proof -
  have "router_handle admin_layers m q [] = Routed e \<or> router_handle operational_layers m q' [] = Routed e"
    if "mount [''intelliq_api'', ''admin''] p = Some q" "mount [''intelliq_api''] p = Some q'" for q q'
    using assms(1) that by (auto simp: express_route_def router_outcome_def Let_def
        split: router_result.splits if_splits)
  then obtain l ps where "l \<in> set (admin_layers @ operational_layers)" "l_verb l = router_verb m"
    "e = l_endpoint l ps"
    using assms(1) router_handle_routed[of admin_layers m _ "[]" e]
      router_handle_routed[of operational_layers m _ "[]" e]
    by (auto simp: express_route_def router_outcome_def Let_def
        split: option.splits router_result.splits if_splits)
  then show ?thesis
    using assms(2) layer_read_only[of l s r ps] by (cases m) auto
qed

text \<open>
  C12 (safety). Express's counterpart of C20, on the raw path: a request other than a POST,
  whatever its path (escapes, double slashes, any letter case), leaves the server as it was.
  Every route it can reach is a layer registered with \<open>router.get\<close>, and those controllers
  only read.
\<close>

theorem express_handle_read_only: "req_method r \<noteq> POST \<Longrightarrow> snd (express_handle s r) = s"
  using express_route_read_only[of "req_method r" "req_path r" _ s r]
  by (auto simp: express_handle_def split: app_result.splits prod.splits)

theorem express_handle_read_only_witness:
  "req_method (mk_request HEAD [''INTELLIQ_API'', ''Admin'', ''resetall'', []]) \<noteq> POST \<and>
   snd (express_handle \<lparr>db = sample_store, ready_state = 1\<rparr>
          (mk_request HEAD [''INTELLIQ_API'', ''Admin'', ''resetall'', []])) =
     \<lparr>db = sample_store, ready_state = 1\<rparr>"
  using express_handle_read_only[of "mk_request HEAD [''INTELLIQ_API'', ''Admin'', ''resetall'', []]"
      "\<lparr>db = sample_store, ready_state = 1\<rparr>"]
  by (simp add: mk_request_def)

end
