(* ===== verification/FrontendFetch.thy ===== *)
theory FrontendFetch
  imports Frontend ExpressRouter
begin

text \<open>
  The export request of \<open>src/frontend/src/Home.js\<close> as the browser sends it and Express
  receives it. \<open>getUserList\<close> (line 22) writes the typed id into the URL
  \<open>https://localhost:9103/intelliq_api/exportanswers/${id}\<close> without encoding it;
  \<open>fetch\<close> parses that string (\<open>url_path\<close>), and Express routes the raw path and decodes
  its parameter (\<open>express_handle\<close>). \<open>download_csv_fetch\<close> is \<open>downloadCSV\<close> over this
  chain, where \<open>Frontend\<close> sends the id as one path segment. The query string of the URL is
  not used by the export endpoint and is not kept.
\<close>

definition backend_origin :: string where
  "backend_origin = ''https://localhost:9103/''"

definition export_url :: "string \<Rightarrow> string" where
  "export_url qid = backend_origin @ ''intelliq_api/exportanswers/'' @ qid"

definition fetch_request :: "string \<Rightarrow> request" where
  "fetch_request qid =
     \<lparr>req_method = GET, req_path = url_path backend_origin (export_url qid), req_format = None,
      req_file = None\<rparr>"

text \<open>
  \<open>getUserList\<close> on an application response: a 400 is a failure status other than 404; a
  200 whose body is not JSON (the verb list of an OPTIONS answer, which a GET never gets)
  makes \<open>response.json()\<close> reject with V8's syntax error.
\<close>

definition json_syntax_error :: string where
  "json_syntax_error = ''Unexpected token G in JSON at position 0''"

fun get_user_list_app :: "app_response \<Rightarrow> (string + (ident \<times> ident) list) option" where
  "get_user_list_app (Handled r) = get_user_list r"
| "get_user_list_app (Bad_request _) = Some (Inl ''Failed to fetch data'')"
| "get_user_list_app (Options_response _) = Some (Inl json_syntax_error)"

definition download_csv_fetch :: "server \<Rightarrow> page \<Rightarrow> page" where
  "download_csv_fetch s p =
     (case get_user_list_app (fst (express_handle s (fetch_request (questionnaireId p)))) of
        None \<Rightarrow> p
      | Some (Inr rows) \<Rightarrow> p\<lparr>page_data := rows, page_error := None\<rparr>
      | Some (Inl msg) \<Rightarrow> p\<lparr>page_error := Some msg\<rparr>)"

text \<open>
  The ids the URL carries unchanged: no character the URL parser treats as a separator
  (\<open>/\<close>, the backslash, \<open>?\<close>, \<open>#\<close>), no \<open>%\<close>, no tab or newline (removed by the parser),
  no control character or space at the end (trimmed), and not a dot segment.
\<close>

definition url_safe :: "string \<Rightarrow> bool" where
  "url_safe q \<longleftrightarrow>
     list_all (\<lambda>c. \<not> segment_end c \<and> c \<noteq> CHR ''?'' \<and> c \<noteq> CHR ''#'' \<and> c \<noteq> CHR ''%'' \<and>
                   of_char c \<notin> {9, 10, 13 :: nat}) q \<and>
     (q = [] \<or> (32::nat) < of_char (last q)) \<and> q \<noteq> ''.'' \<and> q \<noteq> ''..''"

subsection \<open>The path of the export request\<close>

lemma export_url_parsed:
  assumes "url_safe q"
  shows "drop (length backend_origin) (drop_tab_newline (strip_c0 (export_url q))) =
         ''intelliq_api/exportanswers/'' @ q"
proof -
  have "(32::nat) < of_char (last (export_url q))"
    using assms by (cases "q = []") (auto simp: url_safe_def export_url_def backend_origin_def)
  then have "strip_c0 (export_url q) = export_url q"
    by (intro strip_c0_id) (simp_all add: export_url_def backend_origin_def)
  moreover have "drop_tab_newline (export_url q) = export_url q"
    using assms by (auto simp: drop_tab_newline_def export_url_def backend_origin_def url_safe_def
        list_all_iff)
  ultimately show ?thesis by (simp add: export_url_def backend_origin_def)
qed

lemma fetch_path_safe:
  assumes "url_safe q" and "utf8_valid q"
  shows "req_path (fetch_request q) = [''intelliq_api'', ''exportanswers'', concat (map url_char q)]"
proof -
  have plain: "list_all (\<lambda>c. \<not> segment_end c \<and> c \<noteq> CHR ''?'' \<and> c \<noteq> CHR ''#'') q"
    and pct: "CHR ''%'' \<notin> set q" and dots: "q \<noteq> ''.''" "q \<noteq> ''..''"
    using assms(1) by (auto simp: url_safe_def list_all_iff)
  have "path_state [] [] (''intelliq_api/exportanswers/'' @ q) =
        path_state [''intelliq_api'', ''exportanswers''] [] q"
    by (simp add: segment_end_def url_char_def path_encoded_def end_segment_def single_dot_def
        double_dot_def)
  also have "\<dots> = [''intelliq_api'', ''exportanswers'', concat (map url_char q)]"
    using path_state_plain[OF plain] end_segment_url[OF pct assms(2) dots] by simp
  finally show ?thesis
    using export_url_parsed[OF assms(1)] by (simp add: fetch_request_def url_path_def)
qed

lemma url_char_nonempty: "q \<noteq> [] \<Longrightarrow> concat (map url_char q) \<noteq> []"
  by (cases q) (simp_all add: url_char_def pct_byte_def)

lemma express_fetch_safe:
  assumes "url_safe q" and "utf8_valid q"
  shows "express_handle s (fetch_request q) = (Handled (fst (handle s (export_request q))), s)"
proof (cases "q = []")
  case True
  then show ?thesis
    using fetch_path_safe[OF assms]
    by (simp add: express_handle_def express_route_def route_eval mount_rest_def
        operational_layers_def admin_layers_def router_outcome_def handle_def export_request_def
        mk_request_def)
next
  case False
  have dec: "uri_decode (concat (map url_char q)) = Some q"
    using assms by (intro uri_decode_url) (auto simp: url_safe_def list_all_iff)
  show ?thesis
    using fetch_path_safe[OF assms] url_char_nonempty[OF False] dec handle_export_request[OF False]
    by (simp add: express_handle_def express_route_def route_eval mount_rest_def
        operational_layers_def admin_layers_def router_outcome_def dispatch_def fetch_request_def)
qed

text \<open>
  C18 (roundtrip). The id typed into the export page comes back out of the URL: for an
  id the URL carries unchanged, in UTF-8, the fetch of \<open>getUserList\<close> reaches
  \<open>getExportAnswers\<close> of exactly that id, after the URL parser's percent-encoding and
  Express's decoding, and \<open>downloadCSV\<close> does what the \<open>Frontend\<close> model says it does.
\<close>

theorem fetch_export_roundtrip:
  assumes "url_safe (questionnaireId p)" and "utf8_valid (questionnaireId p)"
  shows "express_handle s (fetch_request (questionnaireId p)) =
           (Handled (fst (handle s (export_request (questionnaireId p)))), s) \<and>
         download_csv_fetch s p = download_csv s p"
  using express_fetch_safe[OF assms] by (simp add: download_csv_fetch_def download_csv_def)

theorem fetch_export_roundtrip_witness:
  "express_handle \<lparr>db = after_q02, ready_state = 1\<rparr>
     (fetch_request (questionnaireId (init_page\<lparr>questionnaireId := ''Caf'' @ [CHR 0xC3, CHR 0xA9] @ '' 1''\<rparr>))) =
     (Handled (fst (handle \<lparr>db = after_q02, ready_state = 1\<rparr>
        (export_request (questionnaireId (init_page\<lparr>questionnaireId := ''Caf'' @ [CHR 0xC3, CHR 0xA9] @ '' 1''\<rparr>))))),
      \<lparr>db = after_q02, ready_state = 1\<rparr>) \<and>
   download_csv_fetch \<lparr>db = after_q02, ready_state = 1\<rparr>
     (init_page\<lparr>questionnaireId := ''Caf'' @ [CHR 0xC3, CHR 0xA9] @ '' 1''\<rparr>) =
   download_csv \<lparr>db = after_q02, ready_state = 1\<rparr>
     (init_page\<lparr>questionnaireId := ''Caf'' @ [CHR 0xC3, CHR 0xA9] @ '' 1''\<rparr>)"
  by (rule fetch_export_roundtrip)
    (simp_all add: url_safe_def utf8_valid_def segment_end_def utf8_len_def utf8_ok_def
      utf8_scalar_def)

text \<open>
  C29 (error). Ids that are not carried unchanged reach another request. A trailing space is
  trimmed, so \<open>QQ000 \<close> exports \<open>QQ000\<close>; an escape is decoded, so \<open>Q%51000\<close> also exports
  \<open>QQ000\<close>; a slash splits the id, so \<open>QQ/000\<close> matches no route and the page says
  "Questionnaire not found"; a lone \<open>%\<close> makes Express answer 400 and the page says
  "Failed to fetch data"; and the empty id matches no route.
\<close>

theorem fetch_export_mangled_ids:
  "fst (express_handle s (fetch_request ''QQ000 '')) =
     Handled (Resp_export (get_export_answers (db s) ''QQ000'')) \<and>
   fst (express_handle s (fetch_request ''Q%51000'')) =
     Handled (Resp_export (get_export_answers (db s) ''QQ000'')) \<and>
   page_error (download_csv_fetch s (p\<lparr>questionnaireId := ''QQ/000''\<rparr>)) =
     Some ''Questionnaire not found'' \<and>
   page_error (download_csv_fetch s (p\<lparr>questionnaireId := ''50%''\<rparr>)) = Some ''Failed to fetch data'' \<and>
   page_error (download_csv_fetch s (p\<lparr>questionnaireId := []\<rparr>)) = Some ''Questionnaire not found''"
  by (simp add: download_csv_fetch_def get_user_list_def express_handle_def express_route_def
      route_eval mount_rest_def operational_layers_def admin_layers_def router_outcome_def
      dispatch_def fetch_request_def url_path_def export_url_def backend_origin_def strip_c0_def
      drop_tab_newline_def segment_end_def url_char_def path_encoded_def end_segment_def
      single_dot_def double_dot_def uri_decode_def hex_value_def char_of_def bit_0)


subsection \<open>The page's messages and file, as sent\<close>

lemma dispatch_status_not_404: "status_code (fst (dispatch s r e)) \<noteq> Some 404"
  by (cases e) (auto simp: dispatch_def Let_def get_health_check_def post_questionnaire_upd_def
      post_reset_all_def post_reset_q_def get_questionnaire_def get_question_def post_answer_def
      save_answer_def get_session_answers_def get_question_answers_def get_export_answers_def
      split: option.splits verdict.splits format.splits prod.splits if_splits)

lemma get_user_list_not_found:
  "get_user_list r = Some (Inl ''Questionnaire not found'') \<longleftrightarrow> status_code r = Some 404"
  by (auto simp: get_user_list_def split: option.splits if_splits response.splits http.splits)

text \<open>
  C23 (error). The page says "Questionnaire not found" exactly when the URL \<open>fetch\<close> sends
  for the typed id matches no route of the application, never because the questionnaire is
  unknown: no controller answers 404. A questionnaire id the URL carries unchanged that has no
  stored answers, unknown ids included, is answered 402 and the page says "Failed to fetch
  data".
\<close>

theorem fetch_not_found_only_unrouted:
  "(get_user_list_app (fst (express_handle s (fetch_request q))) = Some (Inl ''Questionnaire not found'') \<longleftrightarrow>
    express_route GET (req_path (fetch_request q)) = App_not_found) \<and>
   (url_safe q \<and> utf8_valid q \<and> q \<noteq> [] \<and> find_answers (db s) (\<lambda>a. questionnaireIDRef a = q) = [] \<longrightarrow>
    page_error (download_csv_fetch s (p\<lparr>questionnaireId := q\<rparr>)) = Some ''Failed to fetch data'')"
proof
  show "get_user_list_app (fst (express_handle s (fetch_request q))) = Some (Inl ''Questionnaire not found'') \<longleftrightarrow>
        express_route GET (req_path (fetch_request q)) = App_not_found"
  proof (cases "express_route GET (req_path (fetch_request q))")
    case (App_route e)
    then show ?thesis
      using dispatch_status_not_404[of s "fetch_request q" e]
      by (auto simp: express_handle_def get_user_list_not_found fetch_request_def split: prod.splits)
  qed (simp_all add: express_handle_def get_user_list_not_found json_syntax_error_def fetch_request_def)
next
  show "url_safe q \<and> utf8_valid q \<and> q \<noteq> [] \<and> find_answers (db s) (\<lambda>a. questionnaireIDRef a = q) = [] \<longrightarrow>
        page_error (download_csv_fetch s (p\<lparr>questionnaireId := q\<rparr>)) = Some ''Failed to fetch data''"
    using express_fetch_safe[of q s]
    by (auto simp: download_csv_fetch_def handle_export_request get_user_list_def
        get_export_answers_def)
qed

theorem fetch_not_found_only_unrouted_witness:
  "(get_user_list_app (fst (express_handle \<lparr>db = after_q01, ready_state = 1\<rparr> (fetch_request []))) =
      Some (Inl ''Questionnaire not found'')) \<and>
   page_error (download_csv_fetch \<lparr>db = after_q01, ready_state = 1\<rparr> (init_page\<lparr>questionnaireId := ''QQ999''\<rparr>)) =
     Some ''Failed to fetch data''"
proof -
  have nf: "express_route GET (req_path (fetch_request [])) = App_not_found"
    by (simp add: express_route_def fetch_request_def url_path_def export_url_def backend_origin_def
        strip_c0_def drop_tab_newline_def segment_end_def url_char_def path_encoded_def
        end_segment_def single_dot_def double_dot_def route_eval mount_rest_def
        operational_layers_def admin_layers_def router_outcome_def)
  have ok: "url_safe ''QQ999'' \<and> utf8_valid ''QQ999'' \<and> ''QQ999'' \<noteq> [] \<and>
            find_answers (db \<lparr>db = after_q01, ready_state = 1\<rparr>) (\<lambda>a. questionnaireIDRef a = ''QQ999'') = []"
    by (simp add: url_safe_def utf8_valid_def segment_end_def utf8_len_def utf8_ok_def utf8_scalar_def
        after_q01_def sample_store_def new_answer_def)
  show ?thesis
    using fetch_not_found_only_unrouted[of "\<lparr>db = after_q01, ready_state = 1\<rparr>" "[]" init_page]
      fetch_not_found_only_unrouted[of "\<lparr>db = after_q01, ready_state = 1\<rparr>" "''QQ999''" init_page] nf ok
    by blast
qed

text \<open>
  C22 (functional). Exporting a questionnaire with answers to CSV, for an id the URL carries
  unchanged, from the page through \<open>fetch\<close>, Express and \<open>getExportAnswers\<close> to the
  \<open>CSVLink\<close>, gives a file whose first row is "Question", "Answer" and whose other rows are
  the questionnaire's stored answers, each its question and option, sorted by question id
  and in storage order within a question.
\<close>

theorem fetch_download_csv_file:
  assumes "url_safe (questionnaireId p)" and "utf8_valid (questionnaireId p)"
    and "questionnaireId p \<noteq> []"
    and "find_answers (db s) (\<lambda>a. questionnaireIDRef a = questionnaireId p) \<noteq> []"
  shows "csv_file (download_csv_fetch s p) =
           [''Question'', ''Answer''] #
           map (\<lambda>(q, a). [q, a])
             (sort_key fst (map (\<lambda>a. (qIDRef a, ans a))
                (find_answers (db s) (\<lambda>a. questionnaireIDRef a = questionnaireId p))))"
  using assms express_fetch_safe[OF assms(1,2), of s]
  by (simp add: download_csv_fetch_def handle_export_request get_export_answers_def Let_def
      get_user_list_def js_sort_key csv_file_def csv_headers_def case_prod_unfold)

theorem fetch_download_csv_file_witness:
  "url_safe ''QQ000'' \<and> utf8_valid ''QQ000'' \<and> ''QQ000'' \<noteq> [] \<and>
   find_answers after_q02 (\<lambda>a. questionnaireIDRef a = ''QQ000'') \<noteq> [] \<and>
   csv_file (download_csv_fetch \<lparr>db = after_q02, ready_state = 1\<rparr> (init_page\<lparr>questionnaireId := ''QQ000''\<rparr>)) =
     [[''Question'', ''Answer''], [''Q01'', ''Q01A1''], [''Q02'', ''Q02A1'']]"
proof -
  have h: "url_safe (questionnaireId (init_page\<lparr>questionnaireId := ''QQ000''\<rparr>))"
    "utf8_valid (questionnaireId (init_page\<lparr>questionnaireId := ''QQ000''\<rparr>))"
    "questionnaireId (init_page\<lparr>questionnaireId := ''QQ000''\<rparr>) \<noteq> []"
    "find_answers (db \<lparr>db = after_q02, ready_state = 1\<rparr>)
       (\<lambda>a. questionnaireIDRef a = questionnaireId (init_page\<lparr>questionnaireId := ''QQ000''\<rparr>)) \<noteq> []"
    by (simp_all add: url_safe_def utf8_valid_def segment_end_def utf8_len_def utf8_ok_def
        utf8_scalar_def after_q02_def new_answer_def)
  show ?thesis
    using h fetch_download_csv_file[OF h]
    by (simp add: after_q02_def sample_store_def new_answer_def)
qed

end
