(* ===== verification/DocEndpoints.thy ===== *)
theory DocEndpoints
  imports FrontendFetch Interface
begin

text \<open>
  The "Endpoint" and "example" sections of the controller comments of
  \<open>controllers/operational.js\<close> and \<open>controllers/admin.js\<close>, checked against the routes
  the application registers. A documented URL is parsed as the browser parses it; its
  segments \<open>:name\<close> are parameters. An example URL is sent with the verb of the route of its
  controller: its path goes through \<open>express_route\<close>, and its query through the URL
  parser's query state and Express's query-string parser (\<open>qs\<close>), which gives
  \<open>req.query.format\<close>.
\<close>

subsection \<open>The query of a URL\<close>

text \<open>
  The WHATWG query state of a special URL: what follows the first \<open>?\<close> up to the fragment,
  with control characters, bytes outside ASCII, the space and \<open>" # ' < >\<close>
  percent-encoded.
\<close>

definition query_encoded :: "char \<Rightarrow> bool" where
  "query_encoded c \<longleftrightarrow>
     of_char c < (32::nat) \<or> (126::nat) < of_char c \<or> of_char c \<in> {32, 34, 35, 39, 60, 62 :: nat}"

definition url_query :: "string \<Rightarrow> string option" where
  "url_query u =
     (case dropWhile (\<lambda>c. c \<noteq> CHR ''?'') (takeWhile (\<lambda>c. c \<noteq> CHR ''#'') (drop_tab_newline (strip_c0 u))) of
        [] \<Rightarrow> None
      | _ # q \<Rightarrow> Some (concat (map (\<lambda>c. if query_encoded c then pct_byte (of_char c) else [c]) q)))"

text \<open>
  \<open>String.prototype.split\<close> on one character, and the decoding of \<open>qs\<close>: \<open>+\<close> is a
  space, then \<open>decodeURIComponent\<close>, and a value that does not decode is kept as it is.
\<close>

fun split_on :: "char \<Rightarrow> string \<Rightarrow> string list" where
  "split_on d [] = [[]]"
| "split_on d (c # cs) =
     (if c = d then [] # split_on d cs
      else (let r = split_on d cs in (c # hd r) # tl r))"

definition qs_decode :: "string \<Rightarrow> string" where
  "qs_decode v =
     (let w = map (\<lambda>c. if c = CHR ''+'' then CHR '' '' else c) v in
      case uri_decode w of Some x \<Rightarrow> x | None \<Rightarrow> w)"

definition query_values :: "string \<Rightarrow> string \<Rightarrow> string list" where
  "query_values k q =
     [qs_decode (drop 1 (dropWhile (\<lambda>c. c \<noteq> CHR ''='') part)).
        part \<leftarrow> split_on CHR ''&'' q, qs_decode (takeWhile (\<lambda>c. c \<noteq> CHR ''='') part) = k]"

text \<open>
  \<open>req.query.format\<close>: absent, the one value, or the array of the values, which the
  controllers' \<open>format == 'csv'\<close> compares as the values joined by commas.
\<close>

fun js_join :: "string \<Rightarrow> string list \<Rightarrow> string" where
  "js_join d [] = []"
| "js_join d [x] = x"
| "js_join d (x # xs) = x @ d @ js_join d xs"

definition query_format :: "string \<Rightarrow> string option" where
  "query_format q =
     (case query_values ''format'' q of
        [] \<Rightarrow> None
      | [v] \<Rightarrow> Some v
      | vs \<Rightarrow> Some (js_join '','' vs))"

definition url_request :: "http_verb \<Rightarrow> string \<Rightarrow> request" where
  "url_request m u =
     \<lparr>req_method = m, req_path = url_path backend_origin u,
      req_format = Option.bind (url_query u) query_format, req_file = None\<rparr>"

subsection \<open>The documented endpoints\<close>

record endpoint_doc =
  ed_controller :: string
  ed_url :: string
  ed_examples :: "(string \<times> format option) list"

text \<open>
  Each comment's endpoint, as its second line writes it with \<open>{baseURL}\<close> expanded, and its
  examples with the format the comment says they show (none where it says nothing).
\<close>

definition endpoint_get_questionnaire :: endpoint_doc where
  "endpoint_get_questionnaire =
     \<lparr>ed_controller = ''getQuestionnaire'',
      ed_url = ''https://localhost:9103/intelliq_api/questionnaire/:questionnaireID'',
      ed_examples =
        [(''https://localhost:9103/intelliq_api/questionnaire/QQ000'', Some Format_json),
         (''https://localhost:9103/intelliq_api/questionnaire/QQ000?format=json'', Some Format_json),
         (''https://localhost:9103/intelliq_api/questionnaire/QQ000?format=csv'', Some Format_csv)]\<rparr>"

definition endpoint_get_question :: endpoint_doc where
  "endpoint_get_question =
     \<lparr>ed_controller = ''getQuestion'',
      ed_url = ''https://localhost:9103/intelliq_api/question/:questionnaireID/:question'',
      ed_examples =
        [(''https://localhost:9103/intelliq_api/question/QQ000/Q01'', Some Format_json),
         (''https://localhost:9103/intelliq_api/question/QQ000/Q01?format=json'', Some Format_json),
         (''https://localhost:9103/intelliq_api/question/QQ000/Q01?format=csv'', Some Format_csv)]\<rparr>"

definition endpoint_post_answer :: endpoint_doc where
  "endpoint_post_answer =
     \<lparr>ed_controller = ''postAnswer'',
      ed_url =
        ''https://localhost:9103/intelliq_api/doanswer/:questionnaireID/:question/:session/:optionID'',
      ed_examples = [(''https://localhost:9103/intelliq_api/doanswer/QQ000/Q01/AAAA/Q01A1'', None)]\<rparr>"

definition endpoint_get_session_answers :: endpoint_doc where
  "endpoint_get_session_answers =
     \<lparr>ed_controller = ''getSessionAnswers'',
      ed_url = ''https://localhost:9103/intelliq_api/getsessionanswers/:questionnaireID/:session'',
      ed_examples =
        [(''https://localhost:9103/intelliq_api/getsessionanswers/QQ000/AAAA'', Some Format_json),
         (''https://localhost:9103/intelliq_api/getsessionanswers/QQ000/AAAA?format=json'',
          Some Format_json),
         (''https://localhost:9103/intelliq_api/getsessionanswers/QQ000/AAAA?format=csv'',
          Some Format_csv)]\<rparr>"

definition endpoint_get_question_answers :: endpoint_doc where
  "endpoint_get_question_answers =
     \<lparr>ed_controller = ''getQuestionAnswers'',
      ed_url = ''https://localhost:9103/intelliq_api/getquestionanswers/:questionnaireID/:questionID'',
      ed_examples =
        [(''https://localhost:9103/intelliq_api/getquestionanswers/QQ000/Q01'', Some Format_json),
         (''https://localhost:9103/intelliq_api/getquestionanswers/QQ000/Q01?format=json'',
          Some Format_json),
         (''https://localhost:9103/intelliq_api/getquestionanswers/QQ000/Q01?format=csv'',
          Some Format_csv)]\<rparr>"

definition endpoint_get_export_answers :: endpoint_doc where
  "endpoint_get_export_answers =
     \<lparr>ed_controller = ''getExportAnswers'',
      ed_url = ''https://localhost:9103/intelliq_api/exportanswers/:questionnaireID'',
      ed_examples = [(''https://localhost:9103/intelliq_api/exportanswers/QQ000'', None)]\<rparr>"

definition endpoint_get_health_check :: endpoint_doc where
  "endpoint_get_health_check =
     \<lparr>ed_controller = ''getHealthCheck'',
      ed_url = ''https://localhost:9103/intelliq_api/admin/healthcheck'', ed_examples = []\<rparr>"

definition endpoint_post_questionnaire_upd :: endpoint_doc where
  "endpoint_post_questionnaire_upd =
     \<lparr>ed_controller = ''postQuestionnaireUpd'',
      ed_url = ''https://localhost:9103/intelliq_api/admin/questionnaire_upd'', ed_examples = []\<rparr>"

definition endpoint_post_reset_all :: endpoint_doc where
  "endpoint_post_reset_all =
     \<lparr>ed_controller = ''postResetAll'',
      ed_url = ''https://localhost:9103/intelliq_api/admin/resetall'', ed_examples = []\<rparr>"

definition endpoint_post_reset_q :: endpoint_doc where
  "endpoint_post_reset_q =
     \<lparr>ed_controller = ''postResetQ'',
      ed_url = ''https://localhost:9103/intelliq_api/admin/resetq/:questionnaireID'',
      ed_examples = [(''https://localhost:9103/intelliq_api/admin/resetq/QQ000'', None)]\<rparr>"

definition endpoint_docs :: "endpoint_doc list" where
  "endpoint_docs =
     [endpoint_get_questionnaire, endpoint_get_question, endpoint_post_answer, endpoint_get_session_answers,
      endpoint_get_question_answers, endpoint_get_export_answers, endpoint_get_health_check,
      endpoint_post_questionnaire_upd, endpoint_post_reset_all, endpoint_post_reset_q]"

text \<open>The routers with their mount paths, as \<open>app.js\<close> mounts them.\<close>

definition mounted_layers :: "(string list \<times> layer) list" where
  "mounted_layers =
     map (Pair [''intelliq_api'', ''admin'']) admin_layers @ map (Pair [''intelliq_api'']) operational_layers"

definition controller_route :: "string \<Rightarrow> (string list \<times> layer) option" where
  "controller_route name = find (\<lambda>(_, l). l_name l = name) mounted_layers"

definition doc_pattern :: "string \<Rightarrow> pseg list" where
  "doc_pattern u =
     map (\<lambda>s. if s \<noteq> [] \<and> hd s = CHR '':'' then Par else Lit s) (url_path backend_origin u)"

text \<open>
  An example conforms when the route of its controller matches its path, the application
  routes it to that controller with the parameters it carries, and its format is the one
  the comment gives.
\<close>

definition example_conforms :: "string list \<Rightarrow> layer \<Rightarrow> string \<times> format option \<Rightarrow> bool" where
  "example_conforms mnt l ex =
     (let r = url_request (l_verb l) (fst ex) in
      (case match_segs (map Lit mnt @ l_path l) (req_path r) of
         None \<Rightarrow> False
       | Some ps \<Rightarrow> express_route (l_verb l) (req_path r) = App_route (l_endpoint l ps)) \<and>
      (case snd ex of None \<Rightarrow> True | Some f \<Rightarrow> parse_format (req_format r) = f))"

definition doc_conforms :: "endpoint_doc \<Rightarrow> bool" where
  "doc_conforms d =
     (case controller_route (ed_controller d) of
        None \<Rightarrow> False
      | Some (mnt, l) \<Rightarrow>
          doc_pattern (ed_url d) = map Lit mnt @ l_path l \<and>
          list_all (example_conforms mnt l) (ed_examples d))"

subsection \<open>The comments describe the registered routes\<close>

lemma query_format_samples:
  "map (\<lambda>u. parse_format (req_format (url_request GET u)))
     [''https://localhost:9103/intelliq_api/questionnaire/QQ000?format=csv&format=csv'',
      ''https://localhost:9103/intelliq_api/questionnaire/QQ000?format=c%73v'',
      ''https://localhost:9103/intelliq_api/questionnaire/QQ000#?format=csv'',
      ''https://localhost:9103/intelliq_api/questionnaire/QQ000?format=CSV'']
   = [Format_json, Format_csv, Format_json, Format_json]"
  by code_simp

text \<open>
  C32 (type). The endpoint sections of the controller comments describe the application as
  \<open>app.js\<close> and \<open>routes/*.js\<close> register it: each comment's URL pattern, parsed as a URL, is
  the mount path and path of the route of its controller; each example URL, sent with that
  route's verb, is routed by Express to that controller with the parameters it writes, in the
  format the comment gives; and the comments document each registered controller exactly once.
\<close>

theorem endpoint_docs_served:
  "list_all doc_conforms endpoint_docs \<and>
   mset (map ed_controller endpoint_docs) = mset (map (l_name \<circ> snd) mounted_layers)"
proof
  show "list_all doc_conforms endpoint_docs"
    by code_simp
  show "mset (map ed_controller endpoint_docs) = mset (map (l_name \<circ> snd) mounted_layers)"
    by (simp add: endpoint_docs_def endpoint_get_questionnaire_def endpoint_get_question_def
        endpoint_post_answer_def endpoint_get_session_answers_def endpoint_get_question_answers_def
        endpoint_get_export_answers_def endpoint_get_health_check_def endpoint_post_questionnaire_upd_def
        endpoint_post_reset_all_def endpoint_post_reset_q_def mounted_layers_def admin_layers_def
        operational_layers_def)
qed


subsection \<open>The responses of the application against the comments\<close>






end
