(* ===== verification/HomePage.thy ===== *)
theory HomePage
  imports FrontendFetch
begin

text \<open>
  The export page of \<open>src/frontend/src/Home.js\<close> as the browser runs it: the user's events
  and the settling of the page's fetches interleave. \<open>downloadCSV\<close> and \<open>downloadJSON\<close>
  are \<open>async\<close>: a click sends the request for the id typed at that moment and the page goes on;
  the response resumes the handler later, in any order with the other events. The
  \<open>setState\<close> of \<open>downloadCSV\<close> schedules, in its callback, a \<open>setTimeout\<close> that clicks the
  \<open>CSVLink\<close>, whose file is written from the page's data when the timer fires. The state
  \<open>home\<close> is the page's React state, the settled results still to resume their handlers
  (\<open>home_fetches\<close>, in the order they were sent), the timers scheduled and the files
  downloaded; \<open>home_event\<close> is one event, \<open>home_reach\<close> the states reachable from the
  mounted page. A pending request resumes its handler when the backend answers it
  (\<open>Settle\<close>) or when the browser rejects the fetch (\<open>Reject\<close>). The backend is the one
  state \<open>s\<close> throughout: the export request is a GET and does not change it
  (\<open>fetch_request_read_only\<close>); changes by other clients are not modelled. A 2xx response
  other than the export's array, which only an id with dot segments reaches (such as
  \<open>../questionnaire/QQ000\<close>), is data of another shape for the page; it is not modelled, and
  the invariant below is stated for ids the URL carries unchanged.
\<close>

datatype export_kind = To_csv | To_json

datatype download = Csv_download "(ident \<times> ident) list" | Json_download "(ident \<times> ident) list"

record home =
  home_page :: page
  home_fetches :: "(export_kind \<times> string) list"
  home_timers :: nat
  home_downloads :: "download list"

datatype page_event = On_change string | Click_csv | Click_json | Settle nat | Reject nat string | Timer

text \<open>
  The result of \<open>getUserList\<close> once the backend has answered the request for an id, as
  \<open>fetch\<close> sends it; \<open>None\<close> when no response ever comes.
\<close>

definition export_fetch :: "server \<Rightarrow> string \<Rightarrow> (string + (ident \<times> ident) list) option" where
  "export_fetch s qid = get_user_list_app (fst (express_handle s (fetch_request qid)))"

text \<open>
  \<open>await fetch(...)\<close> rejects, without any response, when the network fails or the browser
  refuses the backend's self-signed certificate (\<open>server.js\<close>); the \<open>TypeError\<close>'s message
  is the browser's: Chrome, Firefox and Safari in this order.
\<close>

definition browser_fetch_errors :: "string list" where
  "browser_fetch_errors =
     [''Failed to fetch'', ''NetworkError when attempting to fetch resource.'', ''Load failed'']"

definition init_home :: home where
  "init_home = \<lparr>home_page = init_page, home_fetches = [], home_timers = 0, home_downloads = []\<rparr>"

text \<open>A click on one of the two buttons: the request goes out with the id typed now.\<close>

definition click :: "export_kind \<Rightarrow> home \<Rightarrow> home" where
  "click k h = h\<lparr>home_fetches := home_fetches h @ [(k, questionnaireId (home_page h))]\<rparr>"

text \<open>
  The rest of the handler once \<open>await this.getUserList()\<close> resumes: the \<open>catch\<close> branch sets
  the error (both handlers); \<open>downloadCSV\<close> stores the rows, clears the error and schedules the
  click of the link; \<open>downloadJSON\<close> downloads the rows and leaves the state alone.
\<close>

fun settle :: "export_kind \<times> (string + (ident \<times> ident) list) \<Rightarrow> home \<Rightarrow> home" where
  "settle (k, Inl msg) h = h\<lparr>home_page := (home_page h)\<lparr>page_error := Some msg\<rparr>\<rparr>"
| "settle (To_csv, Inr rows) h =
     h\<lparr>home_page := (home_page h)\<lparr>page_data := rows, page_error := None\<rparr>,
       home_timers := Suc (home_timers h)\<rparr>"
| "settle (To_json, Inr rows) h = h\<lparr>home_downloads := home_downloads h @ [Json_download rows]\<rparr>"

definition without :: "nat \<Rightarrow> 'a list \<Rightarrow> 'a list" where
  "without i xs = take i xs @ drop (Suc i) xs"

text \<open>
  One event: typing (the input's \<open>onChange\<close>), a click on either button, the \<open>i\<close>-th pending
  request answered by the backend or rejected by the browser, each resuming its handler, or a
  scheduled timer clicking the \<open>CSVLink\<close>, which downloads the data the page holds at that
  moment. An event that cannot happen is \<open>None\<close>.
\<close>

fun home_event :: "server \<Rightarrow> home \<Rightarrow> page_event \<Rightarrow> home option" where
  "home_event s h (On_change v) = Some (h\<lparr>home_page := set_questionnaire_id v (home_page h)\<rparr>)"
| "home_event s h Click_csv = Some (click To_csv h)"
| "home_event s h Click_json = Some (click To_json h)"
| "home_event s h (Settle i) =
     (if i < length (home_fetches h)
      then map_option (\<lambda>r. settle (fst (home_fetches h ! i), r)
                             (h\<lparr>home_fetches := without i (home_fetches h)\<rparr>))
             (export_fetch s (snd (home_fetches h ! i)))
      else None)"
| "home_event s h (Reject i msg) =
     (if i < length (home_fetches h) \<and> msg \<in> set browser_fetch_errors
      then Some (settle (fst (home_fetches h ! i), Inl msg)
                  (h\<lparr>home_fetches := without i (home_fetches h)\<rparr>))
      else None)"
| "home_event s h Timer =
     (case home_timers h of
        0 \<Rightarrow> None
      | Suc n \<Rightarrow>
          Some (h\<lparr>home_timers := n,
                  home_downloads := home_downloads h @ [Csv_download (page_data (home_page h))]\<rparr>))"

fun home_run :: "server \<Rightarrow> home \<Rightarrow> page_event list \<Rightarrow> home option" where
  "home_run s h [] = Some h"
| "home_run s h (e # es) = Option.bind (home_event s h e) (\<lambda>h'. home_run s h' es)"

text \<open>
  The states reachable from the mounted page when the user only types ids satisfying
  \<open>typed\<close>.
\<close>

fun typed_event :: "(string \<Rightarrow> bool) \<Rightarrow> page_event \<Rightarrow> bool" where
  "typed_event typed (On_change v) = typed v"
| "typed_event typed _ = True"

inductive home_reach :: "server \<Rightarrow> (string \<Rightarrow> bool) \<Rightarrow> home \<Rightarrow> bool" for s typed where
  mounted: "home_reach s typed init_home"
| event: "home_reach s typed h \<Longrightarrow> typed_event typed e \<Longrightarrow> home_event s h e = Some h' \<Longrightarrow>
    home_reach s typed h'"

text \<open>
  What the page may hold: its error is one of the two messages \<open>getUserList\<close> throws or a
  browser's message for a rejected fetch, every pending request has an id the URL carries
  unchanged, and every list of rows, shown or downloaded, is an export of the store: stored
  (question, option) pairs, sorted by question id.
\<close>

definition stored_pairs :: "store \<Rightarrow> (ident \<times> ident) set" where
  "stored_pairs d = (\<lambda>a. (qIDRef a, ans a)) ` set (answers d)"

definition export_rows :: "server \<Rightarrow> (ident \<times> ident) list \<Rightarrow> bool" where
  "export_rows s rows \<longleftrightarrow> set rows \<subseteq> stored_pairs (db s) \<and> sorted (map fst rows)"

definition page_message :: "string \<Rightarrow> bool" where
  "page_message m \<longleftrightarrow>
     m = ''Questionnaire not found'' \<or> m = ''Failed to fetch data'' \<or> m \<in> set browser_fetch_errors"

fun result_ok :: "server \<Rightarrow> string + (ident \<times> ident) list \<Rightarrow> bool" where
  "result_ok s (Inl m) = page_message m"
| "result_ok s (Inr rows) = export_rows s rows"

fun download_rows :: "download \<Rightarrow> (ident \<times> ident) list" where
  "download_rows (Csv_download rows) = rows"
| "download_rows (Json_download rows) = rows"

definition safe_id :: "string \<Rightarrow> bool" where
  "safe_id q \<longleftrightarrow> url_safe q \<and> utf8_valid q"

definition home_inv :: "server \<Rightarrow> home \<Rightarrow> bool" where
  "home_inv s h \<longleftrightarrow>
     (case page_error (home_page h) of None \<Rightarrow> True | Some m \<Rightarrow> page_message m) \<and>
     export_rows s (page_data (home_page h)) \<and>
     safe_id (questionnaireId (home_page h)) \<and>
     list_all (safe_id \<circ> snd) (home_fetches h) \<and>
     list_all (export_rows s \<circ> download_rows) (home_downloads h)"

text \<open>
  A store with answers to both sample questionnaires, and a user who exports \<open>QQ000\<close> to CSV,
  then types \<open>QQ001\<close> and exports it too, while the first response is still on its way.
\<close>

definition two_exports_store :: store where
  "two_exports_store =
     after_q01\<lparr>answers := answers after_q01 @ [new_answer ''QQ001'' ''Q01'' ''BBBB'' ''Q01A2'']\<rparr>"

definition two_exports_events :: "page_event list" where
  "two_exports_events =
     [On_change ''QQ000'', Click_csv, On_change ''QQ001'', Click_csv, Settle 1, Settle 0, Timer, Timer]"

subsection \<open>The export request in the application\<close>

lemma fetch_request_read_only: "snd (express_handle s (fetch_request q)) = s"
  using express_route_read_only[of GET "req_path (fetch_request q)" _ s "fetch_request q"]
  by (auto simp: express_handle_def fetch_request_def split: app_result.splits prod.splits)

subsection \<open>What a settled fetch carries\<close>

lemma dispatch_export:
  "fst (dispatch s r e) = Resp_export x \<Longrightarrow> \<exists>q. x = get_export_answers (db s) q"
  by (cases e) (auto simp: dispatch_def Let_def split: prod.splits)

lemma get_user_list_result:
  "get_user_list r = Some v \<Longrightarrow>
   (case v of Inl m \<Rightarrow> page_message m | Inr rows \<Rightarrow> r = Resp_export (Http_200 rows))"
  by (auto simp: get_user_list_def page_message_def
      split: option.splits if_splits response.splits http.splits sum.splits)

lemma get_export_rows:
  "get_export_answers d q = Http_200 rows \<Longrightarrow> set rows \<subseteq> stored_pairs d \<and> sorted (map fst rows)"
  by (auto simp: get_export_answers_def Let_def js_sort_key stored_pairs_def split: if_splits)

lemma export_fetch_ok: "export_fetch s q = Some v \<Longrightarrow> result_ok s v"
proof (cases "express_route GET (req_path (fetch_request q))")
  case (App_route e)
  assume fetch: "export_fetch s q = Some v"
  then have "get_user_list (fst (dispatch s (fetch_request q) e)) = Some v"
    using App_route by (simp add: export_fetch_def express_handle_def fetch_request_def
        split: prod.splits)
  note r = get_user_list_result[OF this]
  show ?thesis
  proof (cases v)
    case (Inl m)
    with r show ?thesis by simp
  next
    case (Inr rows)
    with r have "fst (dispatch s (fetch_request q) e) = Resp_export (Http_200 rows)" by simp
    then obtain q' where "get_export_answers (db s) q' = Http_200 rows"
      using dispatch_export by metis
    with Inr show ?thesis using get_export_rows by (simp add: export_rows_def)
  qed
next
  case (App_options opts)
  then show ?thesis using express_route_options[OF App_options] by simp
qed (auto simp: export_fetch_def express_handle_def fetch_request_def page_message_def
       get_user_list_def)

subsection \<open>The page's own requests\<close>

lemma export_fetch_safe:
  "safe_id q \<Longrightarrow> export_fetch s q = get_user_list (fst (handle s (export_request q)))"
  by (simp add: safe_id_def export_fetch_def express_fetch_safe)

lemma export_answered: "get_user_list (fst (handle s (export_request q))) \<noteq> None"
  by (cases "q = []")
    (auto simp: get_user_list_def get_export_answers_def Let_def dispatch_def
      handle_def route_eval export_request_def mk_request_def)

lemma export_fetch_safe_answered: "safe_id q \<Longrightarrow> export_fetch s q \<noteq> None"
  using export_fetch_safe export_answered by metis

lemmas sample_fetch_simps = safe_id_def url_safe_def utf8_valid_def segment_end_def utf8_len_def
  utf8_ok_def utf8_scalar_def handle_export_request get_user_list_def get_export_answers_def
  js_sort_key

subsection \<open>The invariant of the page\<close>

lemma home_inv_init: "home_inv s init_home"
  by (simp add: home_inv_def init_home_def init_page_def export_rows_def sample_fetch_simps)

lemma settle_inv:
  "home_inv s h \<Longrightarrow> result_ok s (snd f) \<Longrightarrow> home_inv s (settle f h)"
  by (induction f h rule: settle.induct) (auto simp: home_inv_def)

lemma list_all_without: "list_all P xs \<Longrightarrow> list_all P (without i xs)"
  by (auto simp: without_def list_all_iff dest: in_set_takeD in_set_dropD)

lemma home_inv_without:
  "home_inv s h \<Longrightarrow> home_inv s (h\<lparr>home_fetches := without i (home_fetches h)\<rparr>)"
  by (simp add: home_inv_def list_all_without)

lemma home_event_inv:
  assumes "home_inv s h" and "typed_event safe_id e" and "home_event s h e = Some h'"
  shows "home_inv s h'"
proof (cases e)
  case (Settle i)
  then obtain r where r: "export_fetch s (snd (home_fetches h ! i)) = Some r"
    and h': "h' = settle (fst (home_fetches h ! i), r) (h\<lparr>home_fetches := without i (home_fetches h)\<rparr>)"
    using assms(3) by (auto split: if_splits)
  then show ?thesis
    using settle_inv[OF home_inv_without[OF assms(1)]] export_fetch_ok[OF r] by simp
next
  case (Reject i msg)
  then have "msg \<in> set browser_fetch_errors"
    and h': "h' = settle (fst (home_fetches h ! i), Inl msg) (h\<lparr>home_fetches := without i (home_fetches h)\<rparr>)"
    using assms(3) by (simp_all split: if_splits)
  then show ?thesis
    using settle_inv[OF home_inv_without[OF assms(1)], of "(fst (home_fetches h ! i), Inl msg)" i]
    by (simp add: page_message_def)
next
  case Timer
  then show ?thesis
    using assms by (auto simp: home_inv_def split: nat.splits)
qed (use assms in \<open>auto simp: home_inv_def set_questionnaire_id_def click_def\<close>)

lemma home_reach_inv_step: "home_reach s safe_id h \<Longrightarrow> home_inv s h"
  by (induction rule: home_reach.induct) (auto intro: home_inv_init home_event_inv)

lemma home_run_reach:
  "home_reach s typed h \<Longrightarrow> list_all (typed_event typed) es \<Longrightarrow> home_run s h es = Some h' \<Longrightarrow>
   home_reach s typed h'"
  by (induction es arbitrary: h) (auto intro: home_reach.event split: Option.bind_splits)

lemma home_run_append:
  "home_run s h (xs @ ys) = Option.bind (home_run s h xs) (\<lambda>h'. home_run s h' ys)"
  by (induction xs arbitrary: h) (auto split: Option.bind_splits)

lemma two_exports_run:
  "home_run \<lparr>db = two_exports_store, ready_state = 1\<rparr> init_home two_exports_events =
   Some \<lparr>home_page = \<lparr>questionnaireId = ''QQ001'', page_data = [(''Q01'', ''Q01A1'')], page_error = None\<rparr>,
         home_fetches = [], home_timers = 0,
         home_downloads = [Csv_download [(''Q01'', ''Q01A1'')], Csv_download [(''Q01'', ''Q01A1'')]]\<rparr>"
  by (simp add: two_exports_events_def init_home_def init_page_def set_questionnaire_id_def click_def
      without_def export_fetch_safe two_exports_store_def after_q01_def sample_store_def
      new_answer_def sample_fetch_simps)

subsection \<open>Properties of the page\<close>

text \<open>
  C11 (invariant). Whatever the user does and in whatever order the responses come back or
  the browser rejects the fetches, as long as the user types ids the URL carries unchanged
  (\<open>safe_id\<close>; the other ids are C29's), the page shows no error, one of the two messages
  \<open>getUserList\<close> throws, or a browser's message for a rejected fetch; every request in
  flight will be answered by the backend; and the page's data and every file it downloads
  consist of stored (question, option) pairs sorted by question id. The syntax error of
  \<open>response.json()\<close> never occurs, since a GET never gets the answer to OPTIONS. By rule
  induction on \<open>home_reach\<close>.
\<close>

theorem home_reach_inv:
  assumes "home_reach s safe_id h"
  shows "(case page_error (home_page h) of
            None \<Rightarrow> True
          | Some m \<Rightarrow> m \<in> {''Questionnaire not found'', ''Failed to fetch data''} \<union> set browser_fetch_errors) \<and>
         set (page_data (home_page h)) \<subseteq> stored_pairs (db s) \<and> sorted (map fst (page_data (home_page h))) \<and>
         (\<forall>f \<in> set (home_fetches h). export_fetch s (snd f) \<noteq> None) \<and>
         (\<forall>d \<in> set (home_downloads h).
            set (download_rows d) \<subseteq> stored_pairs (db s) \<and> sorted (map fst (download_rows d)))"
  using home_reach_inv_step[OF assms] export_fetch_safe_answered
  by (auto simp: home_inv_def export_rows_def page_message_def list_all_iff split: option.splits)

theorem home_reach_inv_witness:
  "home_reach \<lparr>db = two_exports_store, ready_state = 1\<rparr> safe_id
     (the (home_run \<lparr>db = two_exports_store, ready_state = 1\<rparr> init_home
        (two_exports_events @ [Click_json, Reject 0 ''Failed to fetch'']))) \<and>
   page_error (home_page (the (home_run \<lparr>db = two_exports_store, ready_state = 1\<rparr> init_home
        (two_exports_events @ [Click_json, Reject 0 ''Failed to fetch''])))) = Some ''Failed to fetch'' \<and>
   set [(''Q01'', ''Q01A1'')] \<subseteq> stored_pairs two_exports_store"
proof -
  have run: "home_run \<lparr>db = two_exports_store, ready_state = 1\<rparr> init_home
        (two_exports_events @ [Click_json, Reject 0 ''Failed to fetch'']) =
     Some \<lparr>home_page = \<lparr>questionnaireId = ''QQ001'', page_data = [(''Q01'', ''Q01A1'')],
                          page_error = Some ''Failed to fetch''\<rparr>,
           home_fetches = [], home_timers = 0,
           home_downloads = [Csv_download [(''Q01'', ''Q01A1'')], Csv_download [(''Q01'', ''Q01A1'')]]\<rparr>"
    using two_exports_run
    by (simp add: home_run_append click_def without_def browser_fetch_errors_def)
  have typed: "list_all (typed_event safe_id) (two_exports_events @ [Click_json, Reject 0 ''Failed to fetch''])"
    by (simp add: two_exports_events_def sample_fetch_simps)
  have r: "home_reach \<lparr>db = two_exports_store, ready_state = 1\<rparr> safe_id
     (the (home_run \<lparr>db = two_exports_store, ready_state = 1\<rparr> init_home
        (two_exports_events @ [Click_json, Reject 0 ''Failed to fetch''])))"
    using home_run_reach[OF home_reach.mounted typed run] run by simp
  show ?thesis
    using r home_reach_inv[OF r] run by simp
qed

text \<open>
  C28 (safety). The page does not discard a stale response. A user exports \<open>QQ000\<close> to CSV,
  types \<open>QQ001\<close> and exports it too; when the responses come back in the other order, the
  page ends up with the input showing \<open>QQ001\<close>, the data of \<open>QQ000\<close>, and two downloaded
  files, both of \<open>QQ000\<close>: each timer clicks the link with the data the page holds when it
  fires, and the answers of \<open>QQ001\<close> are never downloaded.
\<close>

theorem stale_export_race:
  "export_fetch \<lparr>db = two_exports_store, ready_state = 1\<rparr> ''QQ001'' = Some (Inr [(''Q01'', ''Q01A2'')]) \<and>
   home_run \<lparr>db = two_exports_store, ready_state = 1\<rparr> init_home
     [On_change ''QQ000'', Click_csv, On_change ''QQ001'', Click_csv, Settle 1, Settle 0, Timer, Timer] =
   Some \<lparr>home_page = \<lparr>questionnaireId = ''QQ001'', page_data = [(''Q01'', ''Q01A1'')], page_error = None\<rparr>,
         home_fetches = [], home_timers = 0,
         home_downloads = [Csv_download [(''Q01'', ''Q01A1'')], Csv_download [(''Q01'', ''Q01A1'')]]\<rparr>"
  using two_exports_run
  by (simp add: two_exports_events_def export_fetch_safe two_exports_store_def after_q01_def
      sample_store_def new_answer_def sample_fetch_simps)

end
