(* ===== verification/Spec2Isabelle.thy ===== *)
theory Spec2Isabelle
  imports Frontend Interface Concurrency AsyncReset Upload Mocha DocEndpoints HomePage
begin

text \<open>
  \<^bold>\<open>A verification library for the intelliQ questionnaire backend.\<close>

  The repository is a questionnaire service: an Express/Mongoose REST backend under
  \<open>src/api-backend\<close> and a React export page under \<open>src/frontend\<close>. Questionnaires are
  documents with ordered questions, each question with options whose \<open>nextqID\<close> names the
  question the option leads to; answers are documents (questionnaire, question, option,
  session). The core is the answer-submission handler, which decides from the stored graph and
  the session's stored answers whether a submission may be recorded. Read endpoints list the
  stored data, administrative endpoints import and reset it, and the front end downloads the
  export of a questionnaire.

  \<^bold>\<open>Theories and what they model.\<close>
  \<^item> \<open>Prelude\<close>: identifiers, HTTP outcomes (\<open>http\<close>, with \<open>No_response\<close> for a
    request never answered), the response messages, and the JavaScript idioms the controllers
    use: \<open>js_index\<close> (array read, \<open>undefined\<close> as \<open>None\<close>), \<open>for_each_assign\<close>
    (a \<open>forEach\<close> that assigns an outer variable, so the last element wins and a throw is
    \<open>None\<close>), \<open>compare_by\<close> and \<open>js_sort\<close> (the controllers' \<open>compare\<close> functions and the
    stable \<open>Array.prototype.sort\<close>), with the lemma that the sort is the library's stable
    \<open>sort_key\<close> for a consistent key and the identity for an \<open>undefined\<close> key.
  \<^item> \<open>Store\<close>: the Mongoose schemas of \<open>models/questionnaire.js\<close> and \<open>models/answer.js\<close>
    as records, their \<open>required\<close> string checks, the store of both collections in insertion
    order, the Mongoose calls (\<open>find\<close>, \<open>save\<close>, \<open>insertMany\<close>, \<open>deleteMany\<close>) as list
    operations, and the sample questionnaires used by the witnesses.
  \<^item> \<open>AnswerFlow\<close>: \<open>postAnswer\<close> (\<open>controllers/operational.js\<close> lines 282--461) as
    \<open>post_answer\<close>, one definition per query and branch; the first-answer \<open>for\<close> loop as
    \<open>first_answer_loop\<close> (a \<open>function\<close> terminating by the measure \<open>n - i\<close>); the store
    invariant \<open>answers_valid\<close>; the validator contract of the specification (section 4.1) as
    \<open>spec_decision\<close> with \<open>enact\<close>.
  \<^item> \<open>ReadAPI\<close>: \<open>getQuestionnaire\<close>, \<open>getQuestion\<close>, \<open>getSessionAnswers\<close>,
    \<open>getQuestionAnswers\<close>, \<open>getExportAnswers\<close>, each with its JSON and CSV branches.
  \<^item> \<open>Admin\<close>: \<open>getHealthCheck\<close> with \<open>connected()\<close> of \<open>util/dbconnection.js\<close>,
    \<open>postQuestionnaireUpd\<close>, \<open>postResetAll\<close>, \<open>postResetQ\<close>.
  \<^item> \<open>Server\<close>: the routers of \<open>routes/*.js\<close> and the 404 fallback of \<open>app.js\<close>
    (\<open>route\<close>), the dispatch of a route to its controller (\<open>dispatch\<close>, \<open>handle\<close>), the
    server state (store and connection state), the step relation \<open>server_step\<close> and the
    reachable states \<open>reachable\<close>; paths match as Express matches them (\<open>seg_is\<close>,
    \<open>strip_slash\<close>, \<open>router_verb\<close>), and \<open>server_start\<close> is the start of
    \<open>server.js\<close>.
  \<^item> \<open>Frontend\<close>: \<open>getUserList\<close>, \<open>downloadCSV\<close>, \<open>downloadJSON\<close>, the
    input's \<open>onChange\<close> and the file of the \<open>CSVLink\<close> (\<open>csv_file\<close> with the column
    \<open>csv_headers\<close>) of \<open>frontend/src/Home.js\<close>, over the backend's response to the
    export request for the id as one path segment; the request as really sent is
    \<open>FrontendFetch\<close>'s.
  \<^item> \<open>Interface\<close>: the responses each controller's comment documents ("Error handling":
    statuses and error messages), one definition per comment (\<open>doc_get_questionnaire\<close>,
    \<dots>, \<open>doc_reset_q\<close>), and \<open>documented_response\<close>, the documented type of the
    response to a routed or unrouted request.
  \<^item> \<open>UrlCodec\<close>: \<open>decodeURIComponent\<close> (\<open>uri_decode\<close>: the escapes \<open>%XX\<close> as
    bytes, then their UTF-8 validation, \<open>utf8_group\<close>, a \<open>function\<close> terminating by the
    length of the token list) and the path state of the WHATWG URL parser \<open>fetch\<close> uses
    (\<open>url_path\<close>: trimming, segment separators, percent-encoding by \<open>url_char\<close>, dot
    segments).
  \<^item> \<open>ExpressRouter\<close>: Express's routing on the raw path, below \<open>route\<close>: the routers of
    \<open>routes/*.js\<close> as ordered layers (\<open>admin_layers\<close>, \<open>operational_layers\<close>), the
    patterns of \<open>path-to-regexp\<close> (\<open>match_segs\<close>), the decoding of parameters
    (\<open>decode_params\<close>, a 400 when it fails), the automatic answer to OPTIONS, the mounts of
    \<open>app.js\<close> (\<open>mount\<close>), and \<open>express_handle\<close>, a request of the application.
  \<^item> \<open>FrontendFetch\<close>: the export request of \<open>Home.js\<close> as sent: the typed id written
    into the URL unencoded, parsed by \<open>fetch\<close> and routed by Express
    (\<open>fetch_request\<close>, \<open>download_csv_fetch\<close>).
  \<^item> \<open>HomePage\<close>: the export page as the browser runs it: the React state with the
    settled fetches still to resume their \<open>async\<close> handlers, the timers of
    \<open>downloadCSV\<close> and the downloaded files (\<open>home\<close>); one event (\<open>home_event\<close>:
    typing, a click, a response or a browser's rejection of the fetch resuming its handler, a
    timer clicking the \<open>CSVLink\<close>), runs of events (\<open>home_run\<close>) and the states
    reachable when the user types ids of a given kind (\<open>home_reach\<close>), over Express's
    answer to the request \<open>fetch\<close> sends (\<open>export_fetch\<close>).
  \<^item> \<open>DocEndpoints\<close>: the "Endpoint" and "example" sections of the controller comments,
    one definition per comment (\<open>endpoint_get_questionnaire\<close>, \<dots>,
    \<open>endpoint_post_reset_q\<close>), the query of a URL (\<open>url_query\<close>) and Express's
    query-string parser (\<open>query_values\<close>, \<open>query_format\<close>: \<open>req.query.format\<close>), the
    mounted routes (\<open>mounted_layers\<close>) and the conformance of a comment to its route
    (\<open>doc_conforms\<close>).
  \<^item> \<open>JsonBody\<close>: the bodies the controllers hand to \<open>res.json\<close> as JSON values
    (\<open>json\<close>, objects as association lists), one renderer per document and view, and
    \<open>response_json\<close>, the body of every outcome of every route, errors included.
  \<^item> \<open>Mocha\<close>: the nine suites of \<open>src/api-backend/test\<close> as data: the \<open>before\<close>
    fixtures, the supertest requests with their chai expectations (\<open>expectation\<close>,
    evaluated by \<open>holds\<close> on the status and the JSON body) and the \<open>after\<close> clean-ups,
    three of which leave their answer deletion pending (\<open>leaves_pending\<close>);
    \<open>run_suite\<close> and \<open>run_mocha\<close> run them against \<open>handle\<close>, with the point of the
    next suite at which a pending deletion lands as a parameter.
  \<^item> \<open>IsoTime\<close> and \<open>Upload\<close>: the upload as it happens. \<open>to_iso\<close> is
    \<open>toISOString\<close> over the proleptic Gregorian calendar (checked against JavaScript on a
    sample instant), \<open>multer_filename\<close> the name multer's disk storage gives the file
    (\<open>app.js\<close> lines 9--16), \<open>require_json\<close> Node's \<open>require\<close> with its module cache,
    \<open>post_questionnaire_upd_file\<close> the request of \<open>postQuestionnaireUpd\<close> on the raw file,
    and \<open>upload_run\<close> a sequence of uploads.
  \<^item> \<open>Concurrency\<close>: concurrent submissions. \<open>postAnswer\<close> split into its reads
    (\<open>post_answer_read\<close>, ending in a pending response or save) and its write
    (\<open>post_answer_commit\<close>, the \<open>save()\<close> callback); configurations \<open>conc\<close> of the shared
    store and the requests in flight; the interleaving step relation \<open>conc_step\<close>; and an
    executable scheduler \<open>conc_run\<close> over explicit event lists, which covers exactly the
    steps of \<open>conc_step\<close>.
  \<^item> \<open>AsyncReset\<close>: the resets of \<open>controllers/admin.js\<close> as they run, a 200 response
    followed by pending \<open>deleteMany\<close> calls (\<open>post_reset_all_async\<close>,
    \<open>post_reset_q_async\<close>, \<open>run_deletion\<close>); configurations \<open>aconf\<close> with submissions,
    pending deletions and the resets' responses; the step relation \<open>a_step\<close> and the
    scheduler \<open>a_run\<close>. Completed in any order the deletions give the \<open>Admin\<close> model's
    reset, which is why that model applies them with the response.

  \<^bold>\<open>What is proved.\<close>
  \<^item> Refinement (C1): on a store with one document for the questionnaire id and at most one
    question leading to the submitted one, \<open>post_answer\<close> is \<open>enact\<close> of \<open>spec_decision\<close>
    for every request. Its proof goes through the characterisation of the first-answer loop
    against the reference "no required question before the submitted one"
    (\<open>first_answer_loop_single\<close>, by computation induction on the loop) and of the
    later-answer branch against the contract's reachability condition.
  \<^item> Functional and error behaviour of the handler on every branch (C2, C3, C5, C6: the
    refusal "check your answer fields" exactly when no stored question of the questionnaire
    has the option), the store invariant over every reachable server state (C4, rule
    induction on \<open>reachable\<close>), the read-back of an accepted answer (C7), independence of
    sessions (C8).
  \<^item> Behaviour outside the contract's assumptions, each a closed theorem on sample stores
    (C9, C10, C14): diamond-shaped graphs, option ids reused across questions, and duplicate
    questionnaire ids, which make a request hang.
  \<^item> The router (C12, C13, C16, C20): Express's routing of the raw path is the \<open>handle\<close> of
    the Server model on every plain path and verb but OPTIONS (C13, route by route up to the
    longest pattern); a parameter that does not decode is answered 400 for every verb (C16);
    no request other than a POST changes the state, on the Server model (C20) and on any raw
    path in Express (C12).
  \<^item> The read endpoints (C15, C17, C19): sorting is by the key, a permutation, and stable; the
    CSV branch of \<open>getQuestion\<close> does not sort. The reset of a questionnaire's answers (C21).
  \<^item> The documentation (C24, C32): every response of the application is one its
    controller's comment documents, or the 404 of \<open>app.js\<close>, except the two Express adds,
    a 400 for an undecodable parameter and the answer to OPTIONS (C24, over
    \<open>express_handle\<close>); every "Endpoint" and "example" section of the comments is the route
    of its controller, each example routed to it with its parameters and in the documented
    format through the URL and query-string parsers (C32, \<open>DocEndpoints\<close>, evaluated by
    \<open>code_simp\<close>).
  \<^item> The export as the page sends it (C18, C22, C23, C29): an id without separators,
    \<open>%\<close>, trailing blanks or dot form, in UTF-8, reaches the export of exactly that id,
    through the URL parser's escaping and Express's decoding (C18, the round trip
    \<open>uri_decode (concat (map url_char x)) = Some x\<close>), and the CSV file is then the sorted
    stored answers (C22); the page says "Questionnaire not found" exactly when the URL matches
    no route, never for an unknown questionnaire, which gets "Failed to fetch data" (C23);
    other ids are trimmed, decoded into another id, split into a route that does not exist,
    or answered 400 (C29).
  \<^item> The export page as it runs (C11, C28): in every state the page reaches while the user
    types ids the URL carries unchanged, under any interleaving of typing, clicks, responses,
    rejected fetches and timers, the error shown is one of the two messages of
    \<open>getUserList\<close> or a browser's message for a rejected fetch, every request in flight
    will be answered, and all data shown or downloaded are sorted stored pairs (C11, rule
    induction on \<open>home_reach\<close>); responses that come back out of order make the page
    download the earlier questionnaire twice and never the one typed (C28).
  \<^item> Concurrency (C25--C27, C34): two submissions of one session that both check before
    either saves are both accepted, an outcome no sequential order has (the race of
    specification section 5); every interleaving keeps the store invariant (rule induction
    on \<open>conc_step\<close>); submissions of different sessions are serializable; on a store with
    one document per questionnaire id, every submission in flight is answered with a status
    once no new request arrives (C34: the steps without arrivals are well-founded by the
    measure \<open>conc_work\<close>, and no query callback throws).
  \<^item> Asynchronous resets (C31): a submission checked before a reset and saved after it
    survives the reset and leaves an answer naming no questionnaire. Without a submission
    in flight, the deletions of a reset give the synchronous reset in any completion order
    (lemma \<open>reset_deletions_any_order\<close>, by the multiset lemma \<open>fold_multiset_equiv\<close>).
  \<^item> The test suites (C30, C33): every case of the nine mocha suites passes against the
    model, in any order of the suites, when each un-awaited answer deletion of an
    \<open>after\<close> hook completes before the next suite's fixture is saved (C33); when it completes
    after, the \<open>exportanswers\<close> suite run after \<open>doanswer\<close> fails (C30). The two files of the
    upload suite, which are not in the repository, are any file the schema rejects and any
    file it accepts. The concrete suites are evaluated by \<open>code_simp\<close>.
  \<^item> Uploads (C35--C37): the file name gives back the clock reading and the original name
    (a round trip through a parser of the ISO format); uploads at strictly increasing clock
    readings each insert their own content, as the \<open>Admin\<close> model does (a refinement, by
    induction over the run with the invariant that every cached name is older than the
    uploads to come); two uploads of one file name in the same millisecond insert the first
    file twice.
  \<^bold>\<open>Modelling choices.\<close> Collections are lists in insertion order, the order MongoDB
  returns unsorted results in here; the store is reliable (no storage failure is modelled,
  so the 500 paths of the controllers are those of validation failures and exceptions). A
  query on an \<open>undefined\<close> field value matches no document, since every queried field is
  required. Strings compare by character code (\<open>List_Lexorder\<close>, \<open>Char_ord\<close>), which is
  JavaScript's order on ASCII ids. Mongoose's \<open>insertMany\<close> validates all documents before it
  writes. The resets answer before their deletions finish; the \<open>Admin\<close> and \<open>Server\<close>
  models apply the deletions with the response, which \<open>AsyncReset\<close> justifies when no
  submission is in flight (lemma \<open>reset_deletions_any_order\<close>) and refutes when one is
  (C31). Paths are lists of segments, matched as Express matches them by default. No loop needs fuel: the loop of the handler and the calendar loops of \<open>to_iso\<close> are terminating \<open>function\<close>s, and the requests in flight finish without new arrivals (lemma
  \<open>conc_progress_terminates\<close>).

  \<^bold>\<open>Not modelled.\<close> What happens to the process after a \<open>TypeError\<close> thrown inside a
  query callback of \<open>postAnswer\<close>: the model answers nothing (\<open>No_response\<close>) and keeps
  the server running, which is Node's behaviour before version 15; from version 15 on, the
  unhandled rejection ends the process. The TLS key files and the HTTPS listener of \<open>server.js\<close> (only
  the order "connect, then listen" is modelled, \<open>server_start\<close>); the CORS headers of
  \<open>app.js\<close>, which only add response headers; in the \<open>Server\<close> model a parameter is taken as
  already decoded, which \<open>ExpressRouter\<close> justifies for plain paths (C13); strings are
  byte strings, so a decoded character outside ASCII is its UTF-8 bytes and ids compare by
  bytes; the CSV serialisation of
  \<open>csv-express\<close>; the JSON text of an uploaded file (a file is its parsed content or
  \<open>Json_malformed\<close>); the JSX layout of \<open>render\<close> (the page's state is modelled, its
  markup is not), the byte-level serialisation of the front end's downloads (the
  \<open>CSVLink\<close> file is modelled by its rows, the JSON file by the rows it stringifies), and
  changes of the store by other clients while the page's fetches are in flight; the \<open>_id\<close> and \<open>__v\<close> fields Mongoose adds to the JSON of a document,
  and of a caught error all but the \<open>name\<close> of a \<open>ValidationError\<close>. The page's
  behaviour on a 2xx response other than the export's array, which only an id with dot
  segments reaches (such as \<open>../questionnaire/QQ000\<close>): the page would hold data of
  another shape; C11 is stated for the ids the URL carries unchanged. A pending answer
  deletion of a mocha \<open>after\<close> hook lands within the next suite (or at its end); a
  deletion lost when the connection closes is not modelled. In the interleaving
  model the reads of one submission form one step; its schedules are schedules of the event
  loop, which is what the race needs, and the invariant only depends on the questionnaires,
  which no submission changes. Interleavings with the administrative endpoints are modelled
  for the resets (\<open>AsyncReset\<close>); an upload is one step.
\<close>

subsection \<open>Properties spanning the components\<close>

text \<open>
  C7 (roundtrip). An answer the handler accepts is read back: the session's answers then
  list its question and option, and it is the latest answer the question's answers list.
\<close>

theorem answer_roundtrip:
  assumes "fst (post_answer d qnid qid s oid) = Http_200 a"
  shows "a = new_answer qnid qid s oid \<and>
         (\<exists>v. get_session_answers (snd (post_answer d qnid qid s oid)) qnid s Format_json =
                Http_200 (Json v) \<and> (qid, oid) \<in> set (sa_answers v)) \<and>
         last (question_rows (snd (post_answer d qnid qid s oid)) qnid qid) = (s, oid)"
proof -
  from post_answer_200[OF assms] have a: "a = new_answer qnid qid s oid"
    and d': "snd (post_answer d qnid qid s oid) = insert_answer d a" by auto
  have rows: "session_rows (insert_answer d a) qnid s = session_rows d qnid s @ [(qid, oid)]"
    using a by (simp add: session_rows_def session_filter_def new_answer_def)
  have "\<exists>v. get_session_answers (insert_answer d a) qnid s Format_json = Http_200 (Json v) \<and>
            (qid, oid) \<in> set (sa_answers v)"
    using rows by (simp add: get_session_answers_def js_sort_key)
  moreover have "last (question_rows (insert_answer d a) qnid qid) = (s, oid)"
    using a by (simp add: question_rows_def new_answer_def)
  ultimately show ?thesis using a d' by simp
qed

theorem answer_roundtrip_witness:
  "fst (post_answer after_q01 ''QQ000'' ''Q02'' ''AAAA'' ''Q02A1'') =
     Http_200 (new_answer ''QQ000'' ''Q02'' ''AAAA'' ''Q02A1'') \<and>
   last (question_rows (snd (post_answer after_q01 ''QQ000'' ''Q02'' ''AAAA'' ''Q02A1''))
     ''QQ000'' ''Q02'') = (''AAAA'', ''Q02A1'')"
proof -
  have h: "fst (post_answer after_q01 ''QQ000'' ''Q02'' ''AAAA'' ''Q02A1'') =
             Http_200 (new_answer ''QQ000'' ''Q02'' ''AAAA'' ''Q02A1'')"
    by (simp add: post_answer_def after_q01_def sample_defs answer_fields_match_def
        session_filter_def later_answer_check_def projected_predecessor_def predecessor_match_def
        points_to_def previous_answer_filter_def telos_match_def new_answer_def save_answer_def
        answer_schema_ok_def)
  show ?thesis using h answer_roundtrip[OF h] by simp
qed

text \<open>
  C21 (functional). Resetting the answers of a stored questionnaire answers 200, leaves no
  answer to it, so that every session's answers and its export are "not found", and leaves
  the answers to every other questionnaire and all questionnaires as they were.
\<close>

theorem reset_q_clears_answers:
  assumes "find_questionnaires d (\<lambda>q. questionnaireID q = qnid) \<noteq> []"
  shows "fst (post_reset_q d qnid) = Http_200 ''OK'' \<and>
         get_session_answers (snd (post_reset_q d qnid)) qnid s fmt = Http_402 msg_no_answers \<and>
         get_export_answers (snd (post_reset_q d qnid)) qnid = Http_402 msg_no_questionnaire \<and>
         questionnaires (snd (post_reset_q d qnid)) = questionnaires d \<and>
         (\<forall>q'. q' \<noteq> qnid \<longrightarrow>
            find_answers (snd (post_reset_q d qnid)) (\<lambda>a. questionnaireIDRef a = q') =
            find_answers d (\<lambda>a. questionnaireIDRef a = q'))"
proof -
  have d': "snd (post_reset_q d qnid) = delete_answers d (\<lambda>a. questionnaireIDRef a = qnid)"
    and r: "fst (post_reset_q d qnid) = Http_200 ''OK''"
    using assms by (simp_all add: post_reset_q_def)
  have s: "session_rows (snd (post_reset_q d qnid)) qnid s = []"
    unfolding d' session_rows_def by (simp add: filter_deleted session_filter_def del: filter_filter)
  have e: "get_export_answers (snd (post_reset_q d qnid)) qnid = Http_402 msg_no_questionnaire"
    unfolding d' get_export_answers_def by (simp add: filter_deleted del: filter_filter)
  have o: "find_answers (snd (post_reset_q d qnid)) (\<lambda>a. questionnaireIDRef a = q') =
           find_answers d (\<lambda>a. questionnaireIDRef a = q')" if "q' \<noteq> qnid" for q'
    unfolding d' using that by (auto intro: filter_cong)
  show ?thesis using r s e o by (simp add: get_session_answers_def d')
qed

theorem reset_q_clears_answers_witness:
  "find_questionnaires after_q02 (\<lambda>q. questionnaireID q = ''QQ000'') \<noteq> [] \<and>
   get_session_answers (snd (post_reset_q after_q02 ''QQ000'')) ''QQ000'' ''AAAA'' Format_json =
     Http_402 msg_no_answers"
proof -
  have h: "find_questionnaires after_q02 (\<lambda>q. questionnaireID q = ''QQ000'') \<noteq> []"
    by (simp add: after_q02_def sample_defs)
  show ?thesis using h reset_q_clears_answers[OF h, of "''AAAA''" Format_json] by simp
qed

text \<open>
  After resetting everything no questionnaire is found and every
  submission is refused for its fields.
\<close>

lemma reset_all_forgets_everything:
  "get_questionnaire (snd (post_reset_all d)) qnid fmt = Http_402 msg_no_questionnaire \<and>
   post_answer (snd (post_reset_all d)) qnid qid s oid =
     (Http_402 msg_check_fields, snd (post_reset_all d))"
  by (simp add: post_reset_all_def get_questionnaire_def post_answer_def)

end
